theory Spec2Isabelle
  imports Main "HOL-Library.Char_ord" "HOL-Library.List_Lexorder"
begin

section \<open>JavaScript values at the boundary\<close>

text \<open>
  A raw record is whatever \<^verbatim>\<open>JSON.parse\<close> hands to the normalizer: the type
  \<^verbatim>\<open>RawWAFRecord\<close> ends in an index signature \<^verbatim>\<open>[key: string]: unknown\<close>, so every
  field may hold any JSON value. Numbers are modelled by their integer value
  (\<^verbatim>\<open>NaN\<close> is a value of its own); a fractional number and the rounding of doubles
  are outside the model. A string is a list of 8-bit code units. An object is the list of
  its own properties, one entry per key.
\<close>

datatype jsval =
    JUndefined
  | JNull
  | JBool bool
  | JNaN
  | JNum int
  | JStr string
  | JArr "jsval list"
  | JObj "(string \<times> jsval) list"

datatype js_error = TypeError

text \<open>ToBoolean: \<^verbatim>\<open>undefined\<close>, \<^verbatim>\<open>null\<close>, \<^verbatim>\<open>false\<close>, \<^verbatim>\<open>0\<close>, \<^verbatim>\<open>NaN\<close> and \<^verbatim>\<open>""\<close> are falsy.\<close>

fun truthy :: "jsval \<Rightarrow> bool" where
  "truthy JUndefined = False"
| "truthy JNull = False"
| "truthy (JBool b) = b"
| "truthy JNaN = False"
| "truthy (JNum n) = (n \<noteq> 0)"
| "truthy (JStr s) = (s \<noteq> [])"
| "truthy (JArr xs) = True"
| "truthy (JObj kvs) = True"

text \<open>The operator \<^verbatim>\<open>a || b\<close> on values.\<close>

definition js_or :: "jsval \<Rightarrow> jsval \<Rightarrow> jsval" where
  "js_or a b = (if truthy a then a else b)"

text \<open>\<^verbatim>\<open>a || b\<close> where both sides are \<^verbatim>\<open>string | undefined\<close>: the empty string is falsy.\<close>

definition str_or :: "string option \<Rightarrow> string option \<Rightarrow> string option" where
  "str_or a b = (case a of Some s \<Rightarrow> (if s \<noteq> [] then a else b) | None \<Rightarrow> b)"

text \<open>\<^verbatim>\<open>a || b\<close> where both sides are \<^verbatim>\<open>number | undefined\<close>: zero is falsy.\<close>

definition num_or :: "int option \<Rightarrow> int option \<Rightarrow> int option" where
  "num_or a b = (case a of Some n \<Rightarrow> (if n \<noteq> 0 then a else b) | None \<Rightarrow> b)"

text \<open>
  Property read \<^verbatim>\<open>raw.key\<close> on a value that is neither \<^verbatim>\<open>null\<close> nor \<^verbatim>\<open>undefined\<close>. None
  of the keys the normalizer reads is a built-in property of strings, numbers, booleans or
  arrays, so on those the read gives \<^verbatim>\<open>undefined\<close>.
\<close>

fun get :: "jsval \<Rightarrow> string \<Rightarrow> jsval" where
  "get (JObj kvs) k = (case map_of kvs k of Some v \<Rightarrow> v | None \<Rightarrow> JUndefined)"
| "get v k = JUndefined"

section \<open>String built-ins used by the normalizer\<close>

definition isWhiteSpace :: "char \<Rightarrow> bool" where
  "isWhiteSpace c = (of_char c \<in> {9, 10, 11, 12, 13, 32, 160 :: nat})"

definition digitVal :: "char \<Rightarrow> nat option" where
  "digitVal c =
     (let n = (of_char c :: nat) in
      if 48 \<le> n \<and> n \<le> 57 then Some (n - 48)
      else if 97 \<le> n \<and> n \<le> 122 then Some (n - 87)
      else if 65 \<le> n \<and> n \<le> 90 then Some (n - 55)
      else None)"

definition isDigit :: "nat \<Rightarrow> char \<Rightarrow> bool" where
  "isDigit R c = (case digitVal c of Some d \<Rightarrow> d < R | None \<Rightarrow> False)"

fun digitsValue :: "nat \<Rightarrow> nat \<Rightarrow> string \<Rightarrow> nat" where
  "digitsValue R acc [] = acc"
| "digitsValue R acc (c # cs) =
     digitsValue R (acc * R + (case digitVal c of Some d \<Rightarrow> d | None \<Rightarrow> 0)) cs"

text \<open>
  \<^verbatim>\<open>parseInt(string, radix)\<close> for the two ways the source calls it: radix \<open>0\<close> stands for
  the missing radix of \<^verbatim>\<open>parseInt(value)\<close> (decimal, or hexadecimal after a \<^verbatim>\<open>0x\<close> prefix)
  and radix \<open>10\<close> for \<^verbatim>\<open>parseInt(value, 10)\<close>. \<open>None\<close> is \<^verbatim>\<open>NaN\<close>.
\<close>

definition parseInt :: "string \<Rightarrow> nat \<Rightarrow> int option" where
  "parseInt inputString radix =
     (let S = dropWhile isWhiteSpace inputString;
          neg = (S \<noteq> [] \<and> hd S = CHR ''-'');
          S1 = (if S \<noteq> [] \<and> (hd S = CHR ''+'' \<or> hd S = CHR ''-'') then tl S else S);
          stripPrefix = (radix = 0 \<or> radix = 16);
          R0 = (if radix = 0 then 10 else radix);
          hex = (stripPrefix \<and> (take 2 S1 = ''0x'' \<or> take 2 S1 = ''0X''));
          S2 = (if hex then drop 2 S1 else S1);
          R = (if hex then 16 else R0);
          Z = takeWhile (isDigit R) S2
      in if radix \<noteq> 0 \<and> (radix < 2 \<or> 36 < radix) then None
         else if Z = [] then None
         else Some ((if neg then - 1 else 1) * int (digitsValue R 0 Z)))"

text \<open>\<^verbatim>\<open>s.startsWith(p)\<close> and \<^verbatim>\<open>s.includes(p)\<close>.\<close>

definition startsWith :: "string \<Rightarrow> string \<Rightarrow> bool" where
  "startsWith s p = (take (length p) s = p)"

fun js_includes :: "string \<Rightarrow> string \<Rightarrow> bool" where
  "js_includes [] p = (p = [])"
| "js_includes (c # cs) p = (startsWith (c # cs) p \<or> js_includes cs p)"

text \<open>
  \<^verbatim>\<open>toLowerCase\<close> on the letters A to Z. The result is only compared with lower-case
  ASCII words, and no other 8-bit code unit lower-cases to an ASCII letter.
\<close>

definition toLowerChar :: "char \<Rightarrow> char" where
  "toLowerChar c =
     (let n = (of_char c :: nat) in if 65 \<le> n \<and> n \<le> 90 then char_of (n + 32) else c)"

definition toLowerCase :: "string \<Rightarrow> string" where
  "toLowerCase s = map toLowerChar s"

text \<open>\<^verbatim>\<open>s.replace(/[_-]/g, '')\<close>.\<close>

definition stripSeparators :: "string \<Rightarrow> string" where
  "stripSeparators s = filter (\<lambda>c. c \<noteq> CHR ''_'' \<and> c \<noteq> CHR ''-'') s"

section \<open>The canonical event\<close>

datatype rule_class = Managed | Custom | UnknownRule

datatype action_class = Block | Challenge | Log | Skip | Allow | UnknownAction

text \<open>
  The interface \<^verbatim>\<open>WAFEvent\<close>: every field but the correlation id and the timestamp is
  optional (\<open>None\<close> is \<^verbatim>\<open>undefined\<close>). The field \<^verbatim>\<open>method\<close> is \<open>http_method\<close>
  here, since the source's name is a reserved word.
\<close>

record WAFEvent =
  ray_id :: string
  event_ts :: int
  src_ip :: "string option"
  src_country :: "string option"
  src_asn :: "int option"
  colo :: "string option"
  host :: "string option"
  path :: "string option"
  http_method :: "string option"
  status :: "int option"
  rule_id :: "string option"
  rule_name :: "string option"
  rule_type :: "rule_class option"
  action :: "action_class option"
  service :: "string option"
  mitigation_reason :: "string option"
  ua :: "string option"
  ja3 :: "string option"
  bytes :: "int option"
  threat_score :: "int option"

section \<open>Field Normalizer\<close>

definition safeString :: "jsval \<Rightarrow> string option" where
  "safeString v = (case v of JStr s \<Rightarrow> (if length s > 0 then Some s else None) | _ \<Rightarrow> None)"

definition extractString :: "jsval \<Rightarrow> string option" where
  "extractString v = (case v of JStr s \<Rightarrow> (if length s > 0 then Some s else None) | _ \<Rightarrow> None)"

text \<open>
  \<^verbatim>\<open>normalizeTimestamp\<close>. \<^verbatim>\<open>Date.parse\<close> is a built-in of the platform whose result on
  anything but the ISO format is left to the engine; it is the parameter \<open>dateParse\<close>, with
  \<open>None\<close> for \<^verbatim>\<open>NaN\<close>.
\<close>

definition normalizeTimestamp :: "(string \<Rightarrow> int option) \<Rightarrow> jsval \<Rightarrow> int option" where
  "normalizeTimestamp dateParse v =
     (if \<not> truthy v then None
      else case v of
        JNum n \<Rightarrow> (if n < 10000000000 then Some (n * 1000) else Some n)
      | JStr s \<Rightarrow>
          (case dateParse s of
             Some parsed \<Rightarrow> Some parsed
           | None \<Rightarrow>
               (case parseInt s 0 of
                  Some num \<Rightarrow> Some (if num < 10000000000 then num * 1000 else num)
                | None \<Rightarrow> None))
      | _ \<Rightarrow> None)"

definition normalizeNumber :: "jsval \<Rightarrow> int option" where
  "normalizeNumber v =
     (case v of
        JNull \<Rightarrow> None
      | JUndefined \<Rightarrow> None
      | JNum n \<Rightarrow> Some n
      | JNaN \<Rightarrow> None
      | JStr s \<Rightarrow> parseInt s 10
      | _ \<Rightarrow> None)"

definition normalizeAction :: "string option \<Rightarrow> action_class" where
  "normalizeAction a =
     (case a of
        None \<Rightarrow> UnknownAction
      | Some s \<Rightarrow>
          (if s = [] then UnknownAction
           else let normalized = stripSeparators (toLowerCase s) in
             if normalized = ''block'' \<or> normalized = ''blocked'' then Block
             else if normalized = ''challenge'' \<or> normalized = ''challenged''
                   \<or> normalized = ''jschallenge'' \<or> normalized = ''managedchallenge''
                   \<or> normalized = ''managed_challenge'' then Challenge
             else if normalized = ''log'' \<or> normalized = ''logged'' then Log
             else if normalized = ''skip'' \<or> normalized = ''skipped''
                   \<or> normalized = ''bypass'' then Skip
             else if normalized = ''allow'' \<or> normalized = ''allowed''
                   \<or> normalized = ''pass'' then Allow
             else UnknownAction))"

definition determineRuleType :: "string option \<Rightarrow> string option \<Rightarrow> rule_class" where
  "determineRuleType ruleId svc =
     (case ruleId of
        None \<Rightarrow> UnknownRule
      | Some r \<Rightarrow>
          (if r = [] then UnknownRule
           else if startsWith r ''managed_'' \<or> js_includes r ''OWASP''
                 \<or> js_includes r ''cloudflare'' \<or> svc = Some ''managed'' then Managed
           else if startsWith r ''custom_'' \<or> svc = Some ''custom'' then Custom
           else UnknownRule))"

text \<open>
  The pattern the source repeats for list-valued fields: the first element of the first
  non-empty array variant if it is a string, else the first singular key that holds a
  string.
\<close>

definition isNonEmptyArray :: "jsval \<Rightarrow> bool" where
  "isNonEmptyArray v = (case v of JArr xs \<Rightarrow> length xs > 0 | _ \<Rightarrow> False)"

definition firstIfString :: "jsval \<Rightarrow> string option" where
  "firstIfString v =
     (case v of JArr (JStr s # xs) \<Rightarrow> Some s | _ \<Rightarrow> None)"

definition ifString :: "jsval \<Rightarrow> string option" where
  "ifString v = (case v of JStr s \<Rightarrow> Some s | _ \<Rightarrow> None)"

fun firstStringKey :: "jsval \<Rightarrow> string list \<Rightarrow> string option" where
  "firstStringKey raw [] = None"
| "firstStringKey raw (k # ks) =
     (case get raw k of JStr s \<Rightarrow> Some s | _ \<Rightarrow> firstStringKey raw ks)"

definition listOrSingular :: "jsval \<Rightarrow> string \<Rightarrow> string \<Rightarrow> string list \<Rightarrow> string option" where
  "listOrSingular raw K1 K2 singular =
     (if isNonEmptyArray (get raw K1) then firstIfString (get raw K1)
      else if isNonEmptyArray (get raw K2) then firstIfString (get raw K2)
      else firstStringKey raw singular)"

text \<open>The values the normalizer computes before it builds the event.\<close>

definition rawRayId :: "jsval \<Rightarrow> string option" where
  "rawRayId raw =
     str_or (extractString (get raw ''RayID'')) (str_or (extractString (get raw ''rayId''))
       (str_or (extractString (get raw ''ray_id'')) (str_or (extractString (get raw ''rayName''))
         (extractString (get raw ''ray_name'')))))"

definition rawTimestamp :: "jsval \<Rightarrow> jsval" where
  "rawTimestamp raw =
     js_or (get raw ''EdgeStartTimestamp'') (js_or (get raw ''edgeStartTimestamp'')
       (js_or (get raw ''timestamp'') (js_or (get raw ''event_timestamp'')
         (get raw ''datetime''))))"

definition rawSrcAsn :: "jsval \<Rightarrow> int option" where
  "rawSrcAsn raw =
     normalizeNumber
       (js_or (get raw ''ClientASN'') (js_or (get raw ''clientASN'')
         (js_or (get raw ''client_asn'') (js_or (get raw ''clientAsn'')
           (get raw ''client_asn'')))))"

definition rawStatus :: "jsval \<Rightarrow> int option" where
  "rawStatus raw =
     normalizeNumber
       (js_or (get raw ''EdgeResponseStatus'') (js_or (get raw ''edgeResponseStatus'')
         (js_or (get raw ''status'') (js_or (get raw ''edgeResponseStatus'')
           (get raw ''edge_response_status'')))))"

definition rawBytes :: "jsval \<Rightarrow> int option" where
  "rawBytes raw =
     normalizeNumber
       (js_or (get raw ''ClientRequestBytes'') (js_or (get raw ''clientRequestBytes'')
         (js_or (get raw ''bytes'') (js_or (get raw ''clientRequestBytes'')
           (get raw ''client_request_bytes'')))))"

definition rawThreatScore :: "jsval \<Rightarrow> int option" where
  "rawThreatScore raw =
     normalizeNumber
       (js_or (get raw ''SecurityLevel'') (js_or (get raw ''securityLevel'')
         (get raw ''threat_score'')))"

fun firstExtracted :: "jsval \<Rightarrow> string list \<Rightarrow> string option" where
  "firstExtracted raw [] = None"
| "firstExtracted raw [k] = extractString (get raw k)"
| "firstExtracted raw (k # ks) = str_or (extractString (get raw k)) (firstExtracted raw ks)"

fun firstSafe :: "jsval \<Rightarrow> string list \<Rightarrow> string option" where
  "firstSafe raw [] = None"
| "firstSafe raw [k] = safeString (get raw k)"
| "firstSafe raw (k # ks) = str_or (safeString (get raw k)) (firstSafe raw ks)"

text \<open>
  The body of \<^verbatim>\<open>parseWAFRecord\<close> inside its \<^verbatim>\<open>try\<close>. The first statement reads
  \<^verbatim>\<open>raw.RayID\<close>, which throws a TypeError when \<open>raw\<close> is \<^verbatim>\<open>null\<close> or \<^verbatim>\<open>undefined\<close>;
  nothing else in the body can throw.
\<close>

definition parseWAFRecord_body ::
  "(string \<Rightarrow> int option) \<Rightarrow> jsval \<Rightarrow> js_error + WAFEvent option" where
  "parseWAFRecord_body dateParse raw =
     (if raw = JNull \<or> raw = JUndefined then Inl TypeError
      else
        let rayId = rawRayId raw in
        case rayId of
          None \<Rightarrow> Inr None
        | Some rid \<Rightarrow>
            (let eventTs = normalizeTimestamp dateParse (rawTimestamp raw) in
             if eventTs = None \<or> eventTs = Some 0 then Inr None
             else
               let srcIp = firstExtracted raw [''ClientIP'', ''clientIP'', ''client_ip'', ''source_ip''];
                   srcCountry = firstExtracted raw [''ClientCountry'', ''clientCountry'',
                       ''client_country'', ''clientCountryName'', ''client_country_name''];
                   srcAsn = rawSrcAsn raw;
                   colo_v = firstExtracted raw [''EdgeColoCode'', ''edgeColoCode'', ''colo'',
                       ''datacenter'', ''edgeColo'', ''edge_colo''];
                   host_v = firstExtracted raw [''ClientRequestHost'', ''clientRequestHost'',
                       ''host'', ''hostname'', ''clientRequestHTTPHost'',
                       ''client_request_http_host''];
                   path_v = firstExtracted raw [''ClientRequestPath'', ''clientRequestPath'',
                       ''path'', ''uri'', ''clientRequestPath'', ''client_request_path''];
                   method_v = firstExtracted raw [''ClientRequestMethod'',
                       ''clientRequestMethod'', ''method'', ''clientRequestHTTPMethodName'',
                       ''client_request_http_method_name''];
                   status_v = rawStatus raw;
                   ruleId = listOrSingular raw ''FirewallMatchesRuleIDs''
                       ''firewallMatchesRuleIDs'' [''rule_id'', ''ruleId'', ''WAFRuleID'', ''wafRuleID''];
                   actionValue = listOrSingular raw ''FirewallMatchesActions''
                       ''firewallMatchesActions'' [''action'', ''WAFAction'', ''wafAction''];
                   action_v = normalizeAction actionValue;
                   service_v = listOrSingular raw ''FirewallMatchesSources''
                       ''firewallMatchesSources'' [''service'', ''source''];
                   ruleName = firstSafe raw [''WAFRuleMessage'', ''wafRuleMessage'', ''rule_name'',
                       ''description''];
                   ruleType = determineRuleType ruleId service_v;
                   ua_v = firstExtracted raw [''ClientRequestUserAgent'',
                       ''clientRequestUserAgent'', ''user_agent'', ''ua'', ''userAgent''];
                   ja3_v = firstExtracted raw [''JA3Hash'', ''ja3Hash'', ''ja3''];
                   bytes_v = rawBytes raw;
                   threatScore = rawThreatScore raw
               in Inr (Some \<lparr>
                    ray_id = rid,
                    event_ts = the eventTs,
                    src_ip = str_or srcIp None,
                    src_country = str_or srcCountry None,
                    src_asn = num_or srcAsn None,
                    colo = str_or colo_v None,
                    host = str_or host_v None,
                    path = str_or path_v None,
                    http_method = str_or method_v None,
                    status = num_or status_v None,
                    rule_id = str_or ruleId None,
                    rule_name = ruleName,
                    rule_type = Some ruleType,
                    action = Some action_v,
                    service = str_or service_v None,
                    mitigation_reason = safeString (get raw ''mitigation_reason''),
                    ua = str_or ua_v None,
                    ja3 = str_or ja3_v None,
                    bytes = num_or bytes_v None,
                    threat_score = num_or threatScore None \<rparr>)))"

text \<open>
  \<^verbatim>\<open>parseWAFRecord\<close> with its \<^verbatim>\<open>try\<close>/\<^verbatim>\<open>catch\<close>: the handler logs and returns
  \<^verbatim>\<open>null\<close>. The result keeps the sum type, so that "does not throw" is a statement about
  the value: \<open>Inl\<close> would be an exception that escapes.
\<close>

definition parseWAFRecord_try ::
  "(string \<Rightarrow> int option) \<Rightarrow> jsval \<Rightarrow> js_error + WAFEvent option" where
  "parseWAFRecord_try dateParse raw =
     (case parseWAFRecord_body dateParse raw of
        Inl e \<Rightarrow> Inr None
      | Inr r \<Rightarrow> Inr r)"

definition parseWAFRecord :: "(string \<Rightarrow> int option) \<Rightarrow> jsval \<Rightarrow> WAFEvent option" where
  "parseWAFRecord dateParse raw =
     (case parseWAFRecord_try dateParse raw of Inl e \<Rightarrow> None | Inr r \<Rightarrow> r)"

section \<open>The platform\<close>

text \<open>
  Built-ins that the repository calls but does not define are parameters of the model:
  \<^verbatim>\<open>JSON.parse\<close> (\<open>Inl\<close> carries the thrown SyntaxError as the template literal
  \<^verbatim>\<open>${e}\<close> renders it), \<^verbatim>\<open>Date.parse\<close>, the SHA-256 digest of the encoded text,
  \<^verbatim>\<open>Date.now()\<close> (one reading for a request), the hexadecimal text of the \<open>n\<close>-th
  \<^verbatim>\<open>randomblob(16)\<close> the store draws, and SQLite's \<^verbatim>\<open>date(t, 'unixepoch')\<close>.
\<close>

record platform =
  JSON_parse :: "string \<Rightarrow> string + jsval"
  Date_parse :: "string \<Rightarrow> int option"
  digest_SHA256 :: "string \<Rightarrow> nat list"
  Date_now :: int
  randomblob_hex :: "nat \<Rightarrow> string"
  sql_date :: "int \<Rightarrow> string"

definition hexDigit :: "nat \<Rightarrow> char" where
  "hexDigit n = (if n < 10 then char_of (48 + n) else char_of (87 + n))"

text \<open>\<^verbatim>\<open>b.toString(16).padStart(2, '0')\<close> for a byte.\<close>

definition hexByte :: "nat \<Rightarrow> string" where
  "hexByte b = [hexDigit ((b div 16) mod 16), hexDigit (b mod 16)]"

definition computeChecksum :: "platform \<Rightarrow> string \<Rightarrow> string" where
  "computeChecksum P content = concat (map hexByte (digest_SHA256 P content))"

section \<open>Content Parser\<close>

definition LF :: char where
  "LF = char_of (10 :: nat)"

text \<open>\<^verbatim>\<open>content.split('\n')\<close>: the empty text gives one empty line.\<close>

fun split_on :: "char \<Rightarrow> string \<Rightarrow> string list" where
  "split_on c [] = [[]]"
| "split_on c (x # xs) =
     (if x = c then [] # split_on c xs
      else case split_on c xs of
             l # ls \<Rightarrow> (x # l) # ls
           | [] \<Rightarrow> [[x]])"

definition trim :: "string \<Rightarrow> string" where
  "trim s = rev (dropWhile isWhiteSpace (rev (dropWhile isWhiteSpace s)))"

text \<open>\<^verbatim>\<open>content.split('\n').filter(line => line.trim())\<close>.\<close>

definition nonBlankLines :: "string \<Rightarrow> string list" where
  "nonBlankLines content = filter (\<lambda>line. trim line \<noteq> []) (split_on LF content)"

definition error_text :: "js_error \<Rightarrow> string" where
  "error_text e = (case e of TypeError \<Rightarrow> ''TypeError'')"

text \<open>
  The loop over the elements of a JSON array. The \<^verbatim>\<open>catch\<close> of the source is the
  \<open>Inl\<close> branch.
\<close>

fun parseRecords ::
  "(string \<Rightarrow> int option) \<Rightarrow> jsval list \<Rightarrow> WAFEvent list \<times> string list
     \<Rightarrow> WAFEvent list \<times> string list" where
  "parseRecords dateParse [] (events, errors) = (events, errors)"
| "parseRecords dateParse (record # rest) (events, errors) =
     (case parseWAFRecord_try dateParse record of
        Inr (Some event) \<Rightarrow> parseRecords dateParse rest (events @ [event], errors)
      | Inr None \<Rightarrow> parseRecords dateParse rest (events, errors)
      | Inl e \<Rightarrow>
          parseRecords dateParse rest
            (events, errors @ [''Failed to parse record: '' @ error_text e]))"

text \<open>The loop over the lines: \<^verbatim>\<open>JSON.parse(line)\<close> and the normalizer share one \<^verbatim>\<open>try\<close>.\<close>

fun parseLines ::
  "platform \<Rightarrow> string list \<Rightarrow> WAFEvent list \<times> string list
     \<Rightarrow> WAFEvent list \<times> string list" where
  "parseLines P [] (events, errors) = (events, errors)"
| "parseLines P (line # rest) (events, errors) =
     (case JSON_parse P line of
        Inl e \<Rightarrow> parseLines P rest (events, errors @ [''Failed to parse line: '' @ e])
      | Inr record \<Rightarrow>
          (case parseWAFRecord_try (Date_parse P) record of
             Inr (Some event) \<Rightarrow> parseLines P rest (events @ [event], errors)
           | Inr None \<Rightarrow> parseLines P rest (events, errors)
           | Inl e \<Rightarrow>
               parseLines P rest
                 (events, errors @ [''Failed to parse line: '' @ error_text e])))"

text \<open>\<^verbatim>\<open>parseContent\<close> of the upload handler.\<close>

definition parseContent :: "platform \<Rightarrow> string \<Rightarrow> WAFEvent list \<times> string list" where
  "parseContent P content =
     (case JSON_parse P content of
        Inr (JArr data) \<Rightarrow> parseRecords (Date_parse P) data ([], [])
      | _ \<Rightarrow> parseLines P (nonBlankLines content) ([], []))"

text \<open>
  The parsing written inline in \<^verbatim>\<open>handleReindex\<close>: here the line-oriented loop sits in
  the \<^verbatim>\<open>catch\<close> of the whole-content parse.
\<close>

definition reindexParse :: "platform \<Rightarrow> string \<Rightarrow> WAFEvent list \<times> string list" where
  "reindexParse P content =
     (case JSON_parse P content of
        Inr data \<Rightarrow>
          (case data of
             JArr elems \<Rightarrow> parseRecords (Date_parse P) elems ([], [])
           | _ \<Rightarrow> ([], []))
      | Inl e \<Rightarrow> parseLines P (nonBlankLines content) ([], []))"

text \<open>
  What the specification says of one line, for comparison with the loop: the event a line
  contributes and the error it contributes.
\<close>

definition line_event :: "platform \<Rightarrow> string \<Rightarrow> WAFEvent option" where
  "line_event P line =
     (case JSON_parse P line of
        Inl e \<Rightarrow> None
      | Inr record \<Rightarrow> parseWAFRecord (Date_parse P) record)"

definition line_error :: "platform \<Rightarrow> string \<Rightarrow> string option" where
  "line_error P line =
     (case JSON_parse P line of
        Inl e \<Rightarrow> Some (''Failed to parse line: '' @ e)
      | Inr record \<Rightarrow> None)"

section \<open>The store\<close>

text \<open>
  The tables of the schema, each a list of rows. A nullable column is an \<open>option\<close>.
  Every \<^verbatim>\<open>INSERT INTO waf_events\<close> of the repository binds a correlation id, a timestamp,
  an action and a file id, so a stored event has them. The text column that holds a JSON
  array is modelled by the array, whose elements may be \<^verbatim>\<open>null\<close>.
\<close>

record upload_row =
  upload_id :: nat
  filename :: string
  checksum :: string
  file_size :: nat
  uploaded_at :: int
  raw_r2_key :: "string option"
  total_records :: "nat option"
  inserted_records :: "nat option"
  deduped_records :: "nat option"

record event_row =
  row_id :: nat
  row_ray_id :: string
  row_event_ts :: int
  row_src_ip :: "string option"
  row_src_country :: "string option"
  row_src_asn :: "int option"
  row_colo :: "string option"
  row_host :: "string option"
  row_path :: "string option"
  row_method :: "string option"
  row_status :: "int option"
  row_rule_id :: "string option"
  row_rule_name :: "string option"
  row_rule_type :: "rule_class option"
  row_action :: action_class
  row_service :: "string option"
  row_mitigation_reason :: "string option"
  row_ua :: "string option"
  row_ja3 :: "string option"
  row_bytes :: "int option"
  row_threat_score :: "int option"
  row_file_id :: nat
  row_ingested_at :: int

record daily_action_row =
  da_date :: string
  da_action :: action_class
  da_count :: nat
  da_last_updated :: int

record top_rule_row =
  tr_rule_id :: string
  tr_rule_name :: "string option"
  tr_rule_type :: "string option"
  tr_count :: nat
  tr_last_seen :: "int option"
  tr_last_updated :: int

record top_ip_row =
  ti_src_ip :: string
  ti_count :: nat
  ti_countries :: "string option list"
  ti_asns :: "int option list"
  ti_last_seen :: "int option"
  ti_last_updated :: int

record attack_path_row =
  ap_path_hash :: string
  ap_path :: string
  ap_method :: "string option"
  ap_status :: "int option"
  ap_count :: nat
  ap_last_seen :: "int option"
  ap_last_updated :: int

text \<open>
  The database: the six tables, the two AUTOINCREMENT counters, and how many random blobs
  the store has drawn so far.
\<close>

record db =
  uploads :: "upload_row list"
  uploads_seq :: nat
  waf_events :: "event_row list"
  waf_events_seq :: nat
  daily_actions :: "daily_action_row list"
  top_rules :: "top_rule_row list"
  top_ips :: "top_ip_row list"
  attack_paths :: "attack_path_row list"
  random_drawn :: nat

record env =
  DB :: db
  R2 :: "(string \<times> string) list option"
  ENABLE_R2_STORAGE :: "string option"
  MAX_BATCH_SIZE :: "string option"

section \<open>Batched Upsert Engine\<close>

text \<open>The dedup key \<^verbatim>\<open>UNIQUE(ray_id, event_ts)\<close>.\<close>

definition row_key :: "event_row \<Rightarrow> string \<times> int" where
  "row_key r = (row_ray_id r, row_event_ts r)"

definition event_key :: "WAFEvent \<Rightarrow> string \<times> int" where
  "event_key e = (ray_id e, event_ts e)"

text \<open>
  The parameters \<^verbatim>\<open>stmt.bind(...)\<close> gives one event: \<^verbatim>\<open>x || null\<close> on the optional
  fields, \<^verbatim>\<open>x || 'unknown'\<close> on the two classifications. The row id is assigned by the store
  when the row is written.
\<close>

definition bindEvent :: "int \<Rightarrow> nat \<Rightarrow> WAFEvent \<Rightarrow> event_row" where
  "bindEvent now fileId event = \<lparr>
     row_id = 0,
     row_ray_id = ray_id event,
     row_event_ts = event_ts event,
     row_src_ip = str_or (src_ip event) None,
     row_src_country = str_or (src_country event) None,
     row_src_asn = num_or (src_asn event) None,
     row_colo = str_or (colo event) None,
     row_host = str_or (host event) None,
     row_path = str_or (path event) None,
     row_method = str_or (http_method event) None,
     row_status = num_or (status event) None,
     row_rule_id = str_or (rule_id event) None,
     row_rule_name = str_or (rule_name event) None,
     row_rule_type = (case rule_type event of Some t \<Rightarrow> Some t | None \<Rightarrow> Some UnknownRule),
     row_action = (case action event of Some a \<Rightarrow> a | None \<Rightarrow> UnknownAction),
     row_service = str_or (service event) None,
     row_mitigation_reason = str_or (mitigation_reason event) None,
     row_ua = str_or (ua event) None,
     row_ja3 = str_or (ja3 event) None,
     row_bytes = num_or (bytes event) None,
     row_threat_score = num_or (threat_score event) None,
     row_file_id = fileId,
     row_ingested_at = now \<rparr>"

text \<open>
  One \<^verbatim>\<open>INSERT OR IGNORE INTO waf_events\<close>: a row whose key is already stored is
  skipped and the statement reports no change; the id the statement drew for it is spent
  (\<^verbatim>\<open>AUTOINCREMENT\<close>). A row with a new key must name a stored upload
  (\<^verbatim>\<open>file_id INTEGER REFERENCES uploads(id)\<close>), or the statement fails;
  \<^verbatim>\<open>OR IGNORE\<close> does not cover that constraint. Otherwise the row is written under the
  next id and the statement reports one change.
\<close>

definition insertOrIgnore :: "event_row \<Rightarrow> db \<Rightarrow> string + nat \<times> db" where
  "insertOrIgnore r d =
     (if row_key r \<in> set (map row_key (waf_events d))
      then Inr (0, d\<lparr> waf_events_seq := Suc (waf_events_seq d) \<rparr>)
      else if row_file_id r \<notin> set (map upload_id (uploads d))
      then Inl ''FOREIGN KEY constraint failed''
      else Inr (1, d\<lparr> waf_events := waf_events d @ [r\<lparr> row_id := Suc (waf_events_seq d) \<rparr>],
                      waf_events_seq := Suc (waf_events_seq d) \<rparr>))"

text \<open>
  \<^verbatim>\<open>env.DB.batch(batch)\<close>: the statements in order, one \<^verbatim>\<open>meta.changes\<close> each. The
  batch is one transaction: when a statement fails the call throws and the store is as it
  was before the batch.
\<close>

fun db_batch :: "event_row list \<Rightarrow> db \<Rightarrow> string + nat list \<times> db" where
  "db_batch [] d = Inr ([], d)"
| "db_batch (r # rs) d =
     (case insertOrIgnore r d of
        Inl err \<Rightarrow> Inl err
      | Inr (c, d1) \<Rightarrow>
          (case db_batch rs d1 of
             Inl err \<Rightarrow> Inl err
           | Inr (cs, d2) \<Rightarrow> Inr (c # cs, d2)))"

text \<open>The tally loop over the results.\<close>

fun tally :: "nat list \<Rightarrow> nat \<times> nat \<Rightarrow> nat \<times> nat" where
  "tally [] (inserted, deduped) = (inserted, deduped)"
| "tally (changes # rest) (inserted, deduped) =
     (if changes > 0 then tally rest (inserted + 1, deduped)
      else tally rest (inserted, deduped + 1))"

text \<open>
  \<^verbatim>\<open>insertEventBatch\<close> has no \<^verbatim>\<open>try\<close>: a failure of the batch is a failure of the
  call (\<open>Inl\<close>).
\<close>

definition insertEventBatch ::
  "int \<Rightarrow> WAFEvent list \<Rightarrow> nat \<Rightarrow> db \<Rightarrow> string + (nat \<times> nat) \<times> db" where
  "insertEventBatch now events fileId d =
     (let batch = map (bindEvent now fileId) events
      in case db_batch batch d of
           Inl err \<Rightarrow> Inl err
         | Inr (results, d') \<Rightarrow> Inr (tally results (0, 0), d'))"

text \<open>The constraint the store keeps on \<^verbatim>\<open>waf_events\<close>.\<close>

definition unique_events :: "db \<Rightarrow> bool" where
  "unique_events d = distinct (map row_key (waf_events d))"

definition rows_with_key :: "string \<times> int \<Rightarrow> db \<Rightarrow> event_row list" where
  "rows_with_key k d = filter (\<lambda>r. row_key r = k) (waf_events d)"

section \<open>Analytics Rollup Updater\<close>

text \<open>The scalar \<^verbatim>\<open>MAX(a, b)\<close> of SQLite: \<^verbatim>\<open>NULL\<close> as soon as one argument is.\<close>

definition sql_max2 :: "int option \<Rightarrow> int option \<Rightarrow> int option" where
  "sql_max2 a b =
     (case a of None \<Rightarrow> None
      | Some x \<Rightarrow> (case b of None \<Rightarrow> None | Some y \<Rightarrow> Some (max x y)))"

text \<open>The aggregate \<^verbatim>\<open>MAX(x)\<close> over a group: \<^verbatim>\<open>NULL\<close>s are skipped.\<close>

fun agg_max :: "('a :: linorder) option list \<Rightarrow> 'a option" where
  "agg_max [] = None"
| "agg_max (None # xs) = agg_max xs"
| "agg_max (Some v # xs) = (case agg_max xs of None \<Rightarrow> Some v | Some w \<Rightarrow> Some (max v w))"

text \<open>\<^verbatim>\<open>GROUP BY\<close>: the distinct keys, and the rows of one key.\<close>

definition group_keys :: "('r \<Rightarrow> 'k) \<Rightarrow> 'r list \<Rightarrow> 'k list" where
  "group_keys f rows = remdups (map f rows)"

definition group_of :: "('r \<Rightarrow> 'k) \<Rightarrow> 'r list \<Rightarrow> 'k \<Rightarrow> 'r list" where
  "group_of f rows k = filter (\<lambda>r. f r = k) rows"

text \<open>
  \<^verbatim>\<open>INSERT ... ON CONFLICT(key) DO UPDATE\<close> of one row: the stored row in conflict is
  updated in place, and without a conflict the new row is added.
\<close>

fun upsert :: "('r \<Rightarrow> bool) \<Rightarrow> ('r \<Rightarrow> 'r) \<Rightarrow> 'r \<Rightarrow> 'r list \<Rightarrow> 'r list" where
  "upsert conflict update new [] = [new]"
| "upsert conflict update new (r # rs) =
     (if conflict r then update r # rs else r # upsert conflict update new rs)"

text \<open>\<^verbatim>\<open>strftime('%s', 'now') * 1000\<close>: the clock in whole seconds, times 1000.\<close>

definition last_updated_now :: "platform \<Rightarrow> int" where
  "last_updated_now P = (Date_now P div 1000) * 1000"

text \<open>\<^verbatim>\<open>event_ts / 1000\<close> on integers truncates towards zero.\<close>

definition sql_div1000 :: "int \<Rightarrow> int" where
  "sql_div1000 t = sgn t * (\<bar>t\<bar> div 1000)"

definition rule_class_text :: "rule_class \<Rightarrow> string" where
  "rule_class_text t = (case t of Managed \<Rightarrow> ''managed'' | Custom \<Rightarrow> ''custom''
                        | UnknownRule \<Rightarrow> ''unknown'')"

definition file_rows :: "nat \<Rightarrow> db \<Rightarrow> event_row list" where
  "file_rows fileId d = filter (\<lambda>r. row_file_id r = fileId) (waf_events d)"

subsection \<open>Daily actions\<close>

definition daily_key :: "platform \<Rightarrow> event_row \<Rightarrow> string \<times> action_class" where
  "daily_key P r = (sql_date P (sql_div1000 (row_event_ts r)), row_action r)"

definition daily_selected :: "platform \<Rightarrow> nat \<Rightarrow> db \<Rightarrow> daily_action_row list" where
  "daily_selected P fileId d =
     (let rows = file_rows fileId d in
      map (\<lambda>k. \<lparr> da_date = fst k, da_action = snd k,
                  da_count = length (group_of (daily_key P) rows k),
                  da_last_updated = last_updated_now P \<rparr>)
          (group_keys (daily_key P) rows))"

definition daily_upsert :: "platform \<Rightarrow> daily_action_row \<Rightarrow> daily_action_row list
    \<Rightarrow> daily_action_row list" where
  "daily_upsert P excluded tbl =
     upsert (\<lambda>r. da_date r = da_date excluded \<and> da_action r = da_action excluded)
            (\<lambda>r. r\<lparr> da_count := da_count r + da_count excluded,
                     da_last_updated := last_updated_now P \<rparr>)
            excluded tbl"

subsection \<open>Top rules\<close>

definition rules_selected :: "platform \<Rightarrow> nat \<Rightarrow> db \<Rightarrow> top_rule_row list" where
  "rules_selected P fileId d =
     (let rows = filter (\<lambda>r. row_rule_id r \<noteq> None) (file_rows fileId d) in
      map (\<lambda>k. let g = group_of row_rule_id rows k in
                \<lparr> tr_rule_id = the k,
                  tr_rule_name = agg_max (map row_rule_name g),
                  tr_rule_type = agg_max (map (map_option rule_class_text \<circ> row_rule_type) g),
                  tr_count = length g,
                  tr_last_seen = agg_max (map (Some \<circ> row_event_ts) g),
                  tr_last_updated = last_updated_now P \<rparr>)
          (group_keys row_rule_id rows))"

definition rules_upsert :: "platform \<Rightarrow> top_rule_row \<Rightarrow> top_rule_row list
    \<Rightarrow> top_rule_row list" where
  "rules_upsert P excluded tbl =
     upsert (\<lambda>r. tr_rule_id r = tr_rule_id excluded)
            (\<lambda>r. r\<lparr> tr_count := tr_count r + tr_count excluded,
                     tr_last_seen := sql_max2 (tr_last_seen r) (tr_last_seen excluded),
                     tr_last_updated := last_updated_now P \<rparr>)
            excluded tbl"

subsection \<open>Top IPs\<close>

definition ips_selected :: "platform \<Rightarrow> nat \<Rightarrow> db \<Rightarrow> top_ip_row list" where
  "ips_selected P fileId d =
     (let rows = filter (\<lambda>r. row_src_ip r \<noteq> None) (file_rows fileId d) in
      map (\<lambda>k. let g = group_of row_src_ip rows k in
                \<lparr> ti_src_ip = the k,
                  ti_count = length g,
                  ti_countries = remdups (map row_src_country g),
                  ti_asns = remdups (map row_src_asn g),
                  ti_last_seen = agg_max (map (Some \<circ> row_event_ts) g),
                  ti_last_updated = last_updated_now P \<rparr>)
          (group_keys row_src_ip rows))"

text \<open>
  The conflict clause of \<^verbatim>\<open>top_ips\<close> sets \<^verbatim>\<open>count\<close>, \<^verbatim>\<open>last_seen\<close> and
  \<^verbatim>\<open>last_updated\<close>; it names neither \<^verbatim>\<open>countries\<close> nor \<^verbatim>\<open>asns\<close>.
\<close>

definition ips_upsert :: "platform \<Rightarrow> top_ip_row \<Rightarrow> top_ip_row list \<Rightarrow> top_ip_row list" where
  "ips_upsert P excluded tbl =
     upsert (\<lambda>r. ti_src_ip r = ti_src_ip excluded)
            (\<lambda>r. r\<lparr> ti_count := ti_count r + ti_count excluded,
                     ti_last_seen := sql_max2 (ti_last_seen r) (ti_last_seen excluded),
                     ti_last_updated := last_updated_now P \<rparr>)
            excluded tbl"

subsection \<open>Attack paths\<close>

definition path_key :: "event_row \<Rightarrow> string option \<times> string option \<times> int option" where
  "path_key r = (row_path r, row_method r, row_status r)"

text \<open>
  Each selected row takes its \<^verbatim>\<open>path_hash\<close> from a fresh
  \<^verbatim>\<open>lower(hex(randomblob(16)))\<close>: the \<open>i\<close>-th group gets the blob the store draws next.
\<close>

definition paths_selected :: "platform \<Rightarrow> nat \<Rightarrow> db \<Rightarrow> attack_path_row list" where
  "paths_selected P fileId d =
     (let rows = filter (\<lambda>r. row_path r \<noteq> None) (file_rows fileId d);
          keys = group_keys path_key rows
      in map (\<lambda>(i, k). let g = group_of path_key rows k in
                \<lparr> ap_path_hash = randomblob_hex P (random_drawn d + i),
                  ap_path = the (fst k),
                  ap_method = fst (snd k),
                  ap_status = snd (snd k),
                  ap_count = length g,
                  ap_last_seen = agg_max (map (Some \<circ> row_event_ts) g),
                  ap_last_updated = last_updated_now P \<rparr>)
             (zip [0 ..< length keys] keys))"

definition paths_upsert :: "platform \<Rightarrow> attack_path_row \<Rightarrow> attack_path_row list
    \<Rightarrow> attack_path_row list" where
  "paths_upsert P excluded tbl =
     upsert (\<lambda>r. ap_path_hash r = ap_path_hash excluded)
            (\<lambda>r. r\<lparr> ap_count := ap_count r + ap_count excluded,
                     ap_last_seen := sql_max2 (ap_last_seen r) (ap_last_seen excluded),
                     ap_last_updated := last_updated_now P \<rparr>)
            excluded tbl"

text \<open>\<^verbatim>\<open>updateAnalyticsTables\<close>: the four statements in the order of the source.\<close>

definition updateAnalyticsTables :: "platform \<Rightarrow> nat \<Rightarrow> db \<Rightarrow> db" where
  "updateAnalyticsTables P fileId d =
     (let d1 = d\<lparr> daily_actions := fold (daily_upsert P) (daily_selected P fileId d)
                                         (daily_actions d) \<rparr>;
          d2 = d1\<lparr> top_rules := fold (rules_upsert P) (rules_selected P fileId d1)
                                      (top_rules d1) \<rparr>;
          d3 = d2\<lparr> top_ips := fold (ips_upsert P) (ips_selected P fileId d2) (top_ips d2) \<rparr>;
          sel = paths_selected P fileId d3
      in d3\<lparr> attack_paths := fold (paths_upsert P) sel (attack_paths d3),
              random_drawn := random_drawn d3 + length sel \<rparr>)"

section \<open>Upload: the Checksum/Dedup Gate and the ingestion\<close>

text \<open>
  A call either returns a value or throws; a throw is recorded with its message and with the
  state that the statements before it have left. One situation is left out of the model
  and is a third outcome: a batch size that is not a positive integer (the batch loop then
  passes empty batches to the store or never advances).
\<close>

datatype ('a, 's) outcome = Returned 'a | Threw string 's | Unmodelled

record upload_file =
  f_name :: string
  f_text :: string
  f_size :: nat

datatype upload_status = Success | AlreadyProcessed | NoValidEvents

text \<open>
  The object \<^verbatim>\<open>processFile\<close> returns; a key the branch does not set is \<open>None\<close>. The
  time range is kept in milliseconds (the source renders it with \<^verbatim>\<open>toISOString\<close>).
\<close>

record file_result =
  res_filename :: string
  res_checksum :: string
  res_status :: upload_status
  res_file_id :: nat
  res_inserted :: "nat option"
  res_deduped :: "nat option"
  res_total :: "nat option"
  res_errors :: "string list option"
  res_parse_errors :: "nat option"
  res_time_range :: "(int \<times> int) option"
  res_note :: "string option"

text \<open>\<^verbatim>\<open>SELECT ... FROM uploads WHERE checksum = ?\<close> with \<^verbatim>\<open>first()\<close>.\<close>

definition uploadByChecksum :: "string \<Rightarrow> db \<Rightarrow> upload_row option" where
  "uploadByChecksum c d = find (\<lambda>u. checksum u = c) (uploads d)"

definition uploadById :: "nat \<Rightarrow> db \<Rightarrow> upload_row option" where
  "uploadById i d = find (\<lambda>u. upload_id u = i) (uploads d)"

text \<open>
  \<^verbatim>\<open>DELETE FROM uploads WHERE id = ?\<close>; the events of the file go with it
  (\<^verbatim>\<open>file_id ... REFERENCES uploads(id) ON DELETE CASCADE\<close>).
\<close>

definition deleteUpload :: "nat \<Rightarrow> db \<Rightarrow> db" where
  "deleteUpload i d =
     d\<lparr> uploads := filter (\<lambda>u. upload_id u \<noteq> i) (uploads d),
        waf_events := filter (\<lambda>r. row_file_id r \<noteq> i) (waf_events d) \<rparr>"

text \<open>
  \<^verbatim>\<open>INSERT INTO uploads (filename, checksum, size, uploaded_at)\<close>: the counters take
  their default 0; a second row with the same checksum violates \<^verbatim>\<open>UNIQUE\<close>.
\<close>

definition insertUpload :: "string \<Rightarrow> string \<Rightarrow> nat \<Rightarrow> int \<Rightarrow> db \<Rightarrow> (nat \<times> db) option" where
  "insertUpload fname c sz now d =
     (if c \<in> set (map checksum (uploads d)) then None
      else let i = Suc (uploads_seq d) in
        Some (i, d\<lparr> uploads := uploads d @
                       [\<lparr> upload_id = i, filename = fname, checksum = c, file_size = sz,
                          uploaded_at = now, raw_r2_key = None, total_records = Some 0,
                          inserted_records = Some 0, deduped_records = Some 0 \<rparr>],
                    uploads_seq := i \<rparr>))"

definition updateUpload :: "nat \<Rightarrow> (upload_row \<Rightarrow> upload_row) \<Rightarrow> db \<Rightarrow> db" where
  "updateUpload i f d = d\<lparr> uploads := map (\<lambda>u. if upload_id u = i then f u else u) (uploads d) \<rparr>"

definition r2_put :: "string \<Rightarrow> string \<Rightarrow> (string \<times> string) list \<Rightarrow> (string \<times> string) list" where
  "r2_put k v store = (k, v) # filter (\<lambda>kv. fst kv \<noteq> k) store"

text \<open>
  The batch loop of \<^verbatim>\<open>processFile\<close>: \<^verbatim>\<open>events.slice(i, i + batchSize)\<close> for
  \<open>i = 0, batchSize, 2 * batchSize, ...\<close>. With a step of 0 the index never advances.
  When a batch fails the loop is left by the throw; the batches before it stay written.
\<close>

function insertBatches ::
  "int \<Rightarrow> nat \<Rightarrow> WAFEvent list \<Rightarrow> nat \<Rightarrow> nat \<times> nat \<Rightarrow> db
     \<Rightarrow> ((nat \<times> nat) \<times> db, db) outcome" where
  "insertBatches now batchSize events fileId (totalInserted, totalDeduped) d =
     (if events = [] then Returned ((totalInserted, totalDeduped), d)
      else if batchSize = 0 then Unmodelled
      else
        case insertEventBatch now (take batchSize events) fileId d of
          Inl err \<Rightarrow> Threw err d
        | Inr ((inserted, deduped), d') \<Rightarrow>
            insertBatches now batchSize (drop batchSize events) fileId
              (totalInserted + inserted, totalDeduped + deduped) d')"
  by pat_completeness auto
termination
  by (relation "measure (\<lambda>(now, batchSize, events, rest). length events)") auto

declare insertBatches.simps [simp del]

text \<open>\<^verbatim>\<open>Math.min(...xs)\<close> and \<^verbatim>\<open>Math.max(...xs)\<close> on a non-empty list.\<close>

definition math_min :: "int list \<Rightarrow> int" where
  "math_min xs = fold min (tl xs) (hd xs)"

definition math_max :: "int list \<Rightarrow> int" where
  "math_max xs = fold max (tl xs) (hd xs)"

text \<open>
  "Optionally store raw file in R2": with a bucket and \<^verbatim>\<open>ENABLE_R2_STORAGE === 'true'\<close> the
  text is put under \<^verbatim>\<open>uploads/<checksum>\<close> and the key is written to the upload.
\<close>

definition storeRaw :: "upload_file \<Rightarrow> string \<Rightarrow> nat \<Rightarrow> env \<Rightarrow> env" where
  "storeRaw f csum fileId e =
     (if R2 e \<noteq> None \<and> ENABLE_R2_STORAGE e = Some ''true''
      then let r2Key = ''uploads/'' @ csum in
        e\<lparr> R2 := Some (r2_put r2Key (f_text f) (the (R2 e))),
           DB := updateUpload fileId (\<lambda>u. u\<lparr> raw_r2_key := Some r2Key \<rparr>) (DB e) \<rparr>
      else e)"

text \<open>
  The part of \<^verbatim>\<open>processFile\<close> after the gate: store the metadata, keep the raw text if
  retention is on, parse, insert in batches, write the statistics, update the rollups.
\<close>

definition ingestFile ::
  "platform \<Rightarrow> upload_file \<Rightarrow> string \<Rightarrow> nat \<Rightarrow> env
     \<Rightarrow> (file_result \<times> env, env) outcome" where
  "ingestFile P f csum batchSize e =
     (case insertUpload (f_name f) csum (f_size f) (Date_now P) (DB e) of
        None \<Rightarrow> Threw ''UNIQUE constraint failed: uploads.checksum'' e
      | Some (fileId, d0) \<Rightarrow>
          let e1 = storeRaw f csum fileId (e\<lparr> DB := d0 \<rparr>);
              (events, errors) = parseContent P (f_text f)
          in if length events = 0 then
               Returned
                 (\<lparr> res_filename = f_name f, res_checksum = csum, res_status = NoValidEvents,
                    res_file_id = fileId, res_inserted = None, res_deduped = None,
                    res_total = None, res_errors = Some (take 10 errors),
                    res_parse_errors = Some (length errors), res_time_range = None,
                    res_note = None \<rparr>,
                  e1\<lparr> DB := updateUpload fileId (\<lambda>u. u\<lparr> total_records := Some 0 \<rparr>) (DB e1) \<rparr>)
             else
               (case insertBatches (Date_now P) batchSize events fileId (0, 0) (DB e1) of
                  Unmodelled \<Rightarrow> Unmodelled
                | Threw err d2 \<Rightarrow> Threw err (e1\<lparr> DB := d2 \<rparr>)
                | Returned ((totalInserted, totalDeduped), d2) \<Rightarrow>
                    let d3 = updateUpload fileId
                               (\<lambda>u. u\<lparr> total_records := Some (length events),
                                        inserted_records := Some totalInserted,
                                        deduped_records := Some totalDeduped \<rparr>) d2;
                        d4 = updateAnalyticsTables P fileId d3;
                        earliest = math_min (map event_ts events);
                        latest = math_max (map event_ts events)
                    in Returned
                         (\<lparr> res_filename = f_name f, res_checksum = csum, res_status = Success,
                            res_file_id = fileId, res_inserted = Some totalInserted,
                            res_deduped = Some totalDeduped, res_total = Some (length events),
                            res_errors = Some (take 10 errors), res_parse_errors = None,
                            res_time_range = Some (earliest, latest),
                            res_note =
                              (if earliest < Date_now P - 24 * 60 * 60 * 1000
                               then Some ''Events are outside the default 24-hour dashboard view. Adjust the date range to see them.''
                               else None) \<rparr>,
                          e1\<lparr> DB := d4 \<rparr>)))"

text \<open>\<^verbatim>\<open>x || 0\<close> on a nullable counter.\<close>

definition or_zero :: "nat option \<Rightarrow> nat" where
  "or_zero x = (case x of Some n \<Rightarrow> n | None \<Rightarrow> 0)"

definition processFile ::
  "platform \<Rightarrow> upload_file \<Rightarrow> env \<Rightarrow> nat \<Rightarrow> (file_result \<times> env, env) outcome" where
  "processFile P f e batchSize =
     (let content = f_text f;
          csum = computeChecksum P content
      in case uploadByChecksum csum (DB e) of
           None \<Rightarrow> ingestFile P f csum batchSize e
         | Some existingUpload \<Rightarrow>
             let insertedCount = or_zero (inserted_records existingUpload) in
             if insertedCount = 0 then
               ingestFile P f csum batchSize
                 (e\<lparr> DB := deleteUpload (upload_id existingUpload) (DB e) \<rparr>)
             else
               Returned
                 (\<lparr> res_filename = f_name f, res_checksum = csum,
                    res_status = AlreadyProcessed,
                    res_file_id = upload_id existingUpload,
                    res_inserted = Some insertedCount,
                    res_deduped = Some (or_zero (deduped_records existingUpload)),
                    res_total = Some (or_zero (total_records existingUpload)),
                    res_errors = None, res_parse_errors = None, res_time_range = None,
                    res_note = Some ''File was already processed. Use /api/reindex to reprocess.'' \<rparr>,
                  e))"

section \<open>Reindex Coordinator\<close>

record reindex_body =
  body_checksum :: "string option"
  body_file_id :: "nat option"

text \<open>
  The three bodies \<^verbatim>\<open>handleReindex\<close> answers with: \<^verbatim>\<open>{ error }\<close>, the success
  object, and \<^verbatim>\<open>{ error: 'Reindex failed', message }\<close> of its \<^verbatim>\<open>catch\<close>.
\<close>

datatype reindex_payload =
    ErrorBody string
  | ReindexOk nat string nat nat nat "string list"
  | ReindexFailed string

record response =
  resp_status :: nat
  resp_body :: reindex_payload

text \<open>
  The batch loop written inline in \<^verbatim>\<open>handleReindex\<close>: it binds the same parameters and
  counts into the running totals.
\<close>

function reindexBatches ::
  "int \<Rightarrow> nat \<Rightarrow> WAFEvent list \<Rightarrow> nat \<Rightarrow> nat \<times> nat \<Rightarrow> db
     \<Rightarrow> ((nat \<times> nat) \<times> db, db) outcome" where
  "reindexBatches now batchSize events fileId (totalInserted, totalDeduped) d =
     (if events = [] then Returned ((totalInserted, totalDeduped), d)
      else if batchSize = 0 then Unmodelled
      else
        let batchStmts = map (bindEvent now fileId) (take batchSize events)
        in case db_batch batchStmts d of
             Inl err \<Rightarrow> Threw err d
           | Inr (results, d') \<Rightarrow>
               reindexBatches now batchSize (drop batchSize events) fileId
                 (tally results (totalInserted, totalDeduped)) d')"
  by pat_completeness auto
termination
  by (relation "measure (\<lambda>(now, batchSize, events, rest). length events)") auto

declare reindexBatches.simps [simp del]

text \<open>
  \<^verbatim>\<open>parseInt(env.MAX_BATCH_SIZE || '1000')\<close>; the result 0 stands for every value that
  is not a positive integer.
\<close>

definition configuredBatchSize :: "env \<Rightarrow> nat" where
  "configuredBatchSize e =
     (case parseInt (the (str_or (MAX_BATCH_SIZE e) (Some ''1000''))) 0 of
        None \<Rightarrow> 0
      | Some n \<Rightarrow> (if n > 0 then nat n else 0))"

text \<open>
  \<^verbatim>\<open>handleReindex\<close> on the parsed request body. It deletes the events of the file,
  parses the retained text again, inserts in batches and overwrites the statistics of the
  upload; then it answers. There is no further statement between the statistics and the
  response. The whole body is in a \<^verbatim>\<open>try\<close>: a failing batch is answered with status 500.
\<close>

definition handleReindex ::
  "platform \<Rightarrow> reindex_body \<Rightarrow> env \<Rightarrow> (response \<times> env, env) outcome" where
  "handleReindex P body e =
     (if str_or (body_checksum body) None = None \<and> num_or (map_option int (body_file_id body)) None = None
      then Returned (\<lparr> resp_status = 400,
                       resp_body = ErrorBody ''Either checksum or file_id is required'' \<rparr>, e)
      else
        let fileInfo = (case str_or (body_checksum body) None of
                          Some c \<Rightarrow> uploadByChecksum c (DB e)
                        | None \<Rightarrow> uploadById (the (body_file_id body)) (DB e))
        in case fileInfo of
             None \<Rightarrow> Returned (\<lparr> resp_status = 404, resp_body = ErrorBody ''File not found'' \<rparr>, e)
           | Some info \<Rightarrow>
               if R2 e = None \<or> str_or (raw_r2_key info) None = None then
                 Returned (\<lparr> resp_status = 400,
                             resp_body = ErrorBody ''Raw file not available for reprocessing'' \<rparr>, e)
               else
                 (case map_of (the (R2 e)) (the (raw_r2_key info)) of
                    None \<Rightarrow>
                      Returned (\<lparr> resp_status = 404,
                                  resp_body = ErrorBody ''Raw file not found in R2'' \<rparr>, e)
                  | Some content \<Rightarrow>
                      let d1 = (DB e)\<lparr> waf_events :=
                                 filter (\<lambda>r. row_file_id r \<noteq> upload_id info) (waf_events (DB e)) \<rparr>;
                          (events, errors) = reindexParse P content;
                          batchSize = configuredBatchSize e
                      in case reindexBatches (Date_now P) batchSize events (upload_id info)
                                (0, 0) d1 of
                           Unmodelled \<Rightarrow> Unmodelled
                         | Threw err d2 \<Rightarrow>
                             Returned (\<lparr> resp_status = 500, resp_body = ReindexFailed err \<rparr>,
                                       e\<lparr> DB := d2 \<rparr>)
                         | Returned ((totalInserted, totalDeduped), d2) \<Rightarrow>
                             let d3 = updateUpload (upload_id info)
                                        (\<lambda>u. u\<lparr> total_records := Some (length events),
                                                 inserted_records := Some totalInserted,
                                                 deduped_records := Some totalDeduped \<rparr>) d2
                             in Returned
                                  (\<lparr> resp_status = 200,
                                     resp_body = ReindexOk (upload_id info) (filename info)
                                       (length events) totalInserted totalDeduped
                                       (take 10 errors) \<rparr>,
                                   e\<lparr> DB := d3 \<rparr>)))"

section \<open>The handlers, step by step\<close>

text \<open>
  The same handlers written as a chain of steps, each taking the result of the call before
  it. They are proved equal to \<open>ingestFile\<close>, \<open>processFile\<close> and \<open>handleReindex\<close> below and
  serve to evaluate them on concrete inputs.
\<close>

fun ingest_inserted ::
  "platform \<Rightarrow> upload_file \<Rightarrow> string \<Rightarrow> nat \<Rightarrow> env \<Rightarrow> WAFEvent list \<Rightarrow> string list
     \<Rightarrow> ((nat \<times> nat) \<times> db, db) outcome \<Rightarrow> (file_result \<times> env, env) outcome" where
  "ingest_inserted P f csum fileId e1 events errors Unmodelled = Unmodelled"
| "ingest_inserted P f csum fileId e1 events errors (Threw err d2) =
     Threw err (e1\<lparr> DB := d2 \<rparr>)"
| "ingest_inserted P f csum fileId e1 events errors
     (Returned ((totalInserted, totalDeduped), d2)) =
     (let d3 = updateUpload fileId
                 (\<lambda>u. u\<lparr> total_records := Some (length events),
                          inserted_records := Some totalInserted,
                          deduped_records := Some totalDeduped \<rparr>) d2;
          d4 = updateAnalyticsTables P fileId d3;
          earliest = math_min (map event_ts events);
          latest = math_max (map event_ts events)
      in Returned
           (\<lparr> res_filename = f_name f, res_checksum = csum, res_status = Success,
              res_file_id = fileId, res_inserted = Some totalInserted,
              res_deduped = Some totalDeduped, res_total = Some (length events),
              res_errors = Some (take 10 errors), res_parse_errors = None,
              res_time_range = Some (earliest, latest),
              res_note =
                (if earliest < Date_now P - 24 * 60 * 60 * 1000
                 then Some ''Events are outside the default 24-hour dashboard view. Adjust the date range to see them.''
                 else None) \<rparr>,
            e1\<lparr> DB := d4 \<rparr>))"

fun ingest_parsed ::
  "platform \<Rightarrow> upload_file \<Rightarrow> string \<Rightarrow> nat \<Rightarrow> nat \<Rightarrow> env \<Rightarrow> WAFEvent list \<times> string list
     \<Rightarrow> (file_result \<times> env, env) outcome" where
  "ingest_parsed P f csum batchSize fileId e1 (events, errors) =
     (if length events = 0 then
        Returned
          (\<lparr> res_filename = f_name f, res_checksum = csum, res_status = NoValidEvents,
             res_file_id = fileId, res_inserted = None, res_deduped = None,
             res_total = None, res_errors = Some (take 10 errors),
             res_parse_errors = Some (length errors), res_time_range = None,
             res_note = None \<rparr>,
           e1\<lparr> DB := updateUpload fileId (\<lambda>u. u\<lparr> total_records := Some 0 \<rparr>) (DB e1) \<rparr>)
      else ingest_inserted P f csum fileId e1 events errors
             (insertBatches (Date_now P) batchSize events fileId (0, 0) (DB e1)))"

fun ingest_stored ::
  "platform \<Rightarrow> upload_file \<Rightarrow> string \<Rightarrow> nat \<Rightarrow> env \<Rightarrow> (nat \<times> db) option
     \<Rightarrow> (file_result \<times> env, env) outcome" where
  "ingest_stored P f csum batchSize e None =
     Threw ''UNIQUE constraint failed: uploads.checksum'' e"
| "ingest_stored P f csum batchSize e (Some (fileId, d0)) =
     ingest_parsed P f csum batchSize fileId (storeRaw f csum fileId (e\<lparr> DB := d0 \<rparr>))
       (parseContent P (f_text f))"

fun gate_found ::
  "platform \<Rightarrow> upload_file \<Rightarrow> env \<Rightarrow> nat \<Rightarrow> string \<Rightarrow> upload_row option
     \<Rightarrow> (file_result \<times> env, env) outcome" where
  "gate_found P f e batchSize csum None = ingestFile P f csum batchSize e"
| "gate_found P f e batchSize csum (Some existingUpload) =
     (if or_zero (inserted_records existingUpload) = 0 then
        ingestFile P f csum batchSize
          (e\<lparr> DB := deleteUpload (upload_id existingUpload) (DB e) \<rparr>)
      else
        Returned
          (\<lparr> res_filename = f_name f, res_checksum = csum,
             res_status = AlreadyProcessed,
             res_file_id = upload_id existingUpload,
             res_inserted = Some (or_zero (inserted_records existingUpload)),
             res_deduped = Some (or_zero (deduped_records existingUpload)),
             res_total = Some (or_zero (total_records existingUpload)),
             res_errors = None, res_parse_errors = None, res_time_range = None,
             res_note = Some ''File was already processed. Use /api/reindex to reprocess.'' \<rparr>,
           e))"

fun reindex_inserted ::
  "env \<Rightarrow> upload_row \<Rightarrow> WAFEvent list \<Rightarrow> string list \<Rightarrow> ((nat \<times> nat) \<times> db, db) outcome
     \<Rightarrow> (response \<times> env, env) outcome" where
  "reindex_inserted e info events errors Unmodelled = Unmodelled"
| "reindex_inserted e info events errors (Threw err d2) =
     Returned (\<lparr> resp_status = 500, resp_body = ReindexFailed err \<rparr>, e\<lparr> DB := d2 \<rparr>)"
| "reindex_inserted e info events errors (Returned ((totalInserted, totalDeduped), d2)) =
     Returned
       (\<lparr> resp_status = 200,
          resp_body = ReindexOk (upload_id info) (filename info)
            (length events) totalInserted totalDeduped (take 10 errors) \<rparr>,
        e\<lparr> DB := updateUpload (upload_id info)
                    (\<lambda>u. u\<lparr> total_records := Some (length events),
                             inserted_records := Some totalInserted,
                             deduped_records := Some totalDeduped \<rparr>) d2 \<rparr>)"

fun reindex_parsed ::
  "platform \<Rightarrow> env \<Rightarrow> upload_row \<Rightarrow> WAFEvent list \<times> string list
     \<Rightarrow> (response \<times> env, env) outcome" where
  "reindex_parsed P e info (events, errors) =
     reindex_inserted e info events errors
       (reindexBatches (Date_now P) (configuredBatchSize e) events (upload_id info) (0, 0)
          ((DB e)\<lparr> waf_events :=
               filter (\<lambda>r. row_file_id r \<noteq> upload_id info) (waf_events (DB e)) \<rparr>))"

fun reindex_content ::
  "platform \<Rightarrow> env \<Rightarrow> upload_row \<Rightarrow> string option \<Rightarrow> (response \<times> env, env) outcome" where
  "reindex_content P e info None =
     Returned (\<lparr> resp_status = 404, resp_body = ErrorBody ''Raw file not found in R2'' \<rparr>, e)"
| "reindex_content P e info (Some content) = reindex_parsed P e info (reindexParse P content)"

fun reindex_found ::
  "platform \<Rightarrow> env \<Rightarrow> upload_row option \<Rightarrow> (response \<times> env, env) outcome" where
  "reindex_found P e None =
     Returned (\<lparr> resp_status = 404, resp_body = ErrorBody ''File not found'' \<rparr>, e)"
| "reindex_found P e (Some info) =
     (if R2 e = None \<or> str_or (raw_r2_key info) None = None then
        Returned (\<lparr> resp_status = 400,
                    resp_body = ErrorBody ''Raw file not available for reprocessing'' \<rparr>, e)
      else reindex_content P e info (map_of (the (R2 e)) (the (raw_r2_key info))))"

section \<open>Auxiliary notions for the proofs\<close>

text \<open>The keys that are stored in \<^verbatim>\<open>waf_events\<close>.\<close>

definition stored_keys :: "db \<Rightarrow> (string \<times> int) set" where
  "stored_keys d = row_key ` set (waf_events d)"

text \<open>Two values that the timestamp chain cannot tell apart.\<close>

definition ts_equiv :: "(string \<Rightarrow> int option) \<Rightarrow> jsval \<Rightarrow> jsval \<Rightarrow> bool" where
  "ts_equiv dp x y = (truthy x = truthy y \<and> normalizeTimestamp dp x = normalizeTimestamp dp y)"

text \<open>The keys the normalizer reads for the correlation id and for the timestamp.\<close>

definition rayIdKeys :: "string list" where
  "rayIdKeys = [''RayID'', ''rayId'', ''ray_id'', ''rayName'', ''ray_name'']"

definition timestampKeys :: "string list" where
  "timestampKeys = [''EdgeStartTimestamp'', ''edgeStartTimestamp'', ''timestamp'',
     ''event_timestamp'', ''datetime'']"

text \<open>The keys the normalizer reads for the optional fields.\<close>

definition optionalKeys :: "string list" where
  "optionalKeys = [''ClientIP'', ''clientIP'', ''client_ip'', ''source_ip'',
     ''ClientCountry'', ''clientCountry'', ''client_country'', ''clientCountryName'',
     ''client_country_name'',
     ''ClientASN'', ''clientASN'', ''client_asn'', ''clientAsn'',
     ''EdgeColoCode'', ''edgeColoCode'', ''colo'', ''datacenter'', ''edgeColo'', ''edge_colo'',
     ''ClientRequestHost'', ''clientRequestHost'', ''host'', ''hostname'',
     ''clientRequestHTTPHost'', ''client_request_http_host'',
     ''ClientRequestPath'', ''clientRequestPath'', ''path'', ''uri'', ''client_request_path'',
     ''ClientRequestMethod'', ''clientRequestMethod'', ''method'',
     ''clientRequestHTTPMethodName'', ''client_request_http_method_name'',
     ''EdgeResponseStatus'', ''edgeResponseStatus'', ''status'', ''edge_response_status'',
     ''FirewallMatchesRuleIDs'', ''firewallMatchesRuleIDs'', ''rule_id'', ''ruleId'',
     ''WAFRuleID'', ''wafRuleID'',
     ''FirewallMatchesActions'', ''firewallMatchesActions'', ''action'', ''WAFAction'',
     ''wafAction'',
     ''FirewallMatchesSources'', ''firewallMatchesSources'', ''service'', ''source'',
     ''WAFRuleMessage'', ''wafRuleMessage'', ''rule_name'', ''description'',
     ''ClientRequestUserAgent'', ''clientRequestUserAgent'', ''user_agent'', ''ua'',
     ''userAgent'',
     ''JA3Hash'', ''ja3Hash'', ''ja3'',
     ''ClientRequestBytes'', ''clientRequestBytes'', ''bytes'', ''client_request_bytes'',
     ''SecurityLevel'', ''securityLevel'', ''threat_score'', ''mitigation_reason'']"

text \<open>Every key the normalizer reads apart from the timestamp keys.\<close>

definition otherKeys :: "string list" where
  "otherKeys = rayIdKeys @ optionalKeys"

text \<open>
  What a field can use: a text field a non-empty string; a numeric field a number other
  than 0, or a string in which \<^verbatim>\<open>parseInt(s, 10)\<close> reads a number other than 0; the
  array variant of a list-valued field an array whose first element is a non-empty string.
\<close>

definition is_text :: "jsval \<Rightarrow> bool" where
  "is_text v = (case v of JStr s \<Rightarrow> s \<noteq> [] | _ \<Rightarrow> False)"

definition is_numeric :: "jsval \<Rightarrow> bool" where
  "is_numeric v =
     (case v of
        JNum n \<Rightarrow> n \<noteq> 0
      | JStr s \<Rightarrow> (case parseInt s 10 of Some n \<Rightarrow> n \<noteq> 0 | None \<Rightarrow> False)
      | _ \<Rightarrow> False)"

definition is_text_list :: "jsval \<Rightarrow> bool" where
  "is_text_list v = (case v of JArr (JStr s # xs) \<Rightarrow> s \<noteq> [] | _ \<Rightarrow> False)"

text \<open>The decimal numeral of a natural number, as a JSON text or a CSV cell carries it.\<close>

fun decimal :: "nat \<Rightarrow> string" where
  "decimal n = (if n < 10 then [char_of (48 + n)]
                else decimal (n div 10) @ [char_of (48 + n mod 10)])"

declare decimal.simps [simp del]

text \<open>The ids of the stored uploads, and the store without one upload and its events.\<close>

definition upload_ids :: "db \<Rightarrow> nat set" where
  "upload_ids d = upload_id ` set (uploads d)"

definition rollup_tables :: "db \<Rightarrow> db \<Rightarrow> db" where
  "rollup_tables src d = d\<lparr> daily_actions := daily_actions src, top_rules := top_rules src,
     top_ips := top_ips src, attack_paths := attack_paths src,
     random_drawn := random_drawn src \<rparr>"

section \<open>Sample inputs\<close>

text \<open>
  Concrete inputs on which the results below are evaluated. The sample platform agrees with
  the real built-ins on the texts that occur here: two one-line JSON objects, the array of
  both, one ISO date with its time, and the year \<^verbatim>\<open>2023\<close>, which \<^verbatim>\<open>Date.parse\<close> reads
  as the ISO date of its first instant. Its digest and its random blobs are stand-ins; the
  general results hold for every platform.
\<close>

definition sample_line_a :: string where
  \<open>sample_line_a = ''{"RayID":"ray-a","EdgeStartTimestamp":1700000000,"ClientIP":"192.0.2.1","ClientCountry":"US","ClientASN":64500,"ClientRequestPath":"/login","ClientRequestMethod":"POST","EdgeResponseStatus":403}''\<close>

definition sample_record_a :: jsval where
  "sample_record_a = JObj [(''RayID'', JStr ''ray-a''), (''EdgeStartTimestamp'', JNum 1700000000),
     (''ClientIP'', JStr ''192.0.2.1''), (''ClientCountry'', JStr ''US''),
     (''ClientASN'', JNum 64500), (''ClientRequestPath'', JStr ''/login''),
     (''ClientRequestMethod'', JStr ''POST''), (''EdgeResponseStatus'', JNum 403)]"

definition sample_line_b :: string where
  \<open>sample_line_b = ''{"RayID":"ray-b","EdgeStartTimestamp":1700000050,"ClientIP":"192.0.2.1","ClientCountry":"DE","ClientASN":64501,"ClientRequestPath":"/login","ClientRequestMethod":"POST","EdgeResponseStatus":403}''\<close>

definition sample_record_b :: jsval where
  "sample_record_b = JObj [(''RayID'', JStr ''ray-b''), (''EdgeStartTimestamp'', JNum 1700000050),
     (''ClientIP'', JStr ''192.0.2.1''), (''ClientCountry'', JStr ''DE''),
     (''ClientASN'', JNum 64501), (''ClientRequestPath'', JStr ''/login''),
     (''ClientRequestMethod'', JStr ''POST''), (''EdgeResponseStatus'', JNum 403)]"

definition sample_array_text :: string where
  "sample_array_text = ''['' @ sample_line_a @ '','' @ sample_line_b @ '']''"

definition sample_JSON_parse :: "string \<Rightarrow> string + jsval" where
  "sample_JSON_parse s =
     (if s = sample_line_a then Inr sample_record_a
      else if s = sample_line_b then Inr sample_record_b
      else if s = sample_array_text then Inr (JArr [sample_record_a, sample_record_b])
      else Inl ''SyntaxError: Unexpected token'')"

definition sample_Date_parse :: "string \<Rightarrow> int option" where
  "sample_Date_parse s =
     (if s = ''2023-11-14T22:13:20Z'' then Some 1700000000000
      else if s = ''2023'' then Some 1672531200000
      else None)"

definition sample_digest :: "string \<Rightarrow> nat list" where
  "sample_digest s = map of_char (take 4 (drop 11 s))"

definition sample_blob :: "nat \<Rightarrow> string" where
  "sample_blob n = replicate 31 CHR ''0'' @ [hexDigit (n mod 16)]"

definition sample_date :: "int \<Rightarrow> string" where
  "sample_date t = (if 1699920000 \<le> t \<and> t < 1700006400 then ''2023-11-14'' else ''another day'')"

definition sample_platform :: platform where
  "sample_platform = \<lparr> JSON_parse = sample_JSON_parse, Date_parse = sample_Date_parse,
     digest_SHA256 = sample_digest, Date_now = 1700000100000,
     randomblob_hex = sample_blob, sql_date = sample_date \<rparr>"

definition empty_db :: db where
  "empty_db = \<lparr> uploads = [], uploads_seq = 0, waf_events = [], waf_events_seq = 0,
     daily_actions = [], top_rules = [], top_ips = [], attack_paths = [], random_drawn = 0 \<rparr>"

definition sample_env :: env where
  "sample_env = \<lparr> DB = empty_db, R2 = Some [], ENABLE_R2_STORAGE = Some ''true'',
     MAX_BATCH_SIZE = None \<rparr>"

definition sample_file_a :: upload_file where
  "sample_file_a = \<lparr> f_name = ''a.ndjson'', f_text = sample_line_a, f_size = length sample_line_a \<rparr>"

definition sample_file_b :: upload_file where
  "sample_file_b = \<lparr> f_name = ''b.ndjson'', f_text = sample_line_b, f_size = length sample_line_b \<rparr>"

definition sample_event_a :: WAFEvent where
  "sample_event_a = \<lparr> ray_id = ''ray-a'', event_ts = 1700000000000, src_ip = Some ''192.0.2.1'',
     src_country = Some ''US'', src_asn = Some 64500, colo = None, host = None,
     path = Some ''/login'', http_method = Some ''POST'', status = Some 403, rule_id = None,
     rule_name = None, rule_type = Some UnknownRule, action = Some UnknownAction,
     service = None, mitigation_reason = None, ua = None, ja3 = None, bytes = None,
     threat_score = None \<rparr>"

definition sample_event_b :: WAFEvent where
  "sample_event_b = sample_event_a\<lparr> ray_id := ''ray-b'', event_ts := 1700000050000,
     src_country := Some ''DE'', src_asn := Some 64501 \<rparr>"

definition sample_record_zero :: jsval where
  "sample_record_zero = JObj [(''RayID'', JStr ''ray-z''), (''timestamp'', JNum 1700000000),
     (''client_asn'', JNum 0), (''status'', JStr ''0''), (''client_request_bytes'', JNum 0),
     (''threat_score'', JStr ''0'')]"

definition sample_event_zero :: WAFEvent where
  "sample_event_zero = \<lparr> ray_id = ''ray-z'', event_ts = 1700000000000, src_ip = None,
     src_country = None, src_asn = None, colo = None, host = None,
     path = None, http_method = None, status = None, rule_id = None,
     rule_name = None, rule_type = Some UnknownRule, action = Some UnknownAction,
     service = None, mitigation_reason = None, ua = None, ja3 = None, bytes = None,
     threat_score = None \<rparr>"

definition sample_ndjson :: string where
  "sample_ndjson = sample_line_a @ [LF] @ ''not json'' @ [LF] @ ''   '' @ [LF] @ sample_line_b"

definition sample_file_ab :: upload_file where
  "sample_file_ab = \<lparr> f_name = ''ab.ndjson'', f_text = sample_line_a @ [LF] @ sample_line_b,
     f_size = length (sample_line_a @ [LF] @ sample_line_b) \<rparr>"

text \<open>The environment an upload leaves on the sample platform, with batches of 1000.\<close>

definition after_upload :: "upload_file \<Rightarrow> env \<Rightarrow> env" where
  "after_upload f e =
     (case processFile sample_platform f e 1000 of
        Returned (r, e') \<Rightarrow> e'
      | Threw err e' \<Rightarrow> e'
      | Unmodelled \<Rightarrow> e)"

text \<open>
  An environment after the upload of the second sample file and an attempt on the first
  one that broke off after its batch: the upload row of the attempt still has its counters
  at 0, and the event it wrote is stored under its id.
\<close>

definition sample_stale_row :: upload_row where
  "sample_stale_row = \<lparr> upload_id = 2, filename = ''a.ndjson'', checksum = ''61792d61'',
     file_size = 194, uploaded_at = 1700000090000, raw_r2_key = None,
     total_records = Some 0, inserted_records = Some 0, deduped_records = Some 0 \<rparr>"

definition sample_stale_event :: event_row where
  "sample_stale_event = (bindEvent 1700000090000 2 sample_event_a)\<lparr> row_id := 2 \<rparr>"

definition sample_env_stale :: env where
  "sample_env_stale =
     (let e = after_upload sample_file_b sample_env in
      e\<lparr> DB := (DB e)\<lparr> uploads := uploads (DB e) @ [sample_stale_row], uploads_seq := 2,
                        waf_events := waf_events (DB e) @ [sample_stale_event],
                        waf_events_seq := 2 \<rparr> \<rparr>)"

text \<open>A store with two uploads and no event.\<close>

definition sample_db_uploads :: db where
  "sample_db_uploads = empty_db\<lparr> uploads :=
       [sample_stale_row\<lparr> upload_id := 1 \<rparr>,
        sample_stale_row\<lparr> filename := ''b.ndjson'', checksum := ''61792d62'' \<rparr>],
     uploads_seq := 2 \<rparr>"

text \<open>
  A record with a correlation id, a timestamp and a host; each of its other fields is
  missing or holds a value of the wrong kind.
\<close>

definition sample_record_malformed :: jsval where
  "sample_record_malformed = JObj [(''ray_id'', JStr ''ray-m''), (''timestamp'', JNum 1700000000),
     (''ClientIP'', JNum 42), (''ClientCountry'', JStr []), (''ClientASN'', JStr ''n/a''),
     (''colo'', JBool True), (''host'', JStr ''example.com''), (''path'', JNull),
     (''method'', JArr [JStr ''GET'']), (''status'', JStr ''abc''),
     (''FirewallMatchesRuleIDs'', JArr [JNum 7]), (''action'', JObj []),
     (''service'', JNum 1), (''rule_name'', JNum 5), (''ua'', JStr []), (''ja3'', JNaN),
     (''bytes'', JArr [JNum 5]), (''threat_score'', JBool True),
     (''mitigation_reason'', JNum 0)]"

text \<open>The environment after the upload of the two-line sample file.\<close>

definition sample_env_ab :: env where
  "sample_env_ab = after_upload sample_file_ab sample_env"

text \<open>What the conflict clause of \<^verbatim>\<open>top_ips\<close> makes of a stored row.\<close>

definition ip_merge :: "platform \<Rightarrow> top_ip_row \<Rightarrow> top_ip_row \<Rightarrow> top_ip_row" where
  "ip_merge P excluded r = r\<lparr> ti_count := ti_count r + ti_count excluded,
                     ti_last_seen := sql_max2 (ti_last_seen r) (ti_last_seen excluded),
                     ti_last_updated := last_updated_now P \<rparr>"

text \<open>The rollup tables and the count of random blobs drawn.\<close>

definition rollups :: "db \<Rightarrow> daily_action_row list \<times> top_rule_row list \<times> top_ip_row list
    \<times> attack_path_row list \<times> nat" where
  "rollups d = (daily_actions d, top_rules d, top_ips d, attack_paths d, random_drawn d)"

section \<open>The step-by-step handlers are the handlers\<close>

lemma ingestFile_code [code]:
  "ingestFile P f csum batchSize e =
     ingest_stored P f csum batchSize e
       (insertUpload (f_name f) csum (f_size f) (Date_now P) (DB e))"
proof (cases "insertUpload (f_name f) csum (f_size f) (Date_now P) (DB e)")
  case None
  then show ?thesis by (simp add: ingestFile_def)
next
  case (Some a)
  obtain fileId d0 where a: "a = (fileId, d0)" by (cases a)
  obtain events errors where pc: "parseContent P (f_text f) = (events, errors)"
    by (cases "parseContent P (f_text f)")
  show ?thesis
  proof (cases "insertBatches (Date_now P) batchSize events fileId (0, 0)
                  (DB (storeRaw f csum fileId (e\<lparr> DB := d0 \<rparr>)))")
    case Unmodelled
    then show ?thesis using Some a pc by (simp add: ingestFile_def Let_def)
  next
    case (Threw err d2)
    then show ?thesis using Some a pc by (simp add: ingestFile_def Let_def)
  next
    case (Returned b)
    obtain ti td d2 where b: "b = ((ti, td), d2)" by (metis prod.exhaust)
    show ?thesis using Some a pc Returned b
      by (simp add: ingestFile_def Let_def)
  qed
qed

lemma processFile_code [code]:
  "processFile P f e batchSize =
     gate_found P f e batchSize (computeChecksum P (f_text f))
       (uploadByChecksum (computeChecksum P (f_text f)) (DB e))"
  by (cases "uploadByChecksum (computeChecksum P (f_text f)) (DB e)")
     (simp_all add: processFile_def Let_def)

lemma handleReindex_code [code]:
  "handleReindex P body e =
     (if str_or (body_checksum body) None = None
         \<and> num_or (map_option int (body_file_id body)) None = None
      then Returned (\<lparr> resp_status = 400,
                       resp_body = ErrorBody ''Either checksum or file_id is required'' \<rparr>, e)
      else reindex_found P e
             (case str_or (body_checksum body) None of
                Some c \<Rightarrow> uploadByChecksum c (DB e)
              | None \<Rightarrow> uploadById (the (body_file_id body)) (DB e)))"
proof -
  have f: "(case fileInfo of
              None \<Rightarrow> Returned (\<lparr> resp_status = 404, resp_body = ErrorBody ''File not found'' \<rparr>, e)
            | Some info \<Rightarrow>
               if R2 e = None \<or> str_or (raw_r2_key info) None = None then
                 Returned (\<lparr> resp_status = 400,
                             resp_body = ErrorBody ''Raw file not available for reprocessing'' \<rparr>, e)
               else
                 (case map_of (the (R2 e)) (the (raw_r2_key info)) of
                    None \<Rightarrow>
                      Returned (\<lparr> resp_status = 404,
                                  resp_body = ErrorBody ''Raw file not found in R2'' \<rparr>, e)
                  | Some content \<Rightarrow>
                      let d1 = (DB e)\<lparr> waf_events :=
                                 filter (\<lambda>r. row_file_id r \<noteq> upload_id info) (waf_events (DB e)) \<rparr>;
                          (events, errors) = reindexParse P content;
                          batchSize = configuredBatchSize e
                      in case reindexBatches (Date_now P) batchSize events (upload_id info)
                                (0, 0) d1 of
                           Unmodelled \<Rightarrow> Unmodelled
                         | Threw err d2 \<Rightarrow>
                             Returned (\<lparr> resp_status = 500, resp_body = ReindexFailed err \<rparr>,
                                       e\<lparr> DB := d2 \<rparr>)
                         | Returned ((totalInserted, totalDeduped), d2) \<Rightarrow>
                             let d3 = updateUpload (upload_id info)
                                        (\<lambda>u. u\<lparr> total_records := Some (length events),
                                                 inserted_records := Some totalInserted,
                                                 deduped_records := Some totalDeduped \<rparr>) d2
                             in Returned
                                  (\<lparr> resp_status = 200,
                                     resp_body = ReindexOk (upload_id info) (filename info)
                                       (length events) totalInserted totalDeduped
                                       (take 10 errors) \<rparr>,
                                   e\<lparr> DB := d3 \<rparr>)))
           = reindex_found P e fileInfo" for fileInfo
  proof (cases fileInfo)
    case None
    then show ?thesis by simp
  next
    case (Some info)
    show ?thesis
    proof (cases "map_of (the (R2 e)) (the (raw_r2_key info))")
      case None
      then show ?thesis using Some by simp
    next
      case c: (Some content)
      obtain events errors where pc: "reindexParse P content = (events, errors)"
        by (cases "reindexParse P content")
      show ?thesis
      proof (cases "reindexBatches (Date_now P) (configuredBatchSize e) events (upload_id info)
                      (0, 0)
                      ((DB e)\<lparr> waf_events :=
                          filter (\<lambda>r. row_file_id r \<noteq> upload_id info) (waf_events (DB e)) \<rparr>)")
        case Unmodelled
        then show ?thesis using Some c pc by (simp add: Let_def)
      next
        case (Threw err d2)
        then show ?thesis using Some c pc by (simp add: Let_def)
      next
        case b: (Returned b)
        obtain ti td d2 where "b = ((ti, td), d2)" by (metis prod.exhaust)
        then show ?thesis using Some c pc b by (simp add: Let_def)
      qed
    qed
  qed
  show ?thesis unfolding handleReindex_def Let_def f[unfolded Let_def] by simp
qed

section \<open>Field Normalizer: results\<close>

lemma parseWAFRecord_try_Inr: "parseWAFRecord_try dp raw = Inr (parseWAFRecord dp raw)"
  by (simp add: parseWAFRecord_def parseWAFRecord_try_def split: sum.splits)

lemma parseWAFRecord_no_id: "rawRayId raw = None \<Longrightarrow> parseWAFRecord dp raw = None"
  by (simp add: parseWAFRecord_def parseWAFRecord_try_def parseWAFRecord_body_def)

lemma parseWAFRecord_no_ts:
  "normalizeTimestamp dp (rawTimestamp raw) = None
     \<or> normalizeTimestamp dp (rawTimestamp raw) = Some 0
   \<Longrightarrow> parseWAFRecord dp raw = None"
  by (auto simp add: parseWAFRecord_def parseWAFRecord_try_def parseWAFRecord_body_def
      split: option.splits)

lemma extractString_None: "(\<forall>s. v = JStr s \<longrightarrow> s = []) \<Longrightarrow> extractString v = None"
  by (cases v) (simp_all add: extractString_def)

lemma extractString_Some: "v = JStr s \<Longrightarrow> s \<noteq> [] \<Longrightarrow> extractString v = Some s"
  by (simp add: extractString_def)

lemma extractString_nonempty: "extractString v = Some s \<Longrightarrow> s \<noteq> []"
  by (cases v) (auto simp add: extractString_def split: if_splits)

lemma rawRayId_None:
  assumes "\<forall>k\<in>set rayIdKeys. \<forall>s. get raw k = JStr s \<longrightarrow> s = []"
  shows "rawRayId raw = None"
  using assms by (simp add: rawRayId_def rayIdKeys_def extractString_None str_or_def)

lemma str_or_extract:
  "str_or (extractString v) b = (case extractString v of Some s \<Rightarrow> Some s | None \<Rightarrow> b)"
  by (auto simp add: str_or_def dest: extractString_nonempty split: option.splits)

lemma rawRayId_Some:
  assumes "k \<in> set rayIdKeys" and "get raw k = JStr s" and "s \<noteq> []"
  shows "\<exists>rid. rawRayId raw = Some rid \<and> rid \<noteq> []"
proof -
  have e: "extractString (get raw k) = Some s"
    using assms(2,3) by (simp add: extractString_Some)
  have "rawRayId raw \<noteq> None"
    using assms(1) e
    by (auto simp add: rawRayId_def rayIdKeys_def str_or_extract split: option.splits)
  then obtain rid where r: "rawRayId raw = Some rid" by auto
  then have "rid \<noteq> []"
    by (auto simp add: rawRayId_def str_or_extract split: option.splits
        dest: extractString_nonempty)
  with r show ?thesis by simp
qed

lemma rawTimestamp_alias: "rawTimestamp raw \<in> get raw ` set timestampKeys"
  by (simp add: rawTimestamp_def timestampKeys_def js_or_def)

lemma parseWAFRecord_accepts:
  assumes "raw \<noteq> JNull" and "raw \<noteq> JUndefined" and "rawRayId raw = Some rid"
    and "normalizeTimestamp dp (rawTimestamp raw) = Some t" and "t \<noteq> 0"
  shows "\<exists>ev. parseWAFRecord dp raw = Some ev \<and> ray_id ev = rid \<and> event_ts ev = t"
  using assms
  by (simp add: parseWAFRecord_def parseWAFRecord_try_def parseWAFRecord_body_def Let_def)

lemma get_string_not_null: "get raw k = JStr s \<Longrightarrow> raw \<noteq> JNull \<and> raw \<noteq> JUndefined"
  by auto

text \<open>When a field is absent.\<close>

lemma extractString_None_iff: "(extractString v = None) = (\<not> is_text v)"
  by (cases v) (simp_all add: extractString_def is_text_def)

lemma safeString_None_iff: "(safeString v = None) = (\<not> is_text v)"
  by (cases v) (simp_all add: safeString_def is_text_def)

lemma str_or_None_iff: "(str_or a b = None) = ((a = None \<or> a = Some []) \<and> b = None)"
  by (cases a) (auto simp add: str_or_def)

lemma extractString_not_empty: "extractString v \<noteq> Some []"
  by (cases v) (simp_all add: extractString_def)

lemma safeString_not_empty: "safeString v \<noteq> Some []"
  by (cases v) (simp_all add: safeString_def)

lemma firstExtracted_None_iff:
  "ks \<noteq> [] \<Longrightarrow>
   (firstExtracted raw ks = None \<or> firstExtracted raw ks = Some [])
     = (\<forall>k\<in>set ks. \<not> is_text (get raw k))"
proof (induction raw ks rule: firstExtracted.induct)
  case (1 raw)
  then show ?case by simp
next
  case (2 raw k)
  then show ?case by (simp add: extractString_None_iff extractString_not_empty)
next
  case (3 raw k v va)
  have "(str_or (extractString (get raw k)) (firstExtracted raw (v # va)) = None
          \<or> str_or (extractString (get raw k)) (firstExtracted raw (v # va)) = Some [])
        = (extractString (get raw k) = None
            \<and> (firstExtracted raw (v # va) = None \<or> firstExtracted raw (v # va) = Some []))"
    using extractString_not_empty[of "get raw k"]
    by (cases "extractString (get raw k)") (auto simp add: str_or_def)
  then show ?case using 3 by (simp add: extractString_None_iff)
qed

lemma firstSafe_None_iff:
  "ks \<noteq> [] \<Longrightarrow>
   (firstSafe raw ks = None \<or> firstSafe raw ks = Some [])
     = (\<forall>k\<in>set ks. \<not> is_text (get raw k))"
proof (induction raw ks rule: firstSafe.induct)
  case (1 raw)
  then show ?case by simp
next
  case (2 raw k)
  then show ?case by (simp add: safeString_None_iff safeString_not_empty)
next
  case (3 raw k v va)
  have "(str_or (safeString (get raw k)) (firstSafe raw (v # va)) = None
          \<or> str_or (safeString (get raw k)) (firstSafe raw (v # va)) = Some [])
        = (safeString (get raw k) = None
            \<and> (firstSafe raw (v # va) = None \<or> firstSafe raw (v # va) = Some []))"
    using safeString_not_empty[of "get raw k"]
    by (cases "safeString (get raw k)") (auto simp add: str_or_def)
  then show ?case using 3 by (simp add: safeString_None_iff)
qed

lemma firstSafe_not_empty: "firstSafe raw ks \<noteq> Some []"
  by (induction raw ks rule: firstSafe.induct)
     (auto simp add: safeString_not_empty str_or_def split: option.splits if_splits)

text \<open>A text field is absent exactly when none of its keys holds a non-empty string.\<close>

lemma text_field_absent:
  "ks \<noteq> [] \<Longrightarrow>
   (str_or (firstExtracted raw ks) None = None) = (\<forall>k\<in>set ks. \<not> is_text (get raw k))"
  using firstExtracted_None_iff[of ks raw] by (simp add: str_or_None_iff)

lemma safe_field_absent:
  "ks \<noteq> [] \<Longrightarrow> (firstSafe raw ks = None) = (\<forall>k\<in>set ks. \<not> is_text (get raw k))"
  using firstSafe_None_iff[of ks raw] firstSafe_not_empty[of raw ks] by simp

text \<open>A numeric field is absent when none of its keys holds a number it can use.\<close>

lemma not_numeric_or: "\<not> is_numeric a \<Longrightarrow> \<not> is_numeric b \<Longrightarrow> \<not> is_numeric (js_or a b)"
  by (simp add: js_or_def)

lemma not_numeric_absent: "\<not> is_numeric v \<Longrightarrow> num_or (normalizeNumber v) None = None"
  by (cases v) (auto simp add: is_numeric_def normalizeNumber_def num_or_def split: option.splits)

text \<open>
  A list-valued field is absent when neither array variant starts with a non-empty string
  and no singular key holds one.
\<close>

lemma firstStringKey_no_text:
  "\<forall>k\<in>set ks. \<not> is_text (get raw k) \<Longrightarrow>
   firstStringKey raw ks = None \<or> firstStringKey raw ks = Some []"
proof (induction ks)
  case Nil
  then show ?case by simp
next
  case (Cons k ks)
  then show ?case by (cases "get raw k") (simp_all add: is_text_def)
qed

lemma firstIfString_no_text:
  "\<not> is_text_list v \<Longrightarrow> firstIfString v = None \<or> firstIfString v = Some []"
proof (cases v)
  case (JArr xs)
  assume n: "\<not> is_text_list v"
  show ?thesis
  proof (cases xs)
    case Nil
    then show ?thesis using JArr by (simp add: firstIfString_def)
  next
    case (Cons x xs')
    then show ?thesis using JArr n by (cases x) (simp_all add: firstIfString_def is_text_list_def)
  qed
qed (simp_all add: firstIfString_def)

lemma listOrSingular_no_text:
  assumes "\<not> is_text_list (get raw K1)" and "\<not> is_text_list (get raw K2)"
    and "\<forall>k\<in>set ks. \<not> is_text (get raw k)"
  shows "listOrSingular raw K1 K2 ks = None \<or> listOrSingular raw K1 K2 ks = Some []"
  using firstIfString_no_text[OF assms(1)] firstIfString_no_text[OF assms(2)]
        firstStringKey_no_text[OF assms(3)]
  by (simp add: listOrSingular_def)

lemma normalizeAction_no_text: "x = None \<or> x = Some [] \<Longrightarrow> normalizeAction x = UnknownAction"
  by (auto simp add: normalizeAction_def)

lemma determineRuleType_no_text:
  "x = None \<or> x = Some [] \<Longrightarrow> determineRuleType x svc = UnknownRule"
  by (auto simp add: determineRuleType_def)

text \<open>The fields of an accepted event, as the body computes them.\<close>

lemma parseWAFRecord_fields:
  assumes "parseWAFRecord dp raw = Some ev"
  shows "src_ip ev = str_or (firstExtracted raw
            [''ClientIP'', ''clientIP'', ''client_ip'', ''source_ip'']) None"
    and "src_country ev = str_or (firstExtracted raw [''ClientCountry'', ''clientCountry'',
            ''client_country'', ''clientCountryName'', ''client_country_name'']) None"
    and "src_asn ev = num_or (rawSrcAsn raw) None"
    and "colo ev = str_or (firstExtracted raw [''EdgeColoCode'', ''edgeColoCode'', ''colo'',
            ''datacenter'', ''edgeColo'', ''edge_colo'']) None"
    and "host ev = str_or (firstExtracted raw [''ClientRequestHost'', ''clientRequestHost'',
            ''host'', ''hostname'', ''clientRequestHTTPHost'', ''client_request_http_host''])
            None"
    and "path ev = str_or (firstExtracted raw [''ClientRequestPath'', ''clientRequestPath'',
            ''path'', ''uri'', ''clientRequestPath'', ''client_request_path'']) None"
    and "http_method ev = str_or (firstExtracted raw [''ClientRequestMethod'',
            ''clientRequestMethod'', ''method'', ''clientRequestHTTPMethodName'',
            ''client_request_http_method_name'']) None"
    and "status ev = num_or (rawStatus raw) None"
    and "rule_id ev = str_or (listOrSingular raw ''FirewallMatchesRuleIDs''
            ''firewallMatchesRuleIDs'' [''rule_id'', ''ruleId'', ''WAFRuleID'', ''wafRuleID''])
            None"
    and "rule_name ev = firstSafe raw [''WAFRuleMessage'', ''wafRuleMessage'', ''rule_name'',
            ''description'']"
    and "rule_type ev = Some (determineRuleType
            (listOrSingular raw ''FirewallMatchesRuleIDs''
               ''firewallMatchesRuleIDs'' [''rule_id'', ''ruleId'', ''WAFRuleID'', ''wafRuleID''])
            (listOrSingular raw ''FirewallMatchesSources''
               ''firewallMatchesSources'' [''service'', ''source'']))"
    and "action ev = Some (normalizeAction (listOrSingular raw ''FirewallMatchesActions''
            ''firewallMatchesActions'' [''action'', ''WAFAction'', ''wafAction'']))"
    and "service ev = str_or (listOrSingular raw ''FirewallMatchesSources''
            ''firewallMatchesSources'' [''service'', ''source'']) None"
    and "mitigation_reason ev = safeString (get raw ''mitigation_reason'')"
    and "ua ev = str_or (firstExtracted raw [''ClientRequestUserAgent'',
            ''clientRequestUserAgent'', ''user_agent'', ''ua'', ''userAgent'']) None"
    and "ja3 ev = str_or (firstExtracted raw [''JA3Hash'', ''ja3Hash'', ''ja3'']) None"
    and "bytes ev = num_or (rawBytes raw) None"
    and "threat_score ev = num_or (rawThreatScore raw) None"
proof -
  obtain rid ts where
    "ev = \<lparr> ray_id = rid, event_ts = ts,
       src_ip = str_or (firstExtracted raw
            [''ClientIP'', ''clientIP'', ''client_ip'', ''source_ip'']) None,
       src_country = str_or (firstExtracted raw [''ClientCountry'', ''clientCountry'',
            ''client_country'', ''clientCountryName'', ''client_country_name'']) None,
       src_asn = num_or (rawSrcAsn raw) None,
       colo = str_or (firstExtracted raw [''EdgeColoCode'', ''edgeColoCode'', ''colo'',
            ''datacenter'', ''edgeColo'', ''edge_colo'']) None,
       host = str_or (firstExtracted raw [''ClientRequestHost'', ''clientRequestHost'',
            ''host'', ''hostname'', ''clientRequestHTTPHost'', ''client_request_http_host''])
            None,
       path = str_or (firstExtracted raw [''ClientRequestPath'', ''clientRequestPath'',
            ''path'', ''uri'', ''clientRequestPath'', ''client_request_path'']) None,
       http_method = str_or (firstExtracted raw [''ClientRequestMethod'',
            ''clientRequestMethod'', ''method'', ''clientRequestHTTPMethodName'',
            ''client_request_http_method_name'']) None,
       status = num_or (rawStatus raw) None,
       rule_id = str_or (listOrSingular raw ''FirewallMatchesRuleIDs''
            ''firewallMatchesRuleIDs'' [''rule_id'', ''ruleId'', ''WAFRuleID'', ''wafRuleID''])
            None,
       rule_name = firstSafe raw [''WAFRuleMessage'', ''wafRuleMessage'', ''rule_name'',
            ''description''],
       rule_type = Some (determineRuleType
            (listOrSingular raw ''FirewallMatchesRuleIDs''
               ''firewallMatchesRuleIDs'' [''rule_id'', ''ruleId'', ''WAFRuleID'', ''wafRuleID''])
            (listOrSingular raw ''FirewallMatchesSources''
               ''firewallMatchesSources'' [''service'', ''source''])),
       action = Some (normalizeAction (listOrSingular raw ''FirewallMatchesActions''
            ''firewallMatchesActions'' [''action'', ''WAFAction'', ''wafAction''])),
       service = str_or (listOrSingular raw ''FirewallMatchesSources''
            ''firewallMatchesSources'' [''service'', ''source'']) None,
       mitigation_reason = safeString (get raw ''mitigation_reason''),
       ua = str_or (firstExtracted raw [''ClientRequestUserAgent'',
            ''clientRequestUserAgent'', ''user_agent'', ''ua'', ''userAgent'']) None,
       ja3 = str_or (firstExtracted raw [''JA3Hash'', ''ja3Hash'', ''ja3'']) None,
       bytes = num_or (rawBytes raw) None,
       threat_score = num_or (rawThreatScore raw) None \<rparr>"
    using assms
    unfolding parseWAFRecord_def parseWAFRecord_try_def parseWAFRecord_body_def Let_def
    by (auto split: if_splits option.splits)
  then show "src_ip ev = str_or (firstExtracted raw
            [''ClientIP'', ''clientIP'', ''client_ip'', ''source_ip'']) None"
    and "src_country ev = str_or (firstExtracted raw [''ClientCountry'', ''clientCountry'',
            ''client_country'', ''clientCountryName'', ''client_country_name'']) None"
    and "src_asn ev = num_or (rawSrcAsn raw) None"
    and "colo ev = str_or (firstExtracted raw [''EdgeColoCode'', ''edgeColoCode'', ''colo'',
            ''datacenter'', ''edgeColo'', ''edge_colo'']) None"
    and "host ev = str_or (firstExtracted raw [''ClientRequestHost'', ''clientRequestHost'',
            ''host'', ''hostname'', ''clientRequestHTTPHost'', ''client_request_http_host''])
            None"
    and "path ev = str_or (firstExtracted raw [''ClientRequestPath'', ''clientRequestPath'',
            ''path'', ''uri'', ''clientRequestPath'', ''client_request_path'']) None"
    and "http_method ev = str_or (firstExtracted raw [''ClientRequestMethod'',
            ''clientRequestMethod'', ''method'', ''clientRequestHTTPMethodName'',
            ''client_request_http_method_name'']) None"
    and "status ev = num_or (rawStatus raw) None"
    and "rule_id ev = str_or (listOrSingular raw ''FirewallMatchesRuleIDs''
            ''firewallMatchesRuleIDs'' [''rule_id'', ''ruleId'', ''WAFRuleID'', ''wafRuleID''])
            None"
    and "rule_name ev = firstSafe raw [''WAFRuleMessage'', ''wafRuleMessage'', ''rule_name'',
            ''description'']"
    and "rule_type ev = Some (determineRuleType
            (listOrSingular raw ''FirewallMatchesRuleIDs''
               ''firewallMatchesRuleIDs'' [''rule_id'', ''ruleId'', ''WAFRuleID'', ''wafRuleID''])
            (listOrSingular raw ''FirewallMatchesSources''
               ''firewallMatchesSources'' [''service'', ''source'']))"
    and "action ev = Some (normalizeAction (listOrSingular raw ''FirewallMatchesActions''
            ''firewallMatchesActions'' [''action'', ''WAFAction'', ''wafAction'']))"
    and "service ev = str_or (listOrSingular raw ''FirewallMatchesSources''
            ''firewallMatchesSources'' [''service'', ''source'']) None"
    and "mitigation_reason ev = safeString (get raw ''mitigation_reason'')"
    and "ua ev = str_or (firstExtracted raw [''ClientRequestUserAgent'',
            ''clientRequestUserAgent'', ''user_agent'', ''ua'', ''userAgent'']) None"
    and "ja3 ev = str_or (firstExtracted raw [''JA3Hash'', ''ja3Hash'', ''ja3'']) None"
    and "bytes ev = num_or (rawBytes raw) None"
    and "threat_score ev = num_or (rawThreatScore raw) None"
    by simp_all
qed

text \<open>
  An accepted record: for each optional field, when the field is absent. A text field is
  absent exactly when none of its keys holds a non-empty string; a numeric field is absent
  when none of its keys holds a number it can use; a list-valued field is absent, and what
  is classified from it is \<^verbatim>\<open>unknown\<close>, when neither array variant starts with a
  non-empty string and no singular key holds one.
\<close>

lemma parseWAFRecord_degrades:
  assumes P: "parseWAFRecord dp raw = Some ev"
  shows "((src_ip ev = None)
      = (\<forall>k\<in>set [''ClientIP'', ''clientIP'', ''client_ip'', ''source_ip''].
              \<not> is_text (get raw k)))
    \<and> ((src_country ev = None)
      = (\<forall>k\<in>set [''ClientCountry'', ''clientCountry'', ''client_country'',
                       ''clientCountryName'', ''client_country_name''].
              \<not> is_text (get raw k)))
    \<and> ((colo ev = None)
      = (\<forall>k\<in>set [''EdgeColoCode'', ''edgeColoCode'', ''colo'', ''datacenter'',
                       ''edgeColo'', ''edge_colo''].
              \<not> is_text (get raw k)))
    \<and> ((host ev = None)
      = (\<forall>k\<in>set [''ClientRequestHost'', ''clientRequestHost'', ''host'', ''hostname'',
                       ''clientRequestHTTPHost'', ''client_request_http_host''].
              \<not> is_text (get raw k)))
    \<and> ((path ev = None)
      = (\<forall>k\<in>set [''ClientRequestPath'', ''clientRequestPath'', ''path'', ''uri'',
                       ''clientRequestPath'', ''client_request_path''].
              \<not> is_text (get raw k)))
    \<and> ((http_method ev = None)
      = (\<forall>k\<in>set [''ClientRequestMethod'', ''clientRequestMethod'', ''method'',
                       ''clientRequestHTTPMethodName'', ''client_request_http_method_name''].
              \<not> is_text (get raw k)))
    \<and> ((ua ev = None)
      = (\<forall>k\<in>set [''ClientRequestUserAgent'', ''clientRequestUserAgent'',
                       ''user_agent'', ''ua'', ''userAgent''].
              \<not> is_text (get raw k)))
    \<and> ((ja3 ev = None)
      = (\<forall>k\<in>set [''JA3Hash'', ''ja3Hash'', ''ja3''].
              \<not> is_text (get raw k)))
    \<and> ((rule_name ev = None)
      = (\<forall>k\<in>set [''WAFRuleMessage'', ''wafRuleMessage'', ''rule_name'',
                       ''description''].
              \<not> is_text (get raw k)))
    \<and> ((mitigation_reason ev = None) = (\<not> is_text (get raw ''mitigation_reason'')))
    \<and> ((\<forall>k\<in>set [''ClientASN'', ''clientASN'', ''client_asn'', ''clientAsn'',
                   ''client_asn''].
          \<not> is_numeric (get raw k))
      \<longrightarrow> src_asn ev = None)
    \<and> ((\<forall>k\<in>set [''EdgeResponseStatus'', ''edgeResponseStatus'', ''status'',
                   ''edgeResponseStatus'', ''edge_response_status''].
          \<not> is_numeric (get raw k))
      \<longrightarrow> status ev = None)
    \<and> ((\<forall>k\<in>set [''ClientRequestBytes'', ''clientRequestBytes'', ''bytes'',
                   ''clientRequestBytes'', ''client_request_bytes''].
          \<not> is_numeric (get raw k))
      \<longrightarrow> bytes ev = None)
    \<and> ((\<forall>k\<in>set [''SecurityLevel'', ''securityLevel'', ''threat_score''].
          \<not> is_numeric (get raw k))
      \<longrightarrow> threat_score ev = None)
    \<and> (\<not> is_text_list (get raw ''FirewallMatchesRuleIDs'')
      \<and> \<not> is_text_list (get raw ''firewallMatchesRuleIDs'')
      \<and> (\<forall>k\<in>set [''rule_id'', ''ruleId'', ''WAFRuleID'', ''wafRuleID''].
              \<not> is_text (get raw k))
      \<longrightarrow> rule_id ev = None \<and> rule_type ev = Some UnknownRule)
    \<and> (\<not> is_text_list (get raw ''FirewallMatchesActions'')
      \<and> \<not> is_text_list (get raw ''firewallMatchesActions'')
      \<and> (\<forall>k\<in>set [''action'', ''WAFAction'', ''wafAction''].
              \<not> is_text (get raw k))
      \<longrightarrow> action ev = Some UnknownAction)
    \<and> (\<not> is_text_list (get raw ''FirewallMatchesSources'')
      \<and> \<not> is_text_list (get raw ''firewallMatchesSources'')
      \<and> (\<forall>k\<in>set [''service'', ''source''].
              \<not> is_text (get raw k))
      \<longrightarrow> service ev = None)"
proof -
  note F = parseWAFRecord_fields[OF P]
  have t_src_ip: "(src_ip ev = None)
      = (\<forall>k\<in>set [''ClientIP'', ''clientIP'', ''client_ip'', ''source_ip''].
              \<not> is_text (get raw k))"
    unfolding F(1) by (rule text_field_absent) simp
  have t_src_country: "(src_country ev = None)
      = (\<forall>k\<in>set [''ClientCountry'', ''clientCountry'', ''client_country'',
                       ''clientCountryName'', ''client_country_name''].
              \<not> is_text (get raw k))"
    unfolding F(2) by (rule text_field_absent) simp
  have t_colo: "(colo ev = None)
      = (\<forall>k\<in>set [''EdgeColoCode'', ''edgeColoCode'', ''colo'', ''datacenter'',
                       ''edgeColo'', ''edge_colo''].
              \<not> is_text (get raw k))"
    unfolding F(4) by (rule text_field_absent) simp
  have t_host: "(host ev = None)
      = (\<forall>k\<in>set [''ClientRequestHost'', ''clientRequestHost'', ''host'', ''hostname'',
                       ''clientRequestHTTPHost'', ''client_request_http_host''].
              \<not> is_text (get raw k))"
    unfolding F(5) by (rule text_field_absent) simp
  have t_path: "(path ev = None)
      = (\<forall>k\<in>set [''ClientRequestPath'', ''clientRequestPath'', ''path'', ''uri'',
                       ''clientRequestPath'', ''client_request_path''].
              \<not> is_text (get raw k))"
    unfolding F(6) by (rule text_field_absent) simp
  have t_http_method: "(http_method ev = None)
      = (\<forall>k\<in>set [''ClientRequestMethod'', ''clientRequestMethod'', ''method'',
                       ''clientRequestHTTPMethodName'', ''client_request_http_method_name''].
              \<not> is_text (get raw k))"
    unfolding F(7) by (rule text_field_absent) simp
  have t_ua: "(ua ev = None)
      = (\<forall>k\<in>set [''ClientRequestUserAgent'', ''clientRequestUserAgent'',
                       ''user_agent'', ''ua'', ''userAgent''].
              \<not> is_text (get raw k))"
    unfolding F(15) by (rule text_field_absent) simp
  have t_ja3: "(ja3 ev = None)
      = (\<forall>k\<in>set [''JA3Hash'', ''ja3Hash'', ''ja3''].
              \<not> is_text (get raw k))"
    unfolding F(16) by (rule text_field_absent) simp
  have t_rule_name: "(rule_name ev = None)
      = (\<forall>k\<in>set [''WAFRuleMessage'', ''wafRuleMessage'', ''rule_name'',
                       ''description''].
              \<not> is_text (get raw k))"
    unfolding F(10) by (rule safe_field_absent) simp
  have t_mitigation: "(mitigation_reason ev = None) = (\<not> is_text (get raw ''mitigation_reason''))"
    unfolding F(14) by (simp add: safeString_None_iff)
  have n_src_asn: "(\<forall>k\<in>set [''ClientASN'', ''clientASN'', ''client_asn'', ''clientAsn'',
                   ''client_asn''].
          \<not> is_numeric (get raw k))
      \<longrightarrow> src_asn ev = None"
  proof
    assume h: "(\<forall>k\<in>set [''ClientASN'', ''clientASN'', ''client_asn'', ''clientAsn'',
                   ''client_asn''].
          \<not> is_numeric (get raw k))"
    show "src_asn ev = None"
      unfolding F(3) rawSrcAsn_def
      by (intro not_numeric_absent not_numeric_or) (use h in simp_all)
  qed
  have n_status: "(\<forall>k\<in>set [''EdgeResponseStatus'', ''edgeResponseStatus'', ''status'',
                   ''edgeResponseStatus'', ''edge_response_status''].
          \<not> is_numeric (get raw k))
      \<longrightarrow> status ev = None"
  proof
    assume h: "(\<forall>k\<in>set [''EdgeResponseStatus'', ''edgeResponseStatus'', ''status'',
                   ''edgeResponseStatus'', ''edge_response_status''].
          \<not> is_numeric (get raw k))"
    show "status ev = None"
      unfolding F(8) rawStatus_def
      by (intro not_numeric_absent not_numeric_or) (use h in simp_all)
  qed
  have n_bytes: "(\<forall>k\<in>set [''ClientRequestBytes'', ''clientRequestBytes'', ''bytes'',
                   ''clientRequestBytes'', ''client_request_bytes''].
          \<not> is_numeric (get raw k))
      \<longrightarrow> bytes ev = None"
  proof
    assume h: "(\<forall>k\<in>set [''ClientRequestBytes'', ''clientRequestBytes'', ''bytes'',
                   ''clientRequestBytes'', ''client_request_bytes''].
          \<not> is_numeric (get raw k))"
    show "bytes ev = None"
      unfolding F(17) rawBytes_def
      by (intro not_numeric_absent not_numeric_or) (use h in simp_all)
  qed
  have n_threat_score: "(\<forall>k\<in>set [''SecurityLevel'', ''securityLevel'', ''threat_score''].
          \<not> is_numeric (get raw k))
      \<longrightarrow> threat_score ev = None"
  proof
    assume h: "(\<forall>k\<in>set [''SecurityLevel'', ''securityLevel'', ''threat_score''].
          \<not> is_numeric (get raw k))"
    show "threat_score ev = None"
      unfolding F(18) rawThreatScore_def
      by (intro not_numeric_absent not_numeric_or) (use h in simp_all)
  qed
  have l_rule: "\<not> is_text_list (get raw ''FirewallMatchesRuleIDs'')
      \<and> \<not> is_text_list (get raw ''firewallMatchesRuleIDs'')
      \<and> (\<forall>k\<in>set [''rule_id'', ''ruleId'', ''WAFRuleID'', ''wafRuleID''].
              \<not> is_text (get raw k))
      \<longrightarrow> rule_id ev = None \<and> rule_type ev = Some UnknownRule"
  proof
    assume h: "\<not> is_text_list (get raw ''FirewallMatchesRuleIDs'')
      \<and> \<not> is_text_list (get raw ''firewallMatchesRuleIDs'')
      \<and> (\<forall>k\<in>set [''rule_id'', ''ruleId'', ''WAFRuleID'', ''wafRuleID''].
              \<not> is_text (get raw k))"
    have "listOrSingular raw ''FirewallMatchesRuleIDs'' ''firewallMatchesRuleIDs''
            [''rule_id'', ''ruleId'', ''WAFRuleID'', ''wafRuleID''] = None
        \<or> listOrSingular raw ''FirewallMatchesRuleIDs'' ''firewallMatchesRuleIDs''
            [''rule_id'', ''ruleId'', ''WAFRuleID'', ''wafRuleID''] = Some []"
      by (rule listOrSingular_no_text) (use h in simp_all)
    then show "rule_id ev = None \<and> rule_type ev = Some UnknownRule"
      unfolding F(9) F(11) by (auto simp add: str_or_None_iff determineRuleType_no_text)
  qed
  have l_action: "\<not> is_text_list (get raw ''FirewallMatchesActions'')
      \<and> \<not> is_text_list (get raw ''firewallMatchesActions'')
      \<and> (\<forall>k\<in>set [''action'', ''WAFAction'', ''wafAction''].
              \<not> is_text (get raw k))
      \<longrightarrow> action ev = Some UnknownAction"
  proof
    assume h: "\<not> is_text_list (get raw ''FirewallMatchesActions'')
      \<and> \<not> is_text_list (get raw ''firewallMatchesActions'')
      \<and> (\<forall>k\<in>set [''action'', ''WAFAction'', ''wafAction''].
              \<not> is_text (get raw k))"
    have "listOrSingular raw ''FirewallMatchesActions'' ''firewallMatchesActions''
            [''action'', ''WAFAction'', ''wafAction''] = None
        \<or> listOrSingular raw ''FirewallMatchesActions'' ''firewallMatchesActions''
            [''action'', ''WAFAction'', ''wafAction''] = Some []"
      by (rule listOrSingular_no_text) (use h in simp_all)
    then show "action ev = Some UnknownAction"
      unfolding F(12) by (auto simp add: normalizeAction_no_text)
  qed
  have l_service: "\<not> is_text_list (get raw ''FirewallMatchesSources'')
      \<and> \<not> is_text_list (get raw ''firewallMatchesSources'')
      \<and> (\<forall>k\<in>set [''service'', ''source''].
              \<not> is_text (get raw k))
      \<longrightarrow> service ev = None"
  proof
    assume h: "\<not> is_text_list (get raw ''FirewallMatchesSources'')
      \<and> \<not> is_text_list (get raw ''firewallMatchesSources'')
      \<and> (\<forall>k\<in>set [''service'', ''source''].
              \<not> is_text (get raw k))"
    have "listOrSingular raw ''FirewallMatchesSources'' ''firewallMatchesSources''
            [''service'', ''source''] = None
        \<or> listOrSingular raw ''FirewallMatchesSources'' ''firewallMatchesSources''
            [''service'', ''source''] = Some []"
      by (rule listOrSingular_no_text) (use h in simp_all)
    then show "service ev = None"
      unfolding F(13) by (auto simp add: str_or_None_iff)
  qed
  show ?thesis
    by (intro conjI) (rule t_src_ip t_src_country t_colo t_host t_path t_http_method t_ua t_ja3 t_rule_name t_mitigation n_src_asn n_status n_bytes n_threat_score l_rule l_action l_service)+
qed

text \<open>
  C6. A record in which no correlation-id alias holds a non-empty string is rejected with
  \<^verbatim>\<open>null\<close>; so is a record in which no timestamp alias normalizes to a usable
  timestamp; \<^verbatim>\<open>parseWAFRecord\<close> throws on no input; a record with a correlation id
  and a usable timestamp is accepted whatever its other fields hold. In an accepted event
  each optional field is decided by its own keys: a text field is absent exactly when none
  of its keys holds a non-empty string; a numeric field is absent when none of its keys
  holds a number other than 0 or a string in which \<^verbatim>\<open>parseInt\<close> reads one; the rule
  id and the service are absent, and the rule type and the action are
  \<^verbatim>\<open>unknown\<close>, when neither array variant starts with a non-empty string and no
  singular key holds one.
\<close>

theorem parseWAFRecord_mandatory_fields:
  "((\<forall>k\<in>set rayIdKeys. \<forall>s. get raw k = JStr s \<longrightarrow> s = [])
      \<longrightarrow> parseWAFRecord dp raw = None)
   \<and> ((\<forall>k\<in>set timestampKeys. normalizeTimestamp dp (get raw k) = None
                               \<or> normalizeTimestamp dp (get raw k) = Some 0)
      \<longrightarrow> parseWAFRecord dp raw = None)
   \<and> (\<exists>r. parseWAFRecord_try dp raw = Inr r)
   \<and> ((\<exists>k\<in>set rayIdKeys. \<exists>s. get raw k = JStr s \<and> s \<noteq> [])
        \<and> normalizeTimestamp dp (rawTimestamp raw) = Some t \<and> t \<noteq> 0
      \<longrightarrow> (\<exists>ev. parseWAFRecord dp raw = Some ev \<and> ray_id ev \<noteq> [] \<and> event_ts ev = t))
   \<and> (parseWAFRecord dp raw = Some ev \<longrightarrow>
      ((src_ip ev = None)
      = (\<forall>k\<in>set [''ClientIP'', ''clientIP'', ''client_ip'', ''source_ip''].
              \<not> is_text (get raw k)))
      \<and> ((src_country ev = None)
      = (\<forall>k\<in>set [''ClientCountry'', ''clientCountry'', ''client_country'',
                       ''clientCountryName'', ''client_country_name''].
              \<not> is_text (get raw k)))
      \<and> ((colo ev = None)
      = (\<forall>k\<in>set [''EdgeColoCode'', ''edgeColoCode'', ''colo'', ''datacenter'',
                       ''edgeColo'', ''edge_colo''].
              \<not> is_text (get raw k)))
      \<and> ((host ev = None)
      = (\<forall>k\<in>set [''ClientRequestHost'', ''clientRequestHost'', ''host'', ''hostname'',
                       ''clientRequestHTTPHost'', ''client_request_http_host''].
              \<not> is_text (get raw k)))
      \<and> ((path ev = None)
      = (\<forall>k\<in>set [''ClientRequestPath'', ''clientRequestPath'', ''path'', ''uri'',
                       ''clientRequestPath'', ''client_request_path''].
              \<not> is_text (get raw k)))
      \<and> ((http_method ev = None)
      = (\<forall>k\<in>set [''ClientRequestMethod'', ''clientRequestMethod'', ''method'',
                       ''clientRequestHTTPMethodName'', ''client_request_http_method_name''].
              \<not> is_text (get raw k)))
      \<and> ((ua ev = None)
      = (\<forall>k\<in>set [''ClientRequestUserAgent'', ''clientRequestUserAgent'',
                       ''user_agent'', ''ua'', ''userAgent''].
              \<not> is_text (get raw k)))
      \<and> ((ja3 ev = None)
      = (\<forall>k\<in>set [''JA3Hash'', ''ja3Hash'', ''ja3''].
              \<not> is_text (get raw k)))
      \<and> ((rule_name ev = None)
      = (\<forall>k\<in>set [''WAFRuleMessage'', ''wafRuleMessage'', ''rule_name'',
                       ''description''].
              \<not> is_text (get raw k)))
      \<and> ((mitigation_reason ev = None) = (\<not> is_text (get raw ''mitigation_reason'')))
      \<and> ((\<forall>k\<in>set [''ClientASN'', ''clientASN'', ''client_asn'', ''clientAsn'',
                   ''client_asn''].
          \<not> is_numeric (get raw k))
      \<longrightarrow> src_asn ev = None)
      \<and> ((\<forall>k\<in>set [''EdgeResponseStatus'', ''edgeResponseStatus'', ''status'',
                   ''edgeResponseStatus'', ''edge_response_status''].
          \<not> is_numeric (get raw k))
      \<longrightarrow> status ev = None)
      \<and> ((\<forall>k\<in>set [''ClientRequestBytes'', ''clientRequestBytes'', ''bytes'',
                   ''clientRequestBytes'', ''client_request_bytes''].
          \<not> is_numeric (get raw k))
      \<longrightarrow> bytes ev = None)
      \<and> ((\<forall>k\<in>set [''SecurityLevel'', ''securityLevel'', ''threat_score''].
          \<not> is_numeric (get raw k))
      \<longrightarrow> threat_score ev = None)
      \<and> (\<not> is_text_list (get raw ''FirewallMatchesRuleIDs'')
      \<and> \<not> is_text_list (get raw ''firewallMatchesRuleIDs'')
      \<and> (\<forall>k\<in>set [''rule_id'', ''ruleId'', ''WAFRuleID'', ''wafRuleID''].
              \<not> is_text (get raw k))
      \<longrightarrow> rule_id ev = None \<and> rule_type ev = Some UnknownRule)
      \<and> (\<not> is_text_list (get raw ''FirewallMatchesActions'')
      \<and> \<not> is_text_list (get raw ''firewallMatchesActions'')
      \<and> (\<forall>k\<in>set [''action'', ''WAFAction'', ''wafAction''].
              \<not> is_text (get raw k))
      \<longrightarrow> action ev = Some UnknownAction)
      \<and> (\<not> is_text_list (get raw ''FirewallMatchesSources'')
      \<and> \<not> is_text_list (get raw ''firewallMatchesSources'')
      \<and> (\<forall>k\<in>set [''service'', ''source''].
              \<not> is_text (get raw k))
      \<longrightarrow> service ev = None))"
proof -
  have c1: "(\<forall>k\<in>set rayIdKeys. \<forall>s. get raw k = JStr s \<longrightarrow> s = [])
      \<longrightarrow> parseWAFRecord dp raw = None"
    by (simp add: rawRayId_None parseWAFRecord_no_id)
  have c2: "(\<forall>k\<in>set timestampKeys. normalizeTimestamp dp (get raw k) = None
                               \<or> normalizeTimestamp dp (get raw k) = Some 0)
      \<longrightarrow> parseWAFRecord dp raw = None"
  proof
    assume a: "\<forall>k\<in>set timestampKeys. normalizeTimestamp dp (get raw k) = None
                               \<or> normalizeTimestamp dp (get raw k) = Some 0"
    obtain k where "k \<in> set timestampKeys" and "rawTimestamp raw = get raw k"
      using rawTimestamp_alias[of raw] by auto
    with a have "normalizeTimestamp dp (rawTimestamp raw) = None
        \<or> normalizeTimestamp dp (rawTimestamp raw) = Some 0"
      by auto
    then show "parseWAFRecord dp raw = None" by (rule parseWAFRecord_no_ts)
  qed
  have c3: "\<exists>r. parseWAFRecord_try dp raw = Inr r"
    by (simp add: parseWAFRecord_try_Inr)
  have c4: "(\<exists>k\<in>set rayIdKeys. \<exists>s. get raw k = JStr s \<and> s \<noteq> [])
        \<and> normalizeTimestamp dp (rawTimestamp raw) = Some t \<and> t \<noteq> 0
      \<longrightarrow> (\<exists>ev. parseWAFRecord dp raw = Some ev \<and> ray_id ev \<noteq> [] \<and> event_ts ev = t)"
  proof
    assume a: "(\<exists>k\<in>set rayIdKeys. \<exists>s. get raw k = JStr s \<and> s \<noteq> [])
        \<and> normalizeTimestamp dp (rawTimestamp raw) = Some t \<and> t \<noteq> 0"
    then obtain k s where k: "k \<in> set rayIdKeys" "get raw k = JStr s" "s \<noteq> []" by auto
    obtain rid where rid: "rawRayId raw = Some rid" "rid \<noteq> []"
      using rawRayId_Some[OF k] by auto
    have nn: "raw \<noteq> JNull" "raw \<noteq> JUndefined" using get_string_not_null[OF k(2)] by simp_all
    obtain ev where "parseWAFRecord dp raw = Some ev" "ray_id ev = rid" "event_ts ev = t"
      using parseWAFRecord_accepts[OF nn rid(1)] a by blast
    with rid(2) show "\<exists>ev. parseWAFRecord dp raw = Some ev \<and> ray_id ev \<noteq> [] \<and> event_ts ev = t"
      by auto
  qed
  have c5: "parseWAFRecord dp raw = Some ev \<longrightarrow>
      ((src_ip ev = None)
      = (\<forall>k\<in>set [''ClientIP'', ''clientIP'', ''client_ip'', ''source_ip''].
              \<not> is_text (get raw k)))
      \<and> ((src_country ev = None)
      = (\<forall>k\<in>set [''ClientCountry'', ''clientCountry'', ''client_country'',
                       ''clientCountryName'', ''client_country_name''].
              \<not> is_text (get raw k)))
      \<and> ((colo ev = None)
      = (\<forall>k\<in>set [''EdgeColoCode'', ''edgeColoCode'', ''colo'', ''datacenter'',
                       ''edgeColo'', ''edge_colo''].
              \<not> is_text (get raw k)))
      \<and> ((host ev = None)
      = (\<forall>k\<in>set [''ClientRequestHost'', ''clientRequestHost'', ''host'', ''hostname'',
                       ''clientRequestHTTPHost'', ''client_request_http_host''].
              \<not> is_text (get raw k)))
      \<and> ((path ev = None)
      = (\<forall>k\<in>set [''ClientRequestPath'', ''clientRequestPath'', ''path'', ''uri'',
                       ''clientRequestPath'', ''client_request_path''].
              \<not> is_text (get raw k)))
      \<and> ((http_method ev = None)
      = (\<forall>k\<in>set [''ClientRequestMethod'', ''clientRequestMethod'', ''method'',
                       ''clientRequestHTTPMethodName'', ''client_request_http_method_name''].
              \<not> is_text (get raw k)))
      \<and> ((ua ev = None)
      = (\<forall>k\<in>set [''ClientRequestUserAgent'', ''clientRequestUserAgent'',
                       ''user_agent'', ''ua'', ''userAgent''].
              \<not> is_text (get raw k)))
      \<and> ((ja3 ev = None)
      = (\<forall>k\<in>set [''JA3Hash'', ''ja3Hash'', ''ja3''].
              \<not> is_text (get raw k)))
      \<and> ((rule_name ev = None)
      = (\<forall>k\<in>set [''WAFRuleMessage'', ''wafRuleMessage'', ''rule_name'',
                       ''description''].
              \<not> is_text (get raw k)))
      \<and> ((mitigation_reason ev = None) = (\<not> is_text (get raw ''mitigation_reason'')))
      \<and> ((\<forall>k\<in>set [''ClientASN'', ''clientASN'', ''client_asn'', ''clientAsn'',
                   ''client_asn''].
          \<not> is_numeric (get raw k))
      \<longrightarrow> src_asn ev = None)
      \<and> ((\<forall>k\<in>set [''EdgeResponseStatus'', ''edgeResponseStatus'', ''status'',
                   ''edgeResponseStatus'', ''edge_response_status''].
          \<not> is_numeric (get raw k))
      \<longrightarrow> status ev = None)
      \<and> ((\<forall>k\<in>set [''ClientRequestBytes'', ''clientRequestBytes'', ''bytes'',
                   ''clientRequestBytes'', ''client_request_bytes''].
          \<not> is_numeric (get raw k))
      \<longrightarrow> bytes ev = None)
      \<and> ((\<forall>k\<in>set [''SecurityLevel'', ''securityLevel'', ''threat_score''].
          \<not> is_numeric (get raw k))
      \<longrightarrow> threat_score ev = None)
      \<and> (\<not> is_text_list (get raw ''FirewallMatchesRuleIDs'')
      \<and> \<not> is_text_list (get raw ''firewallMatchesRuleIDs'')
      \<and> (\<forall>k\<in>set [''rule_id'', ''ruleId'', ''WAFRuleID'', ''wafRuleID''].
              \<not> is_text (get raw k))
      \<longrightarrow> rule_id ev = None \<and> rule_type ev = Some UnknownRule)
      \<and> (\<not> is_text_list (get raw ''FirewallMatchesActions'')
      \<and> \<not> is_text_list (get raw ''firewallMatchesActions'')
      \<and> (\<forall>k\<in>set [''action'', ''WAFAction'', ''wafAction''].
              \<not> is_text (get raw k))
      \<longrightarrow> action ev = Some UnknownAction)
      \<and> (\<not> is_text_list (get raw ''FirewallMatchesSources'')
      \<and> \<not> is_text_list (get raw ''firewallMatchesSources'')
      \<and> (\<forall>k\<in>set [''service'', ''source''].
              \<not> is_text (get raw k))
      \<longrightarrow> service ev = None)"
    by (rule impI) (rule parseWAFRecord_degrades)
  show ?thesis by (intro conjI) (rule c1 c2 c3 c4 c5)+
qed

theorem parseWAFRecord_mandatory_fields_witness:
  "parseWAFRecord sample_Date_parse (JObj [(''ClientIP'', JStr ''192.0.2.1'')]) = None
   \<and> parseWAFRecord sample_Date_parse
        (JObj [(''RayID'', JStr ''ray-a''), (''timestamp'', JStr ''soon'')]) = None
   \<and> (\<exists>ev. parseWAFRecord sample_Date_parse sample_record_malformed = Some ev
          \<and> ray_id ev \<noteq> [] \<and> event_ts ev = 1700000000000
          \<and> src_ip ev = None \<and> src_country ev = None \<and> src_asn ev = None
          \<and> colo ev = None \<and> host ev \<noteq> None \<and> path ev = None \<and> http_method ev = None
          \<and> status ev = None \<and> rule_id ev = None \<and> rule_name ev = None
          \<and> rule_type ev = Some UnknownRule \<and> action ev = Some UnknownAction
          \<and> service ev = None \<and> mitigation_reason ev = None \<and> ua ev = None
          \<and> ja3 ev = None \<and> bytes ev = None \<and> threat_score ev = None)"
proof -
  note T = parseWAFRecord_mandatory_fields[where dp = sample_Date_parse]
  have k1: "\<forall>k\<in>set rayIdKeys. \<forall>s. get (JObj [(''ClientIP'', JStr ''192.0.2.1'')]) k = JStr s
              \<longrightarrow> s = []"
    by (simp add: rayIdKeys_def)
  have 1: "parseWAFRecord sample_Date_parse (JObj [(''ClientIP'', JStr ''192.0.2.1'')]) = None"
    using T[where raw = "JObj [(''ClientIP'', JStr ''192.0.2.1'')]", THEN conjunct1] k1
    by (rule mp)
  have k2: "\<forall>k\<in>set timestampKeys.
          normalizeTimestamp sample_Date_parse
            (get (JObj [(''RayID'', JStr ''ray-a''), (''timestamp'', JStr ''soon'')]) k) = None
        \<or> normalizeTimestamp sample_Date_parse
            (get (JObj [(''RayID'', JStr ''ray-a''), (''timestamp'', JStr ''soon'')]) k) = Some 0"
    by (simp add: timestampKeys_def normalizeTimestamp_def sample_Date_parse_def parseInt_def
        isWhiteSpace_def isDigit_def digitVal_def)
  have 2: "parseWAFRecord sample_Date_parse
        (JObj [(''RayID'', JStr ''ray-a''), (''timestamp'', JStr ''soon'')]) = None"
    using T[where raw = "JObj [(''RayID'', JStr ''ray-a''), (''timestamp'', JStr ''soon'')]",
            THEN conjunct2, THEN conjunct1] k2
    by (rule mp)
  have k3: "(\<exists>k\<in>set rayIdKeys. \<exists>s. get sample_record_malformed k = JStr s \<and> s \<noteq> [])
      \<and> normalizeTimestamp sample_Date_parse (rawTimestamp sample_record_malformed)
          = Some 1700000000000
      \<and> (1700000000000 :: int) \<noteq> 0"
    by (simp add: rayIdKeys_def sample_record_malformed_def rawTimestamp_def js_or_def
        normalizeTimestamp_def)
  obtain ev where ev: "parseWAFRecord sample_Date_parse sample_record_malformed = Some ev"
    and ev2: "ray_id ev \<noteq> []" "event_ts ev = 1700000000000"
    using T[where raw = sample_record_malformed and t = 1700000000000,
            THEN conjunct2, THEN conjunct2, THEN conjunct2, THEN conjunct1, THEN mp, OF k3]
    by blast
  have h_src_ip: "(\<forall>k\<in>set [''ClientIP'', ''clientIP'', ''client_ip'', ''source_ip''].
              \<not> is_text (get sample_record_malformed k))"
    by code_simp
  have h_src_country: "(\<forall>k\<in>set [''ClientCountry'', ''clientCountry'', ''client_country'',
                       ''clientCountryName'', ''client_country_name''].
              \<not> is_text (get sample_record_malformed k))"
    by code_simp
  have h_colo: "(\<forall>k\<in>set [''EdgeColoCode'', ''edgeColoCode'', ''colo'', ''datacenter'',
                       ''edgeColo'', ''edge_colo''].
              \<not> is_text (get sample_record_malformed k))"
    by code_simp
  have h_host: "\<not> (\<forall>k\<in>set [''ClientRequestHost'', ''clientRequestHost'', ''host'', ''hostname'',
                       ''clientRequestHTTPHost'', ''client_request_http_host''].
              \<not> is_text (get sample_record_malformed k))"
    by code_simp
  have h_path: "(\<forall>k\<in>set [''ClientRequestPath'', ''clientRequestPath'', ''path'', ''uri'',
                       ''clientRequestPath'', ''client_request_path''].
              \<not> is_text (get sample_record_malformed k))"
    by code_simp
  have h_http_method: "(\<forall>k\<in>set [''ClientRequestMethod'', ''clientRequestMethod'', ''method'',
                       ''clientRequestHTTPMethodName'', ''client_request_http_method_name''].
              \<not> is_text (get sample_record_malformed k))"
    by code_simp
  have h_ua: "(\<forall>k\<in>set [''ClientRequestUserAgent'', ''clientRequestUserAgent'',
                       ''user_agent'', ''ua'', ''userAgent''].
              \<not> is_text (get sample_record_malformed k))"
    by code_simp
  have h_ja3: "(\<forall>k\<in>set [''JA3Hash'', ''ja3Hash'', ''ja3''].
              \<not> is_text (get sample_record_malformed k))"
    by code_simp
  have h_rule_name: "(\<forall>k\<in>set [''WAFRuleMessage'', ''wafRuleMessage'', ''rule_name'',
                       ''description''].
              \<not> is_text (get sample_record_malformed k))"
    by code_simp
  have h_mitigation: "\<not> is_text (get sample_record_malformed ''mitigation_reason'')"
    by code_simp
  have h_src_asn: "(\<forall>k\<in>set [''ClientASN'', ''clientASN'', ''client_asn'', ''clientAsn'',
                       ''client_asn''].
              \<not> is_numeric (get sample_record_malformed k))"
    by code_simp
  have h_status: "(\<forall>k\<in>set [''EdgeResponseStatus'', ''edgeResponseStatus'', ''status'',
                       ''edgeResponseStatus'', ''edge_response_status''].
              \<not> is_numeric (get sample_record_malformed k))"
    by code_simp
  have h_bytes: "(\<forall>k\<in>set [''ClientRequestBytes'', ''clientRequestBytes'', ''bytes'',
                       ''clientRequestBytes'', ''client_request_bytes''].
              \<not> is_numeric (get sample_record_malformed k))"
    by code_simp
  have h_threat_score: "(\<forall>k\<in>set [''SecurityLevel'', ''securityLevel'', ''threat_score''].
              \<not> is_numeric (get sample_record_malformed k))"
    by code_simp
  have h_rule: "\<not> is_text_list (get sample_record_malformed ''FirewallMatchesRuleIDs'')"
    "\<not> is_text_list (get sample_record_malformed ''firewallMatchesRuleIDs'')"
    "(\<forall>k\<in>set [''rule_id'', ''ruleId'', ''WAFRuleID'', ''wafRuleID''].
              \<not> is_text (get sample_record_malformed k))"
    by code_simp+
  have h_action: "\<not> is_text_list (get sample_record_malformed ''FirewallMatchesActions'')"
    "\<not> is_text_list (get sample_record_malformed ''firewallMatchesActions'')"
    "(\<forall>k\<in>set [''action'', ''WAFAction'', ''wafAction''].
              \<not> is_text (get sample_record_malformed k))"
    by code_simp+
  have h_service: "\<not> is_text_list (get sample_record_malformed ''FirewallMatchesSources'')"
    "\<not> is_text_list (get sample_record_malformed ''firewallMatchesSources'')"
    "(\<forall>k\<in>set [''service'', ''source''].
              \<not> is_text (get sample_record_malformed k))"
    by code_simp+
  note D = T[where raw = sample_record_malformed and ev = ev,
             THEN conjunct2, THEN conjunct2, THEN conjunct2, THEN conjunct2, THEN mp, OF ev]
  have 3: "src_ip ev = None \<and> src_country ev = None \<and> src_asn ev = None
          \<and> colo ev = None \<and> host ev \<noteq> None \<and> path ev = None \<and> http_method ev = None
          \<and> status ev = None \<and> rule_id ev = None \<and> rule_name ev = None
          \<and> rule_type ev = Some UnknownRule \<and> action ev = Some UnknownAction
          \<and> service ev = None \<and> mitigation_reason ev = None \<and> ua ev = None
          \<and> ja3 ev = None \<and> bytes ev = None \<and> threat_score ev = None"
    using D h_src_ip h_src_country h_colo h_path h_http_method h_ua h_ja3 h_rule_name h_mitigation h_src_asn h_status h_bytes h_threat_score h_rule h_action h_service h_host by simp
  show ?thesis using 1 2 ev ev2 3 by blast
qed

text \<open>
  A numeric field given as a string is read with \<^verbatim>\<open>parseInt\<close>, which stops at the
  first character that is no digit: the status \<^verbatim>\<open>"12abc"\<close> is no number and the
  event has the status 12. The action and the rule type of a record that names none are
  \<^verbatim>\<open>unknown\<close>, not absent.
\<close>

theorem parseWAFRecord_lenient_number_counterexample:
  "parseWAFRecord sample_Date_parse
     (JObj [(''ray_id'', JStr ''ray-a''), (''timestamp'', JNum 1700000000),
            (''status'', JStr ''12abc'')])
     = Some \<lparr> ray_id = ''ray-a'', event_ts = 1700000000000, src_ip = None,
         src_country = None, src_asn = None, colo = None, host = None,
         path = None, http_method = None, status = Some 12, rule_id = None,
         rule_name = None, rule_type = Some UnknownRule, action = Some UnknownAction,
         service = None, mitigation_reason = None, ua = None, ja3 = None, bytes = None,
         threat_score = None \<rparr>"
  by code_simp

subsection \<open>Timestamps in seconds and in milliseconds\<close>

lemma normalizeTimestamp_number:
  "n \<noteq> 0 \<Longrightarrow>
   normalizeTimestamp dp (JNum n) = Some (if n < 10000000000 then n * 1000 else n)"
  by (simp add: normalizeTimestamp_def)

lemma ts_equiv_same: "x = y \<Longrightarrow> ts_equiv dp y x"
  by (simp add: ts_equiv_def)

lemma ts_equiv_or:
  "ts_equiv dp a b \<Longrightarrow> ts_equiv dp c d \<Longrightarrow> ts_equiv dp (js_or a c) (js_or b d)"
  by (simp add: ts_equiv_def js_or_def)

lemma ts_equiv_seconds:
  "100000000 \<le> s \<Longrightarrow> s \<le> 999999999 \<Longrightarrow> ts_equiv dp (JNum s) (JNum (s * 1000))"
  by (simp add: ts_equiv_def normalizeTimestamp_number)

text \<open>The body reads its record only through \<open>get\<close> at the keys listed above.\<close>

lemma parseWAFRecord_body_cong:
  assumes A: "\<And>k. k \<in> set otherKeys \<Longrightarrow> get r2 k = get r1 k"
    and T: "normalizeTimestamp dp (rawTimestamp r2) = normalizeTimestamp dp (rawTimestamp r1)"
    and N: "(r2 = JNull \<or> r2 = JUndefined) = (r1 = JNull \<or> r1 = JUndefined)"
  shows "parseWAFRecord_body dp r2 = parseWAFRecord_body dp r1"
proof -
  have "\<forall>k\<in>set otherKeys. get r2 k = get r1 k" using A by blast
  then have K: "list_all (\<lambda>k. get r2 k = get r1 k) otherKeys" by (simp add: list_all_iff)
  note K' = K[unfolded otherKeys_def rayIdKeys_def optionalKeys_def append.simps
                 list.pred_inject]
  show ?thesis
    unfolding parseWAFRecord_body_def T N rawRayId_def rawSrcAsn_def rawStatus_def rawBytes_def
      rawThreatScore_def listOrSingular_def firstExtracted.simps firstSafe.simps
      firstStringKey.simps
    by (simp only: K')
qed


text \<open>
  Two records that differ under one timestamp key only, in values the timestamp chain
  cannot tell apart, normalize alike.
\<close>

lemma parseWAFRecord_ts_equiv:
  assumes k: "k \<in> set timestampKeys"
    and eq: "ts_equiv dp (get raw1 k) (get raw2 k)"
    and g1: "get raw1 k \<noteq> JUndefined" and g2: "get raw2 k \<noteq> JUndefined"
    and oth: "\<forall>k'. k' \<noteq> k \<longrightarrow> get raw2 k' = get raw1 k'"
  shows "parseWAFRecord dp raw1 = parseWAFRecord dp raw2"
proof -
  have n1: "raw1 \<noteq> JNull" "raw1 \<noteq> JUndefined" using g1 by auto
  have n2: "raw2 \<noteq> JNull" "raw2 \<noteq> JUndefined" using g2 by auto
  have E: "ts_equiv dp (get raw1 k') (get raw2 k')" for k'
  proof (cases "k' = k")
    case True
    then show ?thesis using eq by simp
  next
    case False
    then show ?thesis using oth by (simp add: ts_equiv_same)
  qed
  have "ts_equiv dp (rawTimestamp raw1) (rawTimestamp raw2)"
    unfolding rawTimestamp_def by (intro ts_equiv_or E)
  then have ts: "normalizeTimestamp dp (rawTimestamp raw2)
                  = normalizeTimestamp dp (rawTimestamp raw1)"
    by (simp add: ts_equiv_def)
  have nk: "k \<notin> set otherKeys"
    using k unfolding otherKeys_def rayIdKeys_def optionalKeys_def timestampKeys_def by auto
  have A: "get raw2 k' = get raw1 k'" if "k' \<in> set otherKeys" for k'
    using that nk oth by metis
  have "parseWAFRecord_body dp raw2 = parseWAFRecord_body dp raw1"
    by (rule parseWAFRecord_body_cong[OF A ts]) (use n1 n2 in simp_all)
  then show ?thesis by (simp add: parseWAFRecord_def parseWAFRecord_try_def)
qed

lemma parseWAFRecord_seconds_ms:
  assumes k: "k \<in> set timestampKeys"
    and s: "100000000 \<le> s" "s \<le> 999999999"
    and g1: "get raw1 k = JNum s" and g2: "get raw2 k = JNum (s * 1000)"
    and oth: "\<forall>k'. k' \<noteq> k \<longrightarrow> get raw2 k' = get raw1 k'"
  shows "parseWAFRecord dp raw1 = parseWAFRecord dp raw2"
  by (rule parseWAFRecord_ts_equiv[OF k _ _ _ oth])
     (use ts_equiv_seconds[OF s] g1 g2 in simp_all)

lemma parseWAFRecord_iso_ms:
  assumes k: "k \<in> set timestampKeys"
    and d: "str \<noteq> []" "dp str = Some ms" "10000000000 \<le> ms"
    and g1: "get raw1 k = JStr str" and g2: "get raw2 k = JNum ms"
    and oth: "\<forall>k'. k' \<noteq> k \<longrightarrow> get raw2 k' = get raw1 k'"
  shows "parseWAFRecord dp raw1 = parseWAFRecord dp raw2"
proof -
  have "ts_equiv dp (JStr str) (JNum ms)"
    using d by (simp add: ts_equiv_def normalizeTimestamp_def)
  then show ?thesis
    by (intro parseWAFRecord_ts_equiv[OF k _ _ _ oth]) (simp_all add: g1 g2)
qed

text \<open>\<^verbatim>\<open>parseInt\<close> reads the decimal numeral of a number as that number.\<close>

lemma decimal_chars: "c \<in> set (decimal n) \<Longrightarrow> 48 \<le> (of_char c :: nat) \<and> (of_char c :: nat) \<le> 57"
proof (induction n rule: decimal.induct)
  case (1 n)
  show ?case
  proof (cases "n < 10")
    case True
    then have "c = char_of (48 + n)" using "1.prems" by (simp add: decimal.simps[of n])
    then show ?thesis using True by simp
  next
    case False
    then have "c \<in> set (decimal (n div 10)) \<or> c = char_of (48 + n mod 10)"
      using "1.prems" by (auto simp add: decimal.simps[of n])
    then show ?thesis
    proof
      assume "c \<in> set (decimal (n div 10))"
      then show ?thesis using "1.IH"[OF False] by simp
    next
      assume c: "c = char_of (48 + n mod 10)"
      have "(48 + n mod 10) mod 256 = 48 + n mod 10"
        by (rule mod_less) (simp add: less_le_trans[OF mod_less_divisor[of 10 n]] add.commute)
      then show ?thesis using c by simp
    qed
  qed
qed

lemma decimal_nonempty: "decimal n \<noteq> []"
  by (simp add: decimal.simps[of n])

lemma digitsValue_append:
  "digitsValue R acc (xs @ ys) = digitsValue R (digitsValue R acc xs) ys"
  by (induction xs arbitrary: acc) simp_all

lemma digitVal_digit: "d < 10 \<Longrightarrow> digitVal (char_of (48 + d)) = Some d"
  by (simp add: digitVal_def Let_def)

lemma digitsValue_decimal: "digitsValue 10 0 (decimal n) = n"
proof (induction n rule: decimal.induct)
  case (1 n)
  show ?case
  proof (cases "n < 10")
    case True
    then show ?thesis by (simp add: decimal.simps[of n] digitVal_digit)
  next
    case False
    have "digitVal (char_of (48 + n mod 10)) = Some (n mod 10)"
      by (rule digitVal_digit) simp
    then show ?thesis
      using False "1.IH"[OF False] by (simp add: decimal.simps[of n] digitsValue_append)
  qed
qed

lemma decimal_isDigit: "c \<in> set (decimal n) \<Longrightarrow> isDigit 10 c \<and> \<not> isWhiteSpace c
    \<and> c \<noteq> CHR ''-'' \<and> c \<noteq> CHR ''+'' \<and> c \<noteq> CHR ''x'' \<and> c \<noteq> CHR ''X''"
proof -
  assume "c \<in> set (decimal n)"
  then have r: "48 \<le> (of_char c :: nat)" "(of_char c :: nat) \<le> 57"
    using decimal_chars by blast+
  have "isDigit 10 c" using r by (auto simp add: isDigit_def digitVal_def Let_def)
  moreover have "\<not> isWhiteSpace c" using r by (auto simp add: isWhiteSpace_def)
  moreover have "c \<noteq> CHR ''-''" "c \<noteq> CHR ''+''" "c \<noteq> CHR ''x''" "c \<noteq> CHR ''X''"
    using r by auto
  ultimately show ?thesis by blast
qed

lemma parseInt_decimal: "parseInt (decimal n) 0 = Some (int n)"
proof -
  let ?S = "decimal n"
  have ne: "?S \<noteq> []" by (rule decimal_nonempty)
  then have hd: "hd ?S \<in> set ?S" by simp
  have d: "dropWhile isWhiteSpace ?S = ?S"
    using decimal_isDigit[OF hd] by (simp add: dropWhile_eq_self_iff)
  have sg: "hd ?S \<noteq> CHR ''-''" "hd ?S \<noteq> CHR ''+''" using decimal_isDigit[OF hd] by simp_all
  have nx: "take 2 ?S \<noteq> ''0x''" "take 2 ?S \<noteq> ''0X''"
  proof -
    have "c \<in> set (take 2 ?S) \<Longrightarrow> c \<noteq> CHR ''x'' \<and> c \<noteq> CHR ''X''" for c
      using decimal_isDigit[of c n] set_take_subset[of 2 ?S] by blast
    then show "take 2 ?S \<noteq> ''0x''" "take 2 ?S \<noteq> ''0X''" by fastforce+
  qed
  have tw: "takeWhile (isDigit 10) ?S = ?S"
    using decimal_isDigit by (simp add: takeWhile_eq_all_conv)
  show ?thesis
    unfolding parseInt_def Let_def d
    using ne sg nx by (simp add: tw digitsValue_decimal)
qed

lemma normalizeTimestamp_decimal:
  assumes "0 < m" and "dp (decimal m) = None"
  shows "normalizeTimestamp dp (JStr (decimal m)) = normalizeTimestamp dp (JNum (int m))"
  using assms by (simp add: normalizeTimestamp_def parseInt_decimal decimal_nonempty)

lemma char_of_digit:
  "char_of (48 :: nat) = CHR ''0''" "char_of (49 :: nat) = CHR ''1''"
  "char_of (50 :: nat) = CHR ''2''" "char_of (51 :: nat) = CHR ''3''"
  "char_of (52 :: nat) = CHR ''4''" "char_of (53 :: nat) = CHR ''5''"
  "char_of (54 :: nat) = CHR ''6''" "char_of (55 :: nat) = CHR ''7''"
  "char_of (56 :: nat) = CHR ''8''" "char_of (57 :: nat) = CHR ''9''"
  by code_simp+

text \<open>
  C7, as the code has it. For every 9-digit numeric epoch value \<open>s\<close>,
  \<^verbatim>\<open>normalizeTimestamp(s)\<close> equals \<^verbatim>\<open>normalizeTimestamp(s * 1000)\<close>, and two records
  that differ only in carrying \<open>s\<close> or \<open>s * 1000\<close> under one timestamp key normalize to the
  same result. A numeric value other than 0 below the seconds threshold is multiplied by
  1000 (the value 0 counts as absent). A non-empty string that \<^verbatim>\<open>Date.parse\<close> accepts
  gives the parsed milliseconds, and a record that carries it normalizes like the record
  that carries those milliseconds as a number. A string that \<^verbatim>\<open>Date.parse\<close> rejects
  and \<^verbatim>\<open>parseInt\<close> reads follows the seconds/milliseconds heuristic: the decimal
  numeral of a number \<open>m > 0\<close> normalizes like the number \<open>m\<close>, so the numerals of a
  9-digit \<open>m\<close> and of \<open>m * 1000\<close> give the same timestamp.
\<close>

theorem normalizeTimestamp_seconds_ms:
  "(100000000 \<le> s \<and> s \<le> 999999999 \<longrightarrow>
       normalizeTimestamp dp (JNum s) = normalizeTimestamp dp (JNum (s * 1000))
     \<and> normalizeTimestamp dp (JNum s) = Some (s * 1000))
   \<and> (100000000 \<le> s \<and> s \<le> 999999999 \<and> k \<in> set timestampKeys
        \<and> get raw1 k = JNum s \<and> get raw2 k = JNum (s * 1000)
        \<and> (\<forall>k'. k' \<noteq> k \<longrightarrow> get raw2 k' = get raw1 k')
      \<longrightarrow> parseWAFRecord dp raw1 = parseWAFRecord dp raw2)
   \<and> (n \<noteq> 0 \<and> n < 10000000000 \<longrightarrow> normalizeTimestamp dp (JNum n) = Some (n * 1000))
   \<and> (str \<noteq> [] \<and> dp str = Some ms \<longrightarrow> normalizeTimestamp dp (JStr str) = Some ms)
   \<and> (dp str = None \<and> parseInt str 0 = Some num \<longrightarrow>
        normalizeTimestamp dp (JStr str)
          = Some (if num < 10000000000 then num * 1000 else num))
   \<and> (0 < m \<and> dp (decimal m) = None \<longrightarrow>
        normalizeTimestamp dp (JStr (decimal m)) = normalizeTimestamp dp (JNum (int m)))
   \<and> (100000000 \<le> m \<and> m \<le> 999999999 \<and> dp (decimal m) = None
        \<and> dp (decimal (m * 1000)) = None \<longrightarrow>
        normalizeTimestamp dp (JStr (decimal m))
          = normalizeTimestamp dp (JStr (decimal (m * 1000)))
      \<and> normalizeTimestamp dp (JStr (decimal m)) = Some (int m * 1000))
   \<and> (str \<noteq> [] \<and> dp str = Some ms \<and> 10000000000 \<le> ms \<and> k \<in> set timestampKeys
        \<and> get raw1 k = JStr str \<and> get raw2 k = JNum ms
        \<and> (\<forall>k'. k' \<noteq> k \<longrightarrow> get raw2 k' = get raw1 k')
      \<longrightarrow> parseWAFRecord dp raw1 = parseWAFRecord dp raw2)"
proof -
  have c1: "100000000 \<le> s \<and> s \<le> 999999999 \<longrightarrow>
       normalizeTimestamp dp (JNum s) = normalizeTimestamp dp (JNum (s * 1000))
     \<and> normalizeTimestamp dp (JNum s) = Some (s * 1000)"
    by (simp add: normalizeTimestamp_number)
  have c2: "100000000 \<le> s \<and> s \<le> 999999999 \<and> k \<in> set timestampKeys
        \<and> get raw1 k = JNum s \<and> get raw2 k = JNum (s * 1000)
        \<and> (\<forall>k'. k' \<noteq> k \<longrightarrow> get raw2 k' = get raw1 k')
      \<longrightarrow> parseWAFRecord dp raw1 = parseWAFRecord dp raw2"
    using parseWAFRecord_seconds_ms[of k s raw1 raw2 dp] by blast
  have c3: "n \<noteq> 0 \<and> n < 10000000000 \<longrightarrow> normalizeTimestamp dp (JNum n) = Some (n * 1000)"
    by (simp add: normalizeTimestamp_number)
  have c4: "str \<noteq> [] \<and> dp str = Some ms \<longrightarrow> normalizeTimestamp dp (JStr str) = Some ms"
    by (simp add: normalizeTimestamp_def)
  have c5: "dp str = None \<and> parseInt str 0 = Some num \<longrightarrow>
        normalizeTimestamp dp (JStr str)
          = Some (if num < 10000000000 then num * 1000 else num)"
  proof
    assume a: "dp str = None \<and> parseInt str 0 = Some num"
    then have "str \<noteq> []" by (auto simp add: parseInt_def)
    with a show "normalizeTimestamp dp (JStr str)
          = Some (if num < 10000000000 then num * 1000 else num)"
      by (simp add: normalizeTimestamp_def)
  qed
  have c6: "0 < m \<and> dp (decimal m) = None \<longrightarrow>
        normalizeTimestamp dp (JStr (decimal m)) = normalizeTimestamp dp (JNum (int m))"
    using normalizeTimestamp_decimal by blast
  have c7: "100000000 \<le> m \<and> m \<le> 999999999 \<and> dp (decimal m) = None
        \<and> dp (decimal (m * 1000)) = None \<longrightarrow>
        normalizeTimestamp dp (JStr (decimal m))
          = normalizeTimestamp dp (JStr (decimal (m * 1000)))
      \<and> normalizeTimestamp dp (JStr (decimal m)) = Some (int m * 1000)"
  proof
    assume a: "100000000 \<le> m \<and> m \<le> 999999999 \<and> dp (decimal m) = None
        \<and> dp (decimal (m * 1000)) = None"
    have 1: "normalizeTimestamp dp (JStr (decimal m)) = normalizeTimestamp dp (JNum (int m))"
      using a by (intro normalizeTimestamp_decimal) simp_all
    have 2: "normalizeTimestamp dp (JStr (decimal (m * 1000)))
               = normalizeTimestamp dp (JNum (int (m * 1000)))"
      using a by (intro normalizeTimestamp_decimal) simp_all
    have 3: "normalizeTimestamp dp (JNum (int m)) = Some (int m * 1000)"
      using a by (simp add: normalizeTimestamp_number)
    have 4: "normalizeTimestamp dp (JNum (int (m * 1000))) = Some (int m * 1000)"
      using a by (simp add: normalizeTimestamp_number)
    show "normalizeTimestamp dp (JStr (decimal m))
          = normalizeTimestamp dp (JStr (decimal (m * 1000)))
      \<and> normalizeTimestamp dp (JStr (decimal m)) = Some (int m * 1000)"
      using 1 2 3 4 by simp
  qed
  have c8: "str \<noteq> [] \<and> dp str = Some ms \<and> 10000000000 \<le> ms \<and> k \<in> set timestampKeys
        \<and> get raw1 k = JStr str \<and> get raw2 k = JNum ms
        \<and> (\<forall>k'. k' \<noteq> k \<longrightarrow> get raw2 k' = get raw1 k')
      \<longrightarrow> parseWAFRecord dp raw1 = parseWAFRecord dp raw2"
    using parseWAFRecord_iso_ms[of k str dp ms raw1 raw2] by blast
  show ?thesis by (intro conjI) (rule c1 c2 c3 c4 c5 c6 c7 c8)+
qed

theorem normalizeTimestamp_seconds_ms_witness:
  "normalizeTimestamp sample_Date_parse (JNum 170000000)
     = normalizeTimestamp sample_Date_parse (JNum 170000000000)
   \<and> parseWAFRecord sample_Date_parse
        (JObj [(''RayID'', JStr ''ray-a''), (''timestamp'', JNum 170000000)])
     = parseWAFRecord sample_Date_parse
        (JObj [(''RayID'', JStr ''ray-a''), (''timestamp'', JNum 170000000000)])
   \<and> normalizeTimestamp sample_Date_parse (JNum (- 5)) = Some (- 5000)
   \<and> normalizeTimestamp sample_Date_parse (JStr ''2023-11-14T22:13:20Z'') = Some 1700000000000
   \<and> normalizeTimestamp sample_Date_parse (JStr ''1700000000'') = Some 1700000000000
   \<and> normalizeTimestamp sample_Date_parse (JStr ''1700000000'')
       = normalizeTimestamp sample_Date_parse (JNum 1700000000)
   \<and> normalizeTimestamp sample_Date_parse (JStr ''170000000'')
       = normalizeTimestamp sample_Date_parse (JStr ''170000000000'')
   \<and> parseWAFRecord sample_Date_parse
        (JObj [(''RayID'', JStr ''ray-a''), (''timestamp'', JStr ''2023-11-14T22:13:20Z'')])
     = parseWAFRecord sample_Date_parse
        (JObj [(''RayID'', JStr ''ray-a''), (''timestamp'', JNum 1700000000000)])"
proof -
  let ?r1 = "JObj [(''RayID'', JStr ''ray-a''), (''timestamp'', JNum 170000000)]"
  let ?r2 = "JObj [(''RayID'', JStr ''ray-a''), (''timestamp'', JNum 170000000000)]"
  let ?r3 = "JObj [(''RayID'', JStr ''ray-a''), (''timestamp'', JStr ''2023-11-14T22:13:20Z'')]"
  let ?r4 = "JObj [(''RayID'', JStr ''ray-a''), (''timestamp'', JNum 1700000000000)]"
  have o: "\<forall>k'. k' \<noteq> ''timestamp'' \<longrightarrow> get ?r2 k' = get ?r1 k'" by simp
  have o2: "\<forall>k'. k' \<noteq> ''timestamp'' \<longrightarrow> get ?r4 k' = get ?r3 k'" by simp
  have d: "sample_Date_parse ''2023-11-14T22:13:20Z'' = Some 1700000000000"
    by (simp add: sample_Date_parse_def)
  have nd: "sample_Date_parse ''1700000000'' = None"
    by (simp add: sample_Date_parse_def)
  have p: "parseInt ''1700000000'' 0 = Some 1700000000"
    by (simp add: parseInt_def isWhiteSpace_def isDigit_def digitVal_def)
  have dec: "decimal 1700000000 = ''1700000000''" "decimal 170000000 = ''170000000''"
    "decimal (170000000 * 1000) = ''170000000000''"
    by (simp_all add: decimal.simps char_of_digit)
  have nd2: "sample_Date_parse ''170000000'' = None" "sample_Date_parse ''170000000000'' = None"
    by (simp_all add: sample_Date_parse_def)
  have 1: "normalizeTimestamp sample_Date_parse (JNum 170000000)
             = normalizeTimestamp sample_Date_parse (JNum 170000000000)
           \<and> parseWAFRecord sample_Date_parse ?r1 = parseWAFRecord sample_Date_parse ?r2
           \<and> normalizeTimestamp sample_Date_parse (JNum (- 5)) = Some (- 5000)
           \<and> normalizeTimestamp sample_Date_parse (JStr ''2023-11-14T22:13:20Z'')
               = Some 1700000000000"
    using normalizeTimestamp_seconds_ms
            [where s = 170000000 and dp = sample_Date_parse and k = "''timestamp''"
               and ?raw1.0 = "?r1" and ?raw2.0 = "?r2" and n = "- 5"
               and str = "''2023-11-14T22:13:20Z''" and ms = 1700000000000 and num = 0
               and m = 0] o d
    by (simp add: timestampKeys_def)
  note T = normalizeTimestamp_seconds_ms[where dp = sample_Date_parse]
  have 2: "normalizeTimestamp sample_Date_parse (JStr ''1700000000'') = Some 1700000000000"
    using T[where str = "''1700000000''" and num = 1700000000,
            THEN conjunct2, THEN conjunct2, THEN conjunct2, THEN conjunct2, THEN conjunct1]
          nd p
    by simp
  have 3: "normalizeTimestamp sample_Date_parse (JStr ''1700000000'')
       = normalizeTimestamp sample_Date_parse (JNum 1700000000)"
    using T[where m = 1700000000,
            THEN conjunct2, THEN conjunct2, THEN conjunct2, THEN conjunct2, THEN conjunct2,
            THEN conjunct1]
          nd
    unfolding dec by simp
  have 4: "normalizeTimestamp sample_Date_parse (JStr ''170000000'')
       = normalizeTimestamp sample_Date_parse (JStr ''170000000000'')"
    using T[where m = 170000000,
            THEN conjunct2, THEN conjunct2, THEN conjunct2, THEN conjunct2, THEN conjunct2,
            THEN conjunct2, THEN conjunct1]
          nd2
    unfolding dec by simp
  have 5: "parseWAFRecord sample_Date_parse ?r3 = parseWAFRecord sample_Date_parse ?r4"
    using T[where str = "''2023-11-14T22:13:20Z''" and ms = 1700000000000
               and k = "''timestamp''" and ?raw1.0 = "?r3" and ?raw2.0 = "?r4",
            THEN conjunct2, THEN conjunct2, THEN conjunct2, THEN conjunct2, THEN conjunct2,
            THEN conjunct2, THEN conjunct2]
          o2 d
    by (simp add: timestampKeys_def)
  show ?thesis using 1 2 3 4 5 by blast
qed

text \<open>
  The value 0 is a numeric value below the seconds threshold, and it is not multiplied by
  1000: the guard \<^verbatim>\<open>if (!value) return null\<close> answers first. The string \<^verbatim>\<open>"2023"\<close>
  is a numeric string, and it does not follow the heuristic, which gives 2023000 for the
  number 2023: \<^verbatim>\<open>Date.parse\<close> is asked first and reads it as a year.
\<close>

theorem normalizeTimestamp_zero_and_year_counterexample:
  "normalizeTimestamp sample_Date_parse (JNum 0) = None
   \<and> normalizeTimestamp sample_Date_parse (JNum 0) \<noteq> Some (0 * 1000)
   \<and> parseInt ''2023'' 0 = Some 2023
   \<and> normalizeTimestamp sample_Date_parse (JNum 2023) = Some 2023000
   \<and> normalizeTimestamp sample_Date_parse (JStr ''2023'') = Some 1672531200000"
  by code_simp

subsection \<open>Numeric fields that normalize to zero\<close>

lemma parseWAFRecord_numeric:
  assumes "parseWAFRecord dp raw = Some ev"
  shows "src_asn ev = num_or (rawSrcAsn raw) None \<and> status ev = num_or (rawStatus raw) None
       \<and> bytes ev = num_or (rawBytes raw) None
       \<and> threat_score ev = num_or (rawThreatScore raw) None"
  using assms
  by (auto simp add: parseWAFRecord_def parseWAFRecord_try_def parseWAFRecord_body_def Let_def
       split: if_splits option.splits)

lemma num_or_zero: "num_or (Some 0) None = None"
  by (simp add: num_or_def)

lemma num_or_not_zero: "num_or x None \<noteq> Some 0"
  by (simp add: num_or_def split: option.splits)

lemma num_or_idem: "num_or (num_or x None) None = num_or x None"
  by (simp add: num_or_def split: option.splits)

text \<open>
  C10. When a numeric field (source ASN, response status, request bytes, threat score)
  normalizes to 0, the event the normalizer returns has the field absent, and the batch
  insert binds \<^verbatim>\<open>NULL\<close> for the column. No event of the normalizer carries the value 0
  in one of these fields, and no bound row does, whatever event it is bound from.
\<close>

theorem zero_numeric_fields_become_absent:
  assumes "parseWAFRecord dp raw = Some ev"
  shows "(rawSrcAsn raw = Some 0 \<longrightarrow>
            src_asn ev = None \<and> row_src_asn (bindEvent now fileId ev) = None)
       \<and> (rawStatus raw = Some 0 \<longrightarrow>
            status ev = None \<and> row_status (bindEvent now fileId ev) = None)
       \<and> (rawBytes raw = Some 0 \<longrightarrow>
            bytes ev = None \<and> row_bytes (bindEvent now fileId ev) = None)
       \<and> (rawThreatScore raw = Some 0 \<longrightarrow>
            threat_score ev = None \<and> row_threat_score (bindEvent now fileId ev) = None)
       \<and> src_asn ev \<noteq> Some 0 \<and> status ev \<noteq> Some 0 \<and> bytes ev \<noteq> Some 0
       \<and> threat_score ev \<noteq> Some 0
       \<and> row_src_asn (bindEvent now fileId e) \<noteq> Some 0
       \<and> row_status (bindEvent now fileId e) \<noteq> Some 0
       \<and> row_bytes (bindEvent now fileId e) \<noteq> Some 0
       \<and> row_threat_score (bindEvent now fileId e) \<noteq> Some 0"
proof -
  note F = parseWAFRecord_numeric[OF assms]
  have ev: "src_asn ev \<noteq> Some 0" "status ev \<noteq> Some 0" "bytes ev \<noteq> Some 0"
    "threat_score ev \<noteq> Some 0"
    using F by (simp_all add: num_or_not_zero)
  have z: "rawSrcAsn raw = Some 0 \<longrightarrow>
              src_asn ev = None \<and> row_src_asn (bindEvent now fileId ev) = None"
    "rawStatus raw = Some 0 \<longrightarrow>
              status ev = None \<and> row_status (bindEvent now fileId ev) = None"
    "rawBytes raw = Some 0 \<longrightarrow>
              bytes ev = None \<and> row_bytes (bindEvent now fileId ev) = None"
    "rawThreatScore raw = Some 0 \<longrightarrow>
              threat_score ev = None \<and> row_threat_score (bindEvent now fileId ev) = None"
    using F by (simp_all add: bindEvent_def num_or_zero num_or_def)
  have b: "row_src_asn (bindEvent now fileId e) \<noteq> Some 0"
    "row_status (bindEvent now fileId e) \<noteq> Some 0"
    "row_bytes (bindEvent now fileId e) \<noteq> Some 0"
    "row_threat_score (bindEvent now fileId e) \<noteq> Some 0"
    by (simp_all add: bindEvent_def num_or_not_zero)
  show ?thesis using ev z b by blast
qed

lemma sample_record_zero_parses:
  "parseWAFRecord sample_Date_parse sample_record_zero = Some sample_event_zero"
  by code_simp

theorem zero_numeric_fields_become_absent_witness:
  "rawSrcAsn sample_record_zero = Some 0 \<and> rawStatus sample_record_zero = Some 0
   \<and> rawBytes sample_record_zero = Some 0 \<and> rawThreatScore sample_record_zero = Some 0
   \<and> src_asn sample_event_zero = None \<and> status sample_event_zero = None
   \<and> bytes sample_event_zero = None \<and> threat_score sample_event_zero = None
   \<and> row_src_asn (bindEvent 1700000100000 1 sample_event_zero) = None
   \<and> row_status (bindEvent 1700000100000 1 sample_event_zero) = None
   \<and> row_bytes (bindEvent 1700000100000 1 sample_event_zero) = None
   \<and> row_threat_score (bindEvent 1700000100000 1 sample_event_zero) = None"
proof -
  have r: "rawSrcAsn sample_record_zero = Some 0" "rawStatus sample_record_zero = Some 0"
    "rawBytes sample_record_zero = Some 0" "rawThreatScore sample_record_zero = Some 0"
    by code_simp+
  show ?thesis
    using zero_numeric_fields_become_absent
            [OF sample_record_zero_parses, of 1700000100000 1 sample_event_a] r
    by simp
qed

section \<open>Content Parser: results\<close>

lemma parseLines_acc:
  "parseLines P ls (evs, ers) =
     (evs @ List.map_filter (line_event P) ls, ers @ List.map_filter (line_error P) ls)"
proof (induction ls arbitrary: evs ers)
  case Nil
  then show ?case by (simp add: List.map_filter_simps)
next
  case (Cons l ls)
  show ?case
  proof (cases "JSON_parse P l")
    case (Inl e)
    then show ?thesis using Cons.IH
      by (simp add: List.map_filter_simps line_event_def line_error_def)
  next
    case (Inr r)
    then show ?thesis using Cons.IH
      by (cases "parseWAFRecord (Date_parse P) r")
         (simp_all add: List.map_filter_simps line_event_def line_error_def
            parseWAFRecord_try_Inr)
  qed
qed

lemma split_on_nonempty: "split_on c s \<noteq> []"
  by (induction s) (auto split: list.splits)

text \<open>Splitting loses nothing: the lines, each followed by the separator, give the text back.\<close>

lemma split_on_concat: "concat (map (\<lambda>l. l @ [c]) (split_on c s)) = s @ [c]"
  by (induction s) (auto split: list.splits simp add: split_on_nonempty)

lemma split_on_no_separator: "l \<in> set (split_on c s) \<Longrightarrow> c \<notin> set l"
  by (induction s arbitrary: l) (auto split: list.splits if_splits)

lemma all_dropWhile: "(\<forall>x\<in>set (dropWhile Q l). Q x) = (\<forall>x\<in>set l. Q x)"
  by (induction l) auto

lemma trim_blank: "(trim l = []) = (\<forall>ch\<in>set l. isWhiteSpace ch)"
  by (simp add: trim_def all_dropWhile)

text \<open>
  C8. When the whole-content parse does not yield an array, whether it throws or yields
  another value, \<^verbatim>\<open>parseContent\<close> works line by line: the lines are the pieces between
  newlines that hold a character other than white space; the events are those of the lines
  taken one by one, in order, and the errors are one string for each line that
  \<^verbatim>\<open>JSON.parse\<close> rejects, in order. A line whose record the normalizer rejects gives
  neither an event nor an error. \<^verbatim>\<open>parseContent\<close> is a total function of the text: no
  exception leaves it.
\<close>

theorem parseContent_line_mode:
  assumes "\<forall>data. JSON_parse P content \<noteq> Inr (JArr data)"
  shows "parseContent P content =
           (List.map_filter (line_event P) (nonBlankLines content),
            List.map_filter (line_error P) (nonBlankLines content))
       \<and> nonBlankLines content =
           filter (\<lambda>l. \<exists>ch\<in>set l. \<not> isWhiteSpace ch) (split_on LF content)
       \<and> length (snd (parseContent P content)) =
           length (filter (\<lambda>l. isl (JSON_parse P l)) (nonBlankLines content))"
proof -
  have 1: "parseContent P content =
           (List.map_filter (line_event P) (nonBlankLines content),
            List.map_filter (line_error P) (nonBlankLines content))"
    using assms
    by (auto simp add: parseContent_def parseLines_acc split: sum.splits jsval.splits)
  have 2: "nonBlankLines content =
           filter (\<lambda>l. \<exists>ch\<in>set l. \<not> isWhiteSpace ch) (split_on LF content)"
    by (simp add: nonBlankLines_def trim_blank)
  have "length (List.map_filter (line_error P) ls) = length (filter (\<lambda>l. isl (JSON_parse P l)) ls)"
    for ls
    by (induction ls) (auto simp add: List.map_filter_simps line_error_def split: sum.splits)
  with 1 have 3: "length (snd (parseContent P content)) =
           length (filter (\<lambda>l. isl (JSON_parse P l)) (nonBlankLines content))"
    by simp
  show ?thesis using 1 2 3 by blast
qed

theorem parseContent_line_mode_witness:
  "parseContent sample_platform sample_ndjson =
     ([sample_event_a, sample_event_b], [''Failed to parse line: SyntaxError: Unexpected token''])
   \<and> nonBlankLines sample_ndjson = [sample_line_a, ''not json'', sample_line_b]"
proof -
  have h: "\<forall>data. JSON_parse sample_platform sample_ndjson \<noteq> Inr (JArr data)"
  proof -
    have "JSON_parse sample_platform sample_ndjson = Inl ''SyntaxError: Unexpected token''"
      by code_simp
    then show ?thesis by simp
  qed
  have l: "nonBlankLines sample_ndjson = [sample_line_a, ''not json'', sample_line_b]"
    by code_simp
  have e: "List.map_filter (line_event sample_platform)
             [sample_line_a, ''not json'', sample_line_b] = [sample_event_a, sample_event_b]"
    by code_simp
  have r: "List.map_filter (line_error sample_platform)
             [sample_line_a, ''not json'', sample_line_b]
           = [''Failed to parse line: SyntaxError: Unexpected token'']"
    by code_simp
  have m: "parseContent sample_platform sample_ndjson =
             (List.map_filter (line_event sample_platform) (nonBlankLines sample_ndjson),
              List.map_filter (line_error sample_platform) (nonBlankLines sample_ndjson))"
    using parseContent_line_mode[OF h] by blast
  show ?thesis unfolding m l e r by (rule conjI; rule refl)
qed

section \<open>Batched Upsert Engine: results\<close>

lemma tally_count:
  "tally cs (a, b) =
     (a + length (filter (\<lambda>c. c > 0) cs), b + length (filter (\<lambda>c. \<not> c > 0) cs))"
  by (induction cs arbitrary: a b) auto

lemma insertOrIgnore_keys:
  "insertOrIgnore r d = Inr (c, d') \<Longrightarrow> stored_keys d' = insert (row_key r) (stored_keys d)"
  by (auto simp add: insertOrIgnore_def stored_keys_def row_key_def split: if_splits)

lemma insertOrIgnore_unique:
  "insertOrIgnore r d = Inr (c, d') \<Longrightarrow> unique_events d \<Longrightarrow> unique_events d'"
  by (auto simp add: insertOrIgnore_def unique_events_def row_key_def split: if_splits)

lemma insertOrIgnore_changes:
  "insertOrIgnore r d = Inr (c, d') \<Longrightarrow> c = (if row_key r \<in> stored_keys d then 0 else 1)"
  by (auto simp add: insertOrIgnore_def stored_keys_def split: if_splits)

lemma insertOrIgnore_rows:
  "insertOrIgnore r d = Inr (c, d') \<Longrightarrow>
   waf_events d' = waf_events d @ (if row_key r \<in> stored_keys d then []
                                   else [r\<lparr> row_id := Suc (waf_events_seq d) \<rparr>])"
  by (auto simp add: insertOrIgnore_def stored_keys_def split: if_splits)

lemma insertOrIgnore_uploads: "insertOrIgnore r d = Inr (c, d') \<Longrightarrow> uploads d' = uploads d"
  by (auto simp add: insertOrIgnore_def split: if_splits)

lemma insertOrIgnore_total:
  "row_file_id r \<in> upload_ids d \<Longrightarrow> \<exists>c d'. insertOrIgnore r d = Inr (c, d')"
  by (simp add: insertOrIgnore_def upload_ids_def)

lemma db_batch_Cons:
  "db_batch (r # rs) d = Inr (cs, d') \<Longrightarrow>
   \<exists>c d1 cs1. insertOrIgnore r d = Inr (c, d1) \<and> db_batch rs d1 = Inr (cs1, d') \<and> cs = c # cs1"
  by (auto split: sum.splits prod.splits)

lemma db_batch_props:
  "db_batch rs d = Inr (cs, d') \<Longrightarrow>
     length cs = length rs
   \<and> stored_keys d' = stored_keys d \<union> row_key ` set rs
   \<and> (unique_events d \<longrightarrow> unique_events d')
   \<and> length (filter (\<lambda>c. c > 0) cs) = card (row_key ` set rs - stored_keys d)
   \<and> (\<forall>i < length rs. row_key (rs ! i) \<in> stored_keys d \<longrightarrow> cs ! i = 0)"
proof (induction rs arbitrary: d cs d')
  case Nil
  then show ?case by simp
next
  case (Cons r rs)
  obtain c d1 cs1 where s1: "insertOrIgnore r d = Inr (c, d1)"
    and s2: "db_batch rs d1 = Inr (cs1, d')" and eq: "cs = c # cs1"
    using db_batch_Cons[OF Cons.prems] by blast
  note IH = Cons.IH[OF s2]
  note k1 = insertOrIgnore_keys[OF s1]
  note c1 = insertOrIgnore_changes[OF s1]
  have len: "length cs = length (r # rs)" using IH eq by simp
  have keys: "stored_keys d' = stored_keys d \<union> row_key ` set (r # rs)"
    using IH k1 eq by auto
  have uniq: "unique_events d \<longrightarrow> unique_events d'"
    using IH insertOrIgnore_unique[OF s1] eq by simp
  have cnt: "length (filter (\<lambda>c. c > 0) cs) = card (row_key ` set (r # rs) - stored_keys d)"
  proof (cases "row_key r \<in> stored_keys d")
    case True
    then have "stored_keys d1 = stored_keys d" using k1 by auto
    moreover have "row_key ` set (r # rs) - stored_keys d = row_key ` set rs - stored_keys d"
      using True by auto
    ultimately show ?thesis using IH eq c1 True by simp
  next
    case False
    have "row_key ` set (r # rs) - stored_keys d
            = insert (row_key r) (row_key ` set rs - stored_keys d1)"
      using False k1 by auto
    moreover have "row_key r \<notin> row_key ` set rs - stored_keys d1" using k1 by simp
    moreover have "finite (row_key ` set rs - stored_keys d1)" by simp
    ultimately have "card (row_key ` set (r # rs) - stored_keys d)
            = Suc (card (row_key ` set rs - stored_keys d1))"
      by simp
    then show ?thesis using IH eq c1 False by simp
  qed
  have zero: "\<forall>i < length (r # rs). row_key ((r # rs) ! i) \<in> stored_keys d \<longrightarrow> cs ! i = 0"
  proof (intro allI impI)
    fix i assume i: "i < length (r # rs)" and m: "row_key ((r # rs) ! i) \<in> stored_keys d"
    show "cs ! i = 0"
    proof (cases i)
      case 0
      then show ?thesis using m c1 eq by simp
    next
      case (Suc j)
      then have "row_key (rs ! j) \<in> stored_keys d1" using m k1 by simp
      then show ?thesis using IH i Suc eq by simp
    qed
  qed
  show ?case using len keys uniq cnt zero by blast
qed

text \<open>
  A batch adds rows after the stored ones and changes none of them. A row it adds has a key
  new to the store and is, up to its id, the first row of the batch with that key.
\<close>

lemma db_batch_rows:
  "db_batch rs d = Inr (cs, d') \<Longrightarrow>
   \<exists>new. waf_events d' = waf_events d @ new
     \<and> (\<forall>x\<in>set new. row_key x \<notin> stored_keys d
           \<and> (\<exists>r. find (\<lambda>r. row_key r = row_key x) rs = Some r \<and> x = r\<lparr> row_id := row_id x \<rparr>))"
proof (induction rs arbitrary: d cs d')
  case Nil
  then show ?case by simp
next
  case (Cons r rs)
  obtain c d1 cs1 where s1: "insertOrIgnore r d = Inr (c, d1)"
    and s2: "db_batch rs d1 = Inr (cs1, d')" and eq: "cs = c # cs1"
    using db_batch_Cons[OF Cons.prems] by blast
  obtain new1 where n1: "waf_events d' = waf_events d1 @ new1"
    and p1: "\<forall>x\<in>set new1. row_key x \<notin> stored_keys d1
           \<and> (\<exists>r. find (\<lambda>r. row_key r = row_key x) rs = Some r \<and> x = r\<lparr> row_id := row_id x \<rparr>)"
    using Cons.IH[OF s2] by blast
  note k1 = insertOrIgnore_keys[OF s1]
  note r1 = insertOrIgnore_rows[OF s1]
  have old: "row_key x \<notin> stored_keys d
           \<and> (\<exists>r'. find (\<lambda>r'. row_key r' = row_key x) (r # rs) = Some r'
                  \<and> x = r'\<lparr> row_id := row_id x \<rparr>)"
    if x: "x \<in> set new1" for x
  proof -
    have a: "row_key x \<notin> stored_keys d" "row_key r \<noteq> row_key x" using p1 x k1 by auto
    then show ?thesis using p1 x by simp
  qed
  show ?case
  proof (cases "row_key r \<in> stored_keys d")
    case True
    then have "waf_events d' = waf_events d @ new1" using n1 r1 by simp
    then show ?thesis using old by blast
  next
    case False
    let ?x = "r\<lparr> row_id := Suc (waf_events_seq d) \<rparr>"
    have e: "waf_events d' = waf_events d @ (?x # new1)" using n1 r1 False by simp
    have kx: "row_key ?x = row_key r" by (simp add: row_key_def)
    have "row_key ?x \<notin> stored_keys d
           \<and> (\<exists>r'. find (\<lambda>r'. row_key r' = row_key ?x) (r # rs) = Some r'
                  \<and> ?x = r'\<lparr> row_id := row_id ?x \<rparr>)"
      using False kx by simp
    then have "\<forall>x\<in>set (?x # new1). row_key x \<notin> stored_keys d
           \<and> (\<exists>r'. find (\<lambda>r'. row_key r' = row_key x) (r # rs) = Some r'
                  \<and> x = r'\<lparr> row_id := row_id x \<rparr>)"
      using old by (metis set_ConsD)
    then show ?thesis using e by blast
  qed
qed

lemma db_batch_uploads: "db_batch rs d = Inr (cs, d') \<Longrightarrow> uploads d' = uploads d"
proof (induction rs arbitrary: d cs d')
  case Nil
  then show ?case by simp
next
  case (Cons r rs)
  obtain c d1 cs1 where s1: "insertOrIgnore r d = Inr (c, d1)"
    and s2: "db_batch rs d1 = Inr (cs1, d')"
    using db_batch_Cons[OF Cons.prems] by blast
  show ?case using Cons.IH[OF s2] insertOrIgnore_uploads[OF s1] by simp
qed

text \<open>A batch whose rows name a stored upload does not fail.\<close>

lemma db_batch_total:
  "\<forall>r\<in>set rs. row_file_id r \<in> upload_ids d \<Longrightarrow> \<exists>cs d'. db_batch rs d = Inr (cs, d')"
proof (induction rs arbitrary: d)
  case Nil
  then show ?case by simp
next
  case (Cons r rs)
  obtain c d1 where s1: "insertOrIgnore r d = Inr (c, d1)"
    using insertOrIgnore_total[of r d] Cons.prems by auto
  have "upload_ids d1 = upload_ids d"
    using insertOrIgnore_uploads[OF s1] by (simp add: upload_ids_def)
  then obtain cs1 d2 where "db_batch rs d1 = Inr (cs1, d2)"
    using Cons.IH[of d1] Cons.prems by auto
  then show ?case using s1 by simp
qed

lemma distinct_filter_one:
  "distinct (map f xs) \<Longrightarrow> k \<in> f ` set xs \<Longrightarrow> length (filter (\<lambda>r. f r = k) xs) = Suc 0"
proof (induction xs)
  case Nil
  then show ?case by simp
next
  case (Cons x xs)
  show ?case
  proof (cases "f x = k")
    case True
    then have "k \<notin> f ` set xs" using Cons.prems(1) by auto
    then have "filter (\<lambda>r. f r = k) xs = []" by (auto simp add: filter_empty_conv)
    then show ?thesis using True by simp
  next
    case False
    then show ?thesis using Cons by auto
  qed
qed

lemma unique_rows_with_key:
  "unique_events d \<Longrightarrow> k \<in> stored_keys d \<Longrightarrow> length (rows_with_key k d) = 1"
  using distinct_filter_one[of row_key "waf_events d" k]
  by (simp add: unique_events_def stored_keys_def rows_with_key_def)

lemma bindEvent_key: "row_key (bindEvent now f e) = event_key e"
  by (simp add: row_key_def event_key_def bindEvent_def)

lemma bindEvent_file: "row_file_id (bindEvent now f e) = f"
  by (simp add: bindEvent_def)

lemma find_map: "find Q (map h xs) = map_option h (find (\<lambda>x. Q (h x)) xs)"
  by (induction xs) auto

lemma insertEventBatch_Inr:
  "insertEventBatch now b f d = Inr ((i, dd), d') \<Longrightarrow>
   \<exists>cs. db_batch (map (bindEvent now f) b) d = Inr (cs, d') \<and> tally cs (0, 0) = (i, dd)"
  by (auto simp add: insertEventBatch_def Let_def split: sum.splits prod.splits)

lemma insertEventBatch_props:
  assumes "insertEventBatch now b f d = Inr ((i, dd), d')"
  shows "i + dd = length b"
    and "stored_keys d' = stored_keys d \<union> event_key ` set b"
    and "unique_events d \<Longrightarrow> unique_events d'"
    and "i = card (event_key ` set b - stored_keys d)"
proof -
  obtain cs where s: "db_batch (map (bindEvent now f) b) d = Inr (cs, d')"
     and t: "tally cs (0, 0) = (i, dd)"
    using insertEventBatch_Inr[OF assms] by blast
  note P = db_batch_props[OF s]
  have img: "row_key ` set (map (bindEvent now f) b) = event_key ` set b"
    by (auto simp add: bindEvent_key image_iff)
  have "i = length (filter (\<lambda>c. c > 0) cs)" "dd = length (filter (\<lambda>c. \<not> c > 0) cs)"
    using t by (simp_all add: tally_count)
  then show "i + dd = length b" "i = card (event_key ` set b - stored_keys d)"
    using P img sum_length_filter_compl[of "\<lambda>c. c > 0" cs] by simp_all
  show "stored_keys d' = stored_keys d \<union> event_key ` set b" using P img by simp
  show "unique_events d \<Longrightarrow> unique_events d'" using P by simp
qed

lemma insertEventBatch_rows:
  assumes "insertEventBatch now b f d = Inr (t, d')"
  shows "\<exists>new. waf_events d' = waf_events d @ new
     \<and> (\<forall>x\<in>set new. row_key x \<notin> stored_keys d \<and> row_file_id x = f
           \<and> (\<exists>e. find (\<lambda>e. event_key e = row_key x) b = Some e
                  \<and> x = (bindEvent now f e)\<lparr> row_id := row_id x \<rparr>))"
proof -
  obtain i dd where t: "t = (i, dd)" by (cases t)
  obtain cs where s: "db_batch (map (bindEvent now f) b) d = Inr (cs, d')"
    using insertEventBatch_Inr[OF assms[unfolded t]] by blast
  obtain new where n: "waf_events d' = waf_events d @ new"
    and p: "\<forall>x\<in>set new. row_key x \<notin> stored_keys d
           \<and> (\<exists>r. find (\<lambda>r. row_key r = row_key x) (map (bindEvent now f) b) = Some r
                  \<and> x = r\<lparr> row_id := row_id x \<rparr>)"
    using db_batch_rows[OF s] by blast
  have "row_key x \<notin> stored_keys d \<and> row_file_id x = f
           \<and> (\<exists>e. find (\<lambda>e. event_key e = row_key x) b = Some e
                  \<and> x = (bindEvent now f e)\<lparr> row_id := row_id x \<rparr>)"
    if x: "x \<in> set new" for x
  proof -
    obtain r where r: "find (\<lambda>r. row_key r = row_key x) (map (bindEvent now f) b) = Some r"
      and xr: "x = r\<lparr> row_id := row_id x \<rparr>"
      using p x by blast
    obtain e where e: "find (\<lambda>e. event_key e = row_key x) b = Some e" and re: "r = bindEvent now f e"
      using r by (auto simp add: find_map bindEvent_key)
    have "row_file_id x = f" using xr re by (metis bindEvent_file event_row.select_convs(22) event_row.surjective event_row.update_convs(1))
    then show ?thesis using p x e xr re by blast
  qed
  then show ?thesis using n by blast
qed

lemma insertEventBatch_uploads:
  "insertEventBatch now b f d = Inr (x, d') \<Longrightarrow> uploads d' = uploads d"
  by (auto simp add: insertEventBatch_def Let_def split: sum.splits prod.splits
      dest: db_batch_uploads)

lemma insertEventBatch_total:
  "f \<in> upload_ids d \<Longrightarrow> \<exists>t d'. insertEventBatch now b f d = Inr (t, d')"
proof -
  assume f: "f \<in> upload_ids d"
  have "\<forall>r\<in>set (map (bindEvent now f) b). row_file_id r \<in> upload_ids d"
    using f by (simp add: bindEvent_file)
  then obtain cs d' where "db_batch (map (bindEvent now f) b) d = Inr (cs, d')"
    using db_batch_total by blast
  then show ?thesis by (simp add: insertEventBatch_def)
qed


text \<open>
  A batch that brings a new key under a file id that names no stored upload fails, and
  with it the call.
\<close>

lemma db_batch_foreign_key:
  "\<forall>r\<in>set rs. row_file_id r \<notin> upload_ids d \<Longrightarrow> \<exists>r\<in>set rs. row_key r \<notin> stored_keys d \<Longrightarrow>
   db_batch rs d = Inl ''FOREIGN KEY constraint failed''"
proof (induction rs arbitrary: d)
  case Nil
  then show ?case by simp
next
  case (Cons r rs)
  show ?case
  proof (cases "row_key r \<in> stored_keys d")
    case True
    let ?d1 = "d\<lparr> waf_events_seq := Suc (waf_events_seq d) \<rparr>"
    have s1: "insertOrIgnore r d = Inr (0, ?d1)"
      using True by (simp add: insertOrIgnore_def stored_keys_def)
    have "\<forall>r\<in>set rs. row_file_id r \<notin> upload_ids ?d1"
      using Cons.prems(1) by (simp add: upload_ids_def)
    moreover have "\<exists>r\<in>set rs. row_key r \<notin> stored_keys ?d1"
      using Cons.prems(2) True by (auto simp add: stored_keys_def)
    ultimately have "db_batch rs ?d1 = Inl ''FOREIGN KEY constraint failed''"
      by (rule Cons.IH)
    then show ?thesis using s1 by simp
  next
    case False
    then have "insertOrIgnore r d = Inl ''FOREIGN KEY constraint failed''"
      using Cons.prems(1) by (simp add: insertOrIgnore_def stored_keys_def upload_ids_def)
    then show ?thesis by simp
  qed
qed

lemma insertEventBatch_foreign_key:
  assumes "f \<notin> upload_ids d" and "\<exists>e\<in>set b. event_key e \<notin> stored_keys d"
  shows "insertEventBatch now b f d = Inl ''FOREIGN KEY constraint failed''"
proof -
  have "\<forall>r\<in>set (map (bindEvent now f) b). row_file_id r \<notin> upload_ids d"
    using assms(1) by (simp add: bindEvent_file)
  moreover have "\<exists>r\<in>set (map (bindEvent now f) b). row_key r \<notin> stored_keys d"
    using assms(2) by (simp add: bindEvent_key)
  ultimately have "db_batch (map (bindEvent now f) b) d = Inl ''FOREIGN KEY constraint failed''"
    by (rule db_batch_foreign_key)
  then show ?thesis by (simp add: insertEventBatch_def)
qed

lemma sample_foreign_key:
  "insertEventBatch 1700000100000 [sample_event_a] 1 empty_db
     = Inl ''FOREIGN KEY constraint failed''"
  by code_simp

text \<open>
  C2. Let the store hold at most one event per key. When a first batch holds an event
  with the key (correlation id, timestamp), a second batch holds an event with the same
  key, and both batches complete, then the store still holds at most one event per key and
  holds exactly one event with that key; the second batch counts every one of its events
  once, as inserted or as deduped, and the events with that key are among the deduped: the
  inserted tally is at most the number of the other events of the batch. The second batch
  leaves the stored rows as they were and adds its rows after them, each with a key that
  was not stored and under its own file id, so the one row with the shared key is the row
  stored before the second batch; if the key was new to the store before the first batch,
  that row is, up to its id, what the first batch bound from its first event with the
  key. And a batch completes whenever its file id is the id of a stored upload.
\<close>

theorem event_unique_across_batches:
  assumes u: "unique_events d"
    and b1: "insertEventBatch now1 batch1 f1 d = Inr ((i1, dd1), d1)"
    and b2: "insertEventBatch now2 batch2 f2 d1 = Inr ((i2, dd2), d2)"
    and e1: "e1 \<in> set batch1" and e2: "e2 \<in> set batch2"
    and k: "event_key e1 = event_key e2"
  shows "unique_events d2 \<and> length (rows_with_key (event_key e1) d2) = 1
       \<and> i2 + dd2 = length batch2
       \<and> i2 \<le> length (filter (\<lambda>e. event_key e \<noteq> event_key e1) batch2)
       \<and> length (filter (\<lambda>e. event_key e = event_key e1) batch2) \<le> dd2
       \<and> 1 \<le> dd2
       \<and> rows_with_key (event_key e1) d2 = rows_with_key (event_key e1) d1
       \<and> (\<exists>new. waf_events d2 = waf_events d1 @ new
             \<and> (\<forall>x\<in>set new. row_key x \<notin> stored_keys d1 \<and> row_file_id x = f2))
       \<and> (event_key e1 \<notin> stored_keys d \<longrightarrow>
             (\<exists>e i. find (\<lambda>e. event_key e = event_key e1) batch1 = Some e
                \<and> rows_with_key (event_key e1) d2 = [(bindEvent now1 f1 e)\<lparr> row_id := i \<rparr>]))
       \<and> (f \<in> upload_ids d0 \<longrightarrow> (\<exists>t d'. insertEventBatch now b f d0 = Inr (t, d')))"
proof -
  note P1 = insertEventBatch_props[OF b1]
  note P2 = insertEventBatch_props[OF b2]
  have u1: "unique_events d1" using P1(3) u by simp
  have u2: "unique_events d2" using P2(3) u1 by simp
  have k1: "event_key e1 \<in> stored_keys d1" using P1(2) e1 by auto
  then have k2: "event_key e1 \<in> stored_keys d2" using P2(2) by auto
  have one: "length (rows_with_key (event_key e1) d2) = 1"
    using unique_rows_with_key[OF u2 k2] .
  have sub: "event_key ` set batch2 - stored_keys d1
              \<subseteq> event_key ` set (filter (\<lambda>e. event_key e \<noteq> event_key e1) batch2)"
    using k1 by auto
  have "i2 \<le> card (event_key ` set (filter (\<lambda>e. event_key e \<noteq> event_key e1) batch2))"
    using P2(4) card_mono[OF _ sub] by simp
  also have "\<dots> \<le> length (filter (\<lambda>e. event_key e \<noteq> event_key e1) batch2)"
    using card_image_le[of "set (filter (\<lambda>e. event_key e \<noteq> event_key e1) batch2)" event_key]
          card_length[of "filter (\<lambda>e. event_key e \<noteq> event_key e1) batch2"]
    by simp
  finally have i2: "i2 \<le> length (filter (\<lambda>e. event_key e \<noteq> event_key e1) batch2)" .
  have "length (filter (\<lambda>e. event_key e = event_key e1) batch2)
         + length (filter (\<lambda>e. event_key e \<noteq> event_key e1) batch2) = length batch2"
    using sum_length_filter_compl[of "\<lambda>e. event_key e = event_key e1" batch2] by simp
  then have dd: "length (filter (\<lambda>e. event_key e = event_key e1) batch2) \<le> dd2"
    using P2(1) i2 by linarith
  have "e2 \<in> set (filter (\<lambda>e. event_key e = event_key e1) batch2)" using e2 k by simp
  then have "1 \<le> length (filter (\<lambda>e. event_key e = event_key e1) batch2)"
    by (metis One_nat_def Suc_leI length_pos_if_in_set)
  with dd have dd1: "1 \<le> dd2" by linarith
  obtain new2 where n2: "waf_events d2 = waf_events d1 @ new2"
    and p2: "\<forall>x\<in>set new2. row_key x \<notin> stored_keys d1 \<and> row_file_id x = f2
           \<and> (\<exists>e. find (\<lambda>e. event_key e = row_key x) batch2 = Some e
                  \<and> x = (bindEvent now2 f2 e)\<lparr> row_id := row_id x \<rparr>)"
    using insertEventBatch_rows[OF b2] by blast
  have "filter (\<lambda>r. row_key r = event_key e1) new2 = []"
    using p2 k1 by (auto simp add: filter_empty_conv)
  then have same: "rows_with_key (event_key e1) d2 = rows_with_key (event_key e1) d1"
    using n2 by (simp add: rows_with_key_def)
  have app: "\<exists>new. waf_events d2 = waf_events d1 @ new
             \<and> (\<forall>x\<in>set new. row_key x \<notin> stored_keys d1 \<and> row_file_id x = f2)"
    using n2 p2 by blast
  have first: "\<exists>e i. find (\<lambda>e. event_key e = event_key e1) batch1 = Some e
                \<and> rows_with_key (event_key e1) d2 = [(bindEvent now1 f1 e)\<lparr> row_id := i \<rparr>]"
    if nk: "event_key e1 \<notin> stored_keys d"
  proof -
    obtain new1 where n1: "waf_events d1 = waf_events d @ new1"
      and p1: "\<forall>x\<in>set new1. row_key x \<notin> stored_keys d \<and> row_file_id x = f1
           \<and> (\<exists>e. find (\<lambda>e. event_key e = row_key x) batch1 = Some e
                  \<and> x = (bindEvent now1 f1 e)\<lparr> row_id := row_id x \<rparr>)"
      using insertEventBatch_rows[OF b1] by blast
    have "length (rows_with_key (event_key e1) d1) = 1"
      using unique_rows_with_key[OF u1 k1] .
    then obtain x where x: "rows_with_key (event_key e1) d1 = [x]"
      by (cases "rows_with_key (event_key e1) d1") auto
    then have "x \<in> set (filter (\<lambda>r. row_key r = event_key e1) (waf_events d1))"
      by (simp add: rows_with_key_def)
    then have xin: "x \<in> set (waf_events d1)" and xk: "row_key x = event_key e1" by auto
    have "x \<notin> set (waf_events d)" using nk xk unfolding stored_keys_def by (metis imageI)
    then have "x \<in> set new1" using xin n1 by auto
    then obtain e where "find (\<lambda>e. event_key e = row_key x) batch1 = Some e"
      "x = (bindEvent now1 f1 e)\<lparr> row_id := row_id x \<rparr>"
      using p1 by blast
    then show ?thesis using x xk same by metis
  qed
  have tot: "f \<in> upload_ids d0 \<longrightarrow> (\<exists>t d'. insertEventBatch now b f d0 = Inr (t, d'))"
    using insertEventBatch_total by blast
  show ?thesis using u2 one P2(1) i2 dd dd1 same app first tot by blast
qed

theorem event_unique_across_batches_witness:
  "insertEventBatch 1700000100000 [sample_event_a] 1 sample_db_uploads
     = Inr ((1, 0), snd (projr (insertEventBatch 1700000100000 [sample_event_a] 1
                                  sample_db_uploads)))
   \<and> insertEventBatch 1700000200000
        [sample_event_b, sample_event_a\<lparr> src_country := Some ''DE'' \<rparr>] 2
        (snd (projr (insertEventBatch 1700000100000 [sample_event_a] 1 sample_db_uploads)))
     = Inr ((1, 1), snd (projr (insertEventBatch 1700000200000
              [sample_event_b, sample_event_a\<lparr> src_country := Some ''DE'' \<rparr>] 2
              (snd (projr (insertEventBatch 1700000100000 [sample_event_a] 1
                             sample_db_uploads))))))
   \<and> (\<exists>i. rows_with_key (event_key sample_event_a)
        (snd (projr (insertEventBatch 1700000200000
              [sample_event_b, sample_event_a\<lparr> src_country := Some ''DE'' \<rparr>] 2
              (snd (projr (insertEventBatch 1700000100000 [sample_event_a] 1
                             sample_db_uploads))))))
       = [(bindEvent 1700000100000 1 sample_event_a)\<lparr> row_id := i \<rparr>])
   \<and> unique_events
        (snd (projr (insertEventBatch 1700000200000
              [sample_event_b, sample_event_a\<lparr> src_country := Some ''DE'' \<rparr>] 2
              (snd (projr (insertEventBatch 1700000100000 [sample_event_a] 1
                             sample_db_uploads))))))
   \<and> (\<exists>t d'. insertEventBatch 1700000300000 [sample_event_zero] 2 sample_db_uploads
                = Inr (t, d'))"
proof -
  let ?r1 = "insertEventBatch 1700000100000 [sample_event_a] 1 sample_db_uploads"
  let ?d1 = "snd (projr ?r1)"
  let ?a2 = "sample_event_a\<lparr> src_country := Some ''DE'' \<rparr>"
  let ?r2 = "insertEventBatch 1700000200000 [sample_event_b, ?a2] 2 ?d1"
  let ?d2 = "snd (projr ?r2)"
  have u: "unique_events sample_db_uploads"
    by (simp add: unique_events_def sample_db_uploads_def empty_db_def)
  have nk: "event_key sample_event_a \<notin> stored_keys sample_db_uploads"
    by (simp add: stored_keys_def sample_db_uploads_def empty_db_def)
  have kk: "event_key sample_event_a = event_key ?a2"
    by (simp add: event_key_def)
  have b1: "?r1 = Inr ((1, 0), ?d1)" by code_simp
  have b2: "?r2 = Inr ((1, 1), ?d2)" by code_simp
  have i1: "sample_event_a \<in> set [sample_event_a]" by simp
  have i2: "?a2 \<in> set [sample_event_b, ?a2]" by simp
  note T = event_unique_across_batches[OF u b1 b2 i1 i2 kk]
  have q: "unique_events ?d2" using T by blast
  obtain e i where e: "find (\<lambda>e. event_key e = event_key sample_event_a) [sample_event_a] = Some e"
    and r: "rows_with_key (event_key sample_event_a) ?d2
              = [(bindEvent 1700000100000 1 e)\<lparr> row_id := i \<rparr>]"
    using T nk by blast
  have "e = sample_event_a" using e by simp
  then have w: "\<exists>i. rows_with_key (event_key sample_event_a) ?d2
              = [(bindEvent 1700000100000 1 sample_event_a)\<lparr> row_id := i \<rparr>]"
    using r by blast
  have up: "2 \<in> upload_ids sample_db_uploads"
    by (simp add: upload_ids_def sample_db_uploads_def empty_db_def sample_stale_row_def)
  have tot: "\<exists>t d'. insertEventBatch 1700000300000 [sample_event_zero] 2 sample_db_uploads
                = Inr (t, d')"
    using T up by blast
  show ?thesis using b1 b2 q w tot by blast
qed

section \<open>Checksum/Dedup Gate: results\<close>

text \<open>The batch statements write the events and their counter, and nothing else.\<close>

lemma insertOrIgnore_frame:
  "insertOrIgnore r d = Inr (c, d') \<Longrightarrow>
   d' = d\<lparr> waf_events := waf_events d', waf_events_seq := waf_events_seq d' \<rparr>"
  by (auto simp add: insertOrIgnore_def split: if_splits)

lemma db_batch_frame:
  "db_batch rs d = Inr (cs, d') \<Longrightarrow>
   d' = d\<lparr> waf_events := waf_events d', waf_events_seq := waf_events_seq d' \<rparr>"
proof (induction rs arbitrary: d cs d')
  case Nil
  then show ?case by simp
next
  case (Cons r rs)
  obtain c d1 cs1 where s1: "insertOrIgnore r d = Inr (c, d1)"
    and s2: "db_batch rs d1 = Inr (cs1, d')"
    using db_batch_Cons[OF Cons.prems] by blast
  have "d' = d1\<lparr> waf_events := waf_events d', waf_events_seq := waf_events_seq d' \<rparr>"
    using Cons.IH[OF s2] .
  also have "d1 = d\<lparr> waf_events := waf_events d1, waf_events_seq := waf_events_seq d1 \<rparr>"
    using insertOrIgnore_frame[OF s1] .
  finally show ?case by simp
qed

lemma insertEventBatch_frame:
  "insertEventBatch now b f d = Inr (t, d') \<Longrightarrow>
   d' = d\<lparr> waf_events := waf_events d', waf_events_seq := waf_events_seq d' \<rparr>"
  by (auto simp add: insertEventBatch_def Let_def split: sum.splits prod.splits
      dest: db_batch_frame)

lemma insertBatches_frame:
  "insertBatches now bs evs f acc d = Returned (x, d') \<Longrightarrow>
     d' = d\<lparr> waf_events := waf_events d', waf_events_seq := waf_events_seq d' \<rparr>
   \<and> (\<exists>new. waf_events d' = waf_events d @ new \<and> (\<forall>r\<in>set new. row_file_id r = f))"
proof (induction now bs evs f acc d rule: insertBatches.induct)
  case (1 now batchSize events fileId totalInserted totalDeduped d)
  show ?case
  proof (cases "events = []")
    case True
    then show ?thesis using "1.prems" by (simp add: insertBatches.simps)
  next
    case False
    then have bs: "batchSize \<noteq> 0"
      using "1.prems" by (auto simp add: insertBatches.simps split: if_splits)
    obtain i dd d1 where
      b: "insertEventBatch now (take batchSize events) fileId d = Inr ((i, dd), d1)"
      using "1.prems" False bs
      by (cases "insertEventBatch now (take batchSize events) fileId d")
         (auto simp add: insertBatches.simps)
    have rec: "insertBatches now batchSize (drop batchSize events) fileId
                 (totalInserted + i, totalDeduped + dd) d1 = Returned (x, d')"
      using "1.prems" False bs b by (simp add: insertBatches.simps)
    note IH = "1.IH"[OF False bs b refl refl rec]
    obtain new1 where n1: "waf_events d1 = waf_events d @ new1"
      "\<forall>r\<in>set new1. row_file_id r = fileId"
      using insertEventBatch_rows[OF b] by blast
    obtain new2 where n2: "waf_events d' = waf_events d1 @ new2"
      "\<forall>r\<in>set new2. row_file_id r = fileId"
      using IH by blast
    have "waf_events d' = waf_events d @ (new1 @ new2)
        \<and> (\<forall>r\<in>set (new1 @ new2). row_file_id r = fileId)"
      using n1 n2 by auto
    then have ex: "\<exists>new. waf_events d' = waf_events d @ new \<and> (\<forall>r\<in>set new. row_file_id r = fileId)"
      by blast
    have "d' = d1\<lparr> waf_events := waf_events d', waf_events_seq := waf_events_seq d' \<rparr>"
      using IH by blast
    also have "d1 = d\<lparr> waf_events := waf_events d1, waf_events_seq := waf_events_seq d1 \<rparr>"
      using insertEventBatch_frame[OF b] .
    finally have "d' = d\<lparr> waf_events := waf_events d', waf_events_seq := waf_events_seq d' \<rparr>"
      by simp
    then show ?thesis using ex by blast
  qed
qed

text \<open>The rollup update writes the four rollup tables and the count of blobs drawn.\<close>

lemma updateAnalyticsTables_frame:
  "rollup_tables d (updateAnalyticsTables P i d) = d"
  by (simp add: rollup_tables_def updateAnalyticsTables_def Let_def)

lemma updateAnalyticsTables_uploads: "uploads (updateAnalyticsTables P i d) = uploads d"
  by (simp add: updateAnalyticsTables_def Let_def)

lemma updateAnalyticsTables_events: "waf_events (updateAnalyticsTables P i d) = waf_events d"
  by (simp add: updateAnalyticsTables_def Let_def)

lemma rollup_tables_cong:
  "rollups a = rollups b \<Longrightarrow> rollup_tables a d = rollup_tables b d"
  by (simp add: rollups_def rollup_tables_def)

lemma map_other_ids:
  "\<forall>u\<in>set xs. upload_id u \<noteq> i \<Longrightarrow> map (\<lambda>u. if upload_id u = i then h u else u) xs = xs"
  by (induction xs) auto

text \<open>What an ingestion that returns has made of the store.\<close>

lemma ingestFile_returned_ex:
  assumes ret: "ingestFile P f c bs e = Returned (r, e')"
    and bd: "\<forall>u\<in>set (uploads (DB e)). upload_id u \<le> uploads_seq (DB e)"
  shows "\<exists>row new.
        res_file_id r = Suc (uploads_seq (DB e))
      \<and> (res_status r = Success \<or> res_status r = NoValidEvents)
      \<and> uploads (DB e') = uploads (DB e) @ [row]
      \<and> upload_id row = res_file_id r \<and> checksum row = c \<and> filename row = f_name f
      \<and> (res_status r = Success \<longrightarrow> total_records row = res_total r
            \<and> inserted_records row = res_inserted r \<and> deduped_records row = res_deduped r)
      \<and> waf_events (DB e') = waf_events (DB e) @ new
      \<and> (\<forall>x\<in>set new. row_file_id x = res_file_id r)
      \<and> (res_status r = NoValidEvents \<longrightarrow> new = [] \<and> rollups (DB e') = rollups (DB e))
      \<and> (res_status r = Success \<longrightarrow>
            DB e' = updateAnalyticsTables P (res_file_id r) (rollup_tables (DB e) (DB e')))"
proof -
  obtain fileId d0 where iu:
    "insertUpload (f_name f) c (f_size f) (Date_now P) (DB e) = Some (fileId, d0)"
    using ret by (cases "insertUpload (f_name f) c (f_size f) (Date_now P) (DB e)")
                 (auto simp add: ingestFile_def)
  define new0 where "new0 = \<lparr> upload_id = fileId, filename = f_name f, checksum = c,
      file_size = f_size f, uploaded_at = Date_now P, raw_r2_key = None,
      total_records = Some 0, inserted_records = Some 0, deduped_records = Some 0 \<rparr>"
  have fid: "fileId = Suc (uploads_seq (DB e))"
    and d0: "d0 = (DB e)\<lparr> uploads := uploads (DB e) @ [new0], uploads_seq := fileId \<rparr>"
    using iu by (auto simp add: insertUpload_def new0_def Let_def split: if_splits)
  have oth: "\<forall>u\<in>set (uploads (DB e)). upload_id u \<noteq> fileId" using bd fid by auto
  define h1 where "h1 = (if R2 e \<noteq> None \<and> ENABLE_R2_STORAGE e = Some ''true''
                         then (\<lambda>u::upload_row. u\<lparr> raw_r2_key := Some (''uploads/'' @ c) \<rparr>)
                         else (\<lambda>u. u))"
  define e1 where "e1 = storeRaw f c fileId (e\<lparr> DB := d0 \<rparr>)"
  have m1: "map (\<lambda>u. if upload_id u = fileId then h u else u) (uploads d0)
              = uploads (DB e) @ [h new0]" for h
    using map_other_ids[OF oth] by (simp add: d0 new0_def)
  have db1: "DB e1 = d0\<lparr> uploads := uploads (DB e) @ [h1 new0] \<rparr>"
  proof (cases "R2 e \<noteq> None \<and> ENABLE_R2_STORAGE e = Some ''true''")
    case True
    then have "DB e1 = updateUpload fileId h1 d0"
      by (simp add: e1_def storeRaw_def h1_def Let_def)
    then show ?thesis by (simp add: updateUpload_def m1)
  next
    case False
    then have H: "h1 = (\<lambda>u. u)" unfolding h1_def by (simp only: if_False)
    have E: "e1 = e\<lparr> DB := d0 \<rparr>" unfolding e1_def storeRaw_def using False by auto
    show ?thesis unfolding H E by (simp add: d0)
  qed
  have h1p: "upload_id (h1 new0) = fileId" "checksum (h1 new0) = c"
    "filename (h1 new0) = f_name f"
    by (simp_all add: h1_def new0_def)
  obtain events errors where pc: "parseContent P (f_text f) = (events, errors)"
    by (cases "parseContent P (f_text f)")
  show ?thesis
  proof (cases "length events = 0")
    case True
    define h0 where "h0 = (\<lambda>u::upload_row. u\<lparr> total_records := Some 0 \<rparr>)"
    have r: "res_status r = NoValidEvents" "res_file_id r = fileId"
      and e': "DB e' = updateUpload fileId h0 (DB e1)"
      using ret iu pc True by (auto simp add: ingestFile_def Let_def e1_def[symmetric] h0_def)
    have up: "uploads (DB e') = uploads (DB e) @ [h0 (h1 new0)]"
      using map_other_ids[OF oth, of h0] h1p(1) by (simp add: e' updateUpload_def db1)
    have ev: "waf_events (DB e') = waf_events (DB e) @ []"
      by (simp add: e' updateUpload_def db1 d0)
    have ro: "rollups (DB e') = rollups (DB e)"
      by (simp add: e' updateUpload_def db1 d0 rollups_def)
    have "upload_id (h0 (h1 new0)) = fileId" "checksum (h0 (h1 new0)) = c"
      "filename (h0 (h1 new0)) = f_name f"
      using h1p by (simp_all add: h0_def)
    then show ?thesis using r up ev ro fid by auto
  next
    case False
    obtain ti td d2 where ib:
      "insertBatches (Date_now P) bs events fileId (0, 0) (DB e1) = Returned ((ti, td), d2)"
      using ret iu pc False
      by (cases "insertBatches (Date_now P) bs events fileId (0, 0) (DB e1)")
         (auto simp add: ingestFile_def Let_def e1_def[symmetric])
    define h2 where "h2 = (\<lambda>u::upload_row. u\<lparr> total_records := Some (length events),
                                          inserted_records := Some ti,
                                          deduped_records := Some td \<rparr>)"
    define d3 where "d3 = updateUpload fileId h2 d2"
    have e': "DB e' = updateAnalyticsTables P fileId d3"
      and r: "res_status r = Success" "res_file_id r = fileId" "res_inserted r = Some ti"
         "res_deduped r = Some td" "res_total r = Some (length events)"
      using ret iu pc False ib
      by (auto simp add: ingestFile_def Let_def e1_def[symmetric] h2_def d3_def)
    note F = insertBatches_frame[OF ib]
    obtain new where n: "waf_events d2 = waf_events (DB e1) @ new"
      "\<forall>x\<in>set new. row_file_id x = fileId"
      using F by blast
    have fr: "d2 = (DB e1)\<lparr> waf_events := waf_events d2, waf_events_seq := waf_events_seq d2 \<rparr>"
      using F by blast
    have u2: "uploads d2 = uploads (DB e) @ [h1 new0]"
      using arg_cong[OF fr, of uploads] by (simp add: db1)
    have r2: "rollups d2 = rollups (DB e)"
      using arg_cong[OF fr, of rollups] by (simp add: db1 d0 rollups_def)
    have u3: "uploads d3 = uploads (DB e) @ [h2 (h1 new0)]"
      using map_other_ids[OF oth, of h2] h1p(1) by (simp add: d3_def updateUpload_def u2)
    have r3: "rollups d3 = rollups (DB e)"
      using r2 by (simp add: d3_def updateUpload_def rollups_def)
    have up: "uploads (DB e') = uploads (DB e) @ [h2 (h1 new0)]"
      by (simp add: e' updateAnalyticsTables_uploads u3)
    have ev: "waf_events (DB e') = waf_events (DB e) @ new"
      using n(1) by (simp add: e' updateAnalyticsTables_events d3_def updateUpload_def db1 d0)
    have "rollup_tables (DB e) (DB e') = rollup_tables d3 (updateAnalyticsTables P fileId d3)"
      using rollup_tables_cong[OF r3[symmetric]] e' by simp
    then have ro: "DB e' = updateAnalyticsTables P fileId (rollup_tables (DB e) (DB e'))"
      using e' by (simp add: updateAnalyticsTables_frame)
    have "upload_id (h2 (h1 new0)) = fileId" "checksum (h2 (h1 new0)) = c"
      "filename (h2 (h1 new0)) = f_name f" "total_records (h2 (h1 new0)) = Some (length events)"
      "inserted_records (h2 (h1 new0)) = Some ti" "deduped_records (h2 (h1 new0)) = Some td"
      using h1p by (simp_all add: h2_def)
    then show ?thesis using r up ev ro fid n(2) by auto
  qed
qed


lemma ingestFile_returned:
  assumes ret: "ingestFile P f c bs e = Returned (r, e')"
    and bd: "\<forall>u\<in>set (uploads (DB e)). upload_id u \<le> uploads_seq (DB e)"
  shows "(res_status r = Success \<or> res_status r = NoValidEvents)
      \<and> res_file_id r = Suc (uploads_seq (DB e))
      \<and> (\<exists>row new.
        uploads (DB e') = uploads (DB e) @ [row]
      \<and> upload_id row = res_file_id r \<and> checksum row = c \<and> filename row = f_name f
      \<and> (res_status r = Success \<longrightarrow> total_records row = res_total r
            \<and> inserted_records row = res_inserted r \<and> deduped_records row = res_deduped r)
      \<and> waf_events (DB e') = waf_events (DB e) @ new
      \<and> (\<forall>x\<in>set new. row_file_id x = res_file_id r)
      \<and> (res_status r = NoValidEvents \<longrightarrow> new = [] \<and> rollups (DB e') = rollups (DB e))
      \<and> (res_status r = Success \<longrightarrow>
            DB e' = updateAnalyticsTables P (res_file_id r) (rollup_tables (DB e) (DB e'))))"
proof -
  obtain row new where X: "res_file_id r = Suc (uploads_seq (DB e))
      \<and> (res_status r = Success \<or> res_status r = NoValidEvents)
      \<and> uploads (DB e') = uploads (DB e) @ [row]
      \<and> upload_id row = res_file_id r \<and> checksum row = c \<and> filename row = f_name f
      \<and> (res_status r = Success \<longrightarrow> total_records row = res_total r
            \<and> inserted_records row = res_inserted r \<and> deduped_records row = res_deduped r)
      \<and> waf_events (DB e') = waf_events (DB e) @ new
      \<and> (\<forall>x\<in>set new. row_file_id x = res_file_id r)
      \<and> (res_status r = NoValidEvents \<longrightarrow> new = [] \<and> rollups (DB e') = rollups (DB e))
      \<and> (res_status r = Success \<longrightarrow>
            DB e' = updateAnalyticsTables P (res_file_id r) (rollup_tables (DB e) (DB e')))"
    using ingestFile_returned_ex[OF ret bd] by blast
  show ?thesis
  proof (intro conjI)
    show "res_status r = Success \<or> res_status r = NoValidEvents" using X by blast
    show "res_file_id r = Suc (uploads_seq (DB e))" using X by blast
    have "uploads (DB e') = uploads (DB e) @ [row]
      \<and> upload_id row = res_file_id r \<and> checksum row = c \<and> filename row = f_name f
      \<and> (res_status r = Success \<longrightarrow> total_records row = res_total r
            \<and> inserted_records row = res_inserted r \<and> deduped_records row = res_deduped r)
      \<and> waf_events (DB e') = waf_events (DB e) @ new
      \<and> (\<forall>x\<in>set new. row_file_id x = res_file_id r)
      \<and> (res_status r = NoValidEvents \<longrightarrow> new = [] \<and> rollups (DB e') = rollups (DB e))
      \<and> (res_status r = Success \<longrightarrow>
            DB e' = updateAnalyticsTables P (res_file_id r) (rollup_tables (DB e) (DB e')))"
      using X[THEN conjunct2, THEN conjunct2] .
    then show "\<exists>row new.
        uploads (DB e') = uploads (DB e) @ [row]
      \<and> upload_id row = res_file_id r \<and> checksum row = c \<and> filename row = f_name f
      \<and> (res_status r = Success \<longrightarrow> total_records row = res_total r
            \<and> inserted_records row = res_inserted r \<and> deduped_records row = res_deduped r)
      \<and> waf_events (DB e') = waf_events (DB e) @ new
      \<and> (\<forall>x\<in>set new. row_file_id x = res_file_id r)
      \<and> (res_status r = NoValidEvents \<longrightarrow> new = [] \<and> rollups (DB e') = rollups (DB e))
      \<and> (res_status r = Success \<longrightarrow>
            DB e' = updateAnalyticsTables P (res_file_id r) (rollup_tables (DB e) (DB e')))"
      by (intro exI)
  qed
qed

lemma insertBatches_uploads:
  "insertBatches now bs evs f acc d = Returned (x, d') \<Longrightarrow> uploads d' = uploads d"
proof -
  assume "insertBatches now bs evs f acc d = Returned (x, d')"
  then have fr: "d' = d\<lparr> waf_events := waf_events d', waf_events_seq := waf_events_seq d' \<rparr>"
    using insertBatches_frame by blast
  show ?thesis using arg_cong[OF fr, of uploads] by simp
qed

lemma find_map_checksum:
  "(\<And>u. checksum (h u) = checksum u) \<Longrightarrow>
   find (\<lambda>u. checksum u = c) (map h xs) = map_option h (find (\<lambda>u. checksum u = c) xs)"
  by (induction xs) auto

lemma find_append_new:
  "c \<notin> checksum ` set xs \<Longrightarrow> checksum new = c \<Longrightarrow>
   find (\<lambda>u. checksum u = c) (xs @ [new]) = Some new"
  by (induction xs) auto

lemma find_filter_None:
  "distinct (map checksum xs) \<Longrightarrow> find (\<lambda>u. checksum u = c) xs = Some u \<Longrightarrow>
   find (\<lambda>u. checksum u = c) (filter (\<lambda>v. upload_id v \<noteq> upload_id u) xs) = None"
proof (induction xs)
  case Nil
  then show ?case by simp
next
  case (Cons x xs)
  show ?case
  proof (cases "checksum x = c")
    case True
    then have "x = u" using Cons.prems(2) by simp
    moreover have "c \<notin> checksum ` set xs" using Cons.prems(1) True by auto
    ultimately show ?thesis by (auto simp add: find_None_iff)
  next
    case False
    then show ?thesis using Cons by (auto simp add: find_None_iff)
  qed
qed

text \<open>After an ingestion the lookup by checksum finds the row the ingestion created.\<close>

lemma uploadByChecksum_after_ingest:
  assumes iu: "insertUpload fname c sz now d = Some (fileId, d0)"
    and h1: "\<And>u. checksum (h1 u) = checksum u" "\<And>u. upload_id (h1 u) = upload_id u"
    and h2: "\<And>u. checksum (h2 u) = checksum u"
    and up: "uploads d2 = map (\<lambda>u. if upload_id u = fileId then h1 u else u) (uploads d0)"
  shows "\<exists>new. upload_id new = fileId \<and>
      uploadByChecksum c (updateAnalyticsTables P fileId (updateUpload fileId h2 d2))
        = Some (h2 (h1 new))"
proof -
  define new where "new = \<lparr> upload_id = fileId, filename = fname, checksum = c, file_size = sz,
                          uploaded_at = now, raw_r2_key = None, total_records = Some 0,
                          inserted_records = Some 0, deduped_records = Some 0 \<rparr>"
  have nc: "c \<notin> checksum ` set (uploads d)" and u0: "uploads d0 = uploads d @ [new]"
    using iu by (auto simp add: insertUpload_def new_def Let_def split: if_splits)
  let ?g1 = "\<lambda>u. if upload_id u = fileId then h1 u else u"
  let ?g2 = "\<lambda>u. if upload_id u = fileId then h2 u else u"
  have g1: "\<And>u. checksum (?g1 u) = checksum u" using h1 by simp
  have g2: "\<And>u. checksum (?g2 u) = checksum u" using h2 by simp
  have "uploads (updateAnalyticsTables P fileId (updateUpload fileId h2 d2))
          = map ?g2 (map ?g1 (uploads d @ [new]))"
    using up u0 by (simp add: updateAnalyticsTables_uploads updateUpload_def)
  then have "uploadByChecksum c (updateAnalyticsTables P fileId (updateUpload fileId h2 d2))
          = map_option ?g2 (map_option ?g1 (find (\<lambda>u. checksum u = c) (uploads d @ [new])))"
    unfolding uploadByChecksum_def
    by (simp only: find_map_checksum[of ?g2, OF g2] find_map_checksum[of ?g1, OF g1])
  also have "\<dots> = Some (?g2 (?g1 new))"
    using find_append_new[OF nc, of new] by (simp add: new_def)
  also have "?g2 (?g1 new) = h2 (h1 new)" using h1(2) by (simp add: new_def)
  finally have "uploadByChecksum c (updateAnalyticsTables P fileId (updateUpload fileId h2 d2))
          = Some (h2 (h1 new))" .
  moreover have "upload_id new = fileId" by (simp add: new_def)
  ultimately show ?thesis by blast
qed

lemma ingestFile_success:
  assumes ret: "ingestFile P f c bs e = Returned (r, e1)" and st: "res_status r = Success"
  shows "\<exists>row. uploadByChecksum c (DB e1) = Some row \<and> upload_id row = res_file_id r
            \<and> inserted_records row = res_inserted r \<and> deduped_records row = res_deduped r
            \<and> total_records row = res_total r"
proof -
  obtain fileId d0 where iu:
    "insertUpload (f_name f) c (f_size f) (Date_now P) (DB e) = Some (fileId, d0)"
    using ret by (cases "insertUpload (f_name f) c (f_size f) (Date_now P) (DB e)")
                 (auto simp add: ingestFile_def)
  define h1 where "h1 = (if R2 e \<noteq> None \<and> ENABLE_R2_STORAGE e = Some ''true''
                         then (\<lambda>u::upload_row. u\<lparr> raw_r2_key := Some (''uploads/'' @ c) \<rparr>)
                         else (\<lambda>u. u))"
  define e1' where "e1' = storeRaw f c fileId (e\<lparr> DB := d0 \<rparr>)"
  have u1: "uploads (DB e1') = map (\<lambda>u. if upload_id u = fileId then h1 u else u) (uploads d0)"
  proof (cases "R2 e \<noteq> None \<and> ENABLE_R2_STORAGE e = Some ''true''")
    case True
    then show ?thesis by (simp add: e1'_def storeRaw_def h1_def updateUpload_def Let_def)
  next
    case False
    then have H: "h1 = (\<lambda>u. u)" unfolding h1_def by (simp only: if_False)
    have E: "e1' = e\<lparr> DB := d0 \<rparr>" unfolding e1'_def storeRaw_def using False by auto
    show ?thesis unfolding H E by simp
  qed
  obtain events errors where pc: "parseContent P (f_text f) = (events, errors)"
    by (cases "parseContent P (f_text f)")
  have ne: "length events \<noteq> 0"
  proof
    assume "length events = 0"
    then have "res_status r = NoValidEvents"
      using ret iu pc by (auto simp add: ingestFile_def Let_def)
    then show False using st by simp
  qed
  obtain ti td d2 where ib:
    "insertBatches (Date_now P) bs events fileId (0, 0) (DB e1') = Returned ((ti, td), d2)"
    using ret iu pc ne
    by (cases "insertBatches (Date_now P) bs events fileId (0, 0) (DB e1')")
       (auto simp add: ingestFile_def Let_def e1'_def[symmetric])
  define h2 where "h2 = (\<lambda>u::upload_row. u\<lparr> total_records := Some (length events),
                                        inserted_records := Some ti,
                                        deduped_records := Some td \<rparr>)"
  have e1: "DB e1 = updateAnalyticsTables P fileId (updateUpload fileId h2 d2)"
    and r: "res_file_id r = fileId" "res_inserted r = Some ti" "res_deduped r = Some td"
       "res_total r = Some (length events)"
    using ret iu pc ne ib
    by (auto simp add: ingestFile_def Let_def e1'_def[symmetric] h2_def)
  have u2: "uploads d2 = map (\<lambda>u. if upload_id u = fileId then h1 u else u) (uploads d0)"
    using insertBatches_uploads[OF ib] u1 by simp
  have c1: "\<And>u. checksum (h1 u) = checksum u" "\<And>u. upload_id (h1 u) = upload_id u"
    by (simp_all add: h1_def)
  have c2: "\<And>u. checksum (h2 u) = checksum u" by (simp add: h2_def)
  obtain new where "upload_id new = fileId"
    "uploadByChecksum c (updateAnalyticsTables P fileId (updateUpload fileId h2 d2))
        = Some (h2 (h1 new))"
    using uploadByChecksum_after_ingest[OF iu c1 c2 u2] by blast
  then show ?thesis using e1 r by (auto simp add: h1_def h2_def)
qed

lemma processFile_success_ingest:
  assumes "processFile P f e bs = Returned (r, e1)" and "res_status r = Success"
  shows "\<exists>e0. ingestFile P f (computeChecksum P (f_text f)) bs e0 = Returned (r, e1)"
proof (cases "uploadByChecksum (computeChecksum P (f_text f)) (DB e)")
  case None
  then show ?thesis using assms(1) by (auto simp add: processFile_def)
next
  case (Some u)
  show ?thesis
  proof (cases "or_zero (inserted_records u) = 0")
    case True
    then show ?thesis using assms(1) Some by (auto simp add: processFile_def Let_def)
  next
    case False
    then have "res_status r = AlreadyProcessed"
      using assms(1) Some by (auto simp add: processFile_def Let_def)
    then show ?thesis using assms(2) by simp
  qed
qed

text \<open>
  C1. Let the checksum of the uploaded text match an upload row \<open>u\<close>. If the inserted
  count of \<open>u\<close> is greater than zero, \<^verbatim>\<open>processFile\<close> returns \<^verbatim>\<open>already_processed\<close>
  with the id and the stored total, inserted and deduped counts of \<open>u\<close>; the environment
  it returns is the one it was given (nothing is written), and the result does not depend
  on the parsers (nothing is parsed). If the inserted count of \<open>u\<close> is zero (or
  \<^verbatim>\<open>NULL\<close>), \<^verbatim>\<open>processFile\<close> is the ingestion run on the store without \<open>u\<close>: the
  delete removes the rows of \<open>u\<close>'s id from \<^verbatim>\<open>uploads\<close> and from \<^verbatim>\<open>waf_events\<close> and
  leaves every other row and table as it was; with checksums unique in \<^verbatim>\<open>uploads\<close>, no
  row of that store has the checksum, and \<^verbatim>\<open>processFile\<close> gives what it gives on that
  store, where the file is new. When it returns (the ids in \<^verbatim>\<open>uploads\<close> being at most
  the counter of the table), the answer is a success or \<^verbatim>\<open>no_valid_events\<close> under the
  next id; the uploads are the other rows as they were, then the row of the new id, with
  the checksum, the file name and, on success, the counts of the answer; the events are
  those of the other files as they were, then rows under the new id; the rollups are those
  given when no event was parsed, and on success they are the given ones after the rollup
  update for the new id. And an upload that succeeded with \<open>n > 0\<close> inserted rows answers
  \<^verbatim>\<open>already_processed\<close> with \<open>inserted = n\<close> when the same file is uploaded again, and
  changes nothing.
\<close>

theorem processFile_dedup_gate:
  "(uploadByChecksum (computeChecksum P (f_text f)) (DB e) = Some u
      \<and> 0 < or_zero (inserted_records u) \<longrightarrow>
        (\<exists>r. processFile P f e batchSize = Returned (r, e)
            \<and> res_status r = AlreadyProcessed \<and> res_file_id r = upload_id u
            \<and> res_inserted r = Some (or_zero (inserted_records u))
            \<and> res_deduped r = Some (or_zero (deduped_records u))
            \<and> res_total r = Some (or_zero (total_records u)))
        \<and> processFile (P\<lparr> JSON_parse := jp, Date_parse := dp \<rparr>) f e batchSize
            = processFile P f e batchSize)
   \<and> (uploadByChecksum (computeChecksum P (f_text f)) (DB e) = Some u
      \<and> or_zero (inserted_records u) = 0 \<longrightarrow>
        processFile P f e batchSize
          = ingestFile P f (computeChecksum P (f_text f)) batchSize
              (e\<lparr> DB := deleteUpload (upload_id u) (DB e) \<rparr>)
        \<and> u \<notin> set (uploads (deleteUpload (upload_id u) (DB e)))
        \<and> (distinct (map checksum (uploads (DB e))) \<longrightarrow>
              uploadByChecksum (computeChecksum P (f_text f))
                (deleteUpload (upload_id u) (DB e)) = None
            \<and> processFile P f e batchSize
                = processFile P f (e\<lparr> DB := deleteUpload (upload_id u) (DB e) \<rparr>) batchSize)
        \<and> deleteUpload (upload_id u) (DB e)
            = (DB e)\<lparr> uploads := filter (\<lambda>x. upload_id x \<noteq> upload_id u) (uploads (DB e)),
                       waf_events := filter (\<lambda>x. row_file_id x \<noteq> upload_id u)
                                       (waf_events (DB e)) \<rparr>
        \<and> (processFile P f e batchSize = Returned (r0, e0)
            \<and> (\<forall>x\<in>set (uploads (DB e)). upload_id x \<le> uploads_seq (DB e)) \<longrightarrow>
              (res_status r0 = Success \<or> res_status r0 = NoValidEvents)
            \<and> res_file_id r0 = Suc (uploads_seq (DB e))
            \<and> (\<exists>row new.
                  uploads (DB e0)
                    = filter (\<lambda>x. upload_id x \<noteq> upload_id u) (uploads (DB e)) @ [row]
                \<and> upload_id row = res_file_id r0
                \<and> checksum row = computeChecksum P (f_text f)
                \<and> filename row = f_name f
                \<and> (res_status r0 = Success \<longrightarrow> total_records row = res_total r0
                      \<and> inserted_records row = res_inserted r0
                      \<and> deduped_records row = res_deduped r0)
                \<and> waf_events (DB e0)
                    = filter (\<lambda>x. row_file_id x \<noteq> upload_id u) (waf_events (DB e)) @ new
                \<and> (\<forall>x\<in>set new. row_file_id x = res_file_id r0)
                \<and> (res_status r0 = NoValidEvents \<longrightarrow>
                      new = [] \<and> rollups (DB e0) = rollups (DB e))
                \<and> (res_status r0 = Success \<longrightarrow>
                      DB e0 = updateAnalyticsTables P (res_file_id r0)
                                (rollup_tables (DB e) (DB e0))))))
   \<and> (processFile P f e batchSize = Returned (r1, e1) \<and> res_status r1 = Success
      \<and> res_inserted r1 = Some n \<and> 0 < n \<longrightarrow>
        (\<exists>r2. processFile P f e1 batchSize = Returned (r2, e1)
            \<and> res_status r2 = AlreadyProcessed \<and> res_inserted r2 = Some n
            \<and> res_file_id r2 = res_file_id r1))"
proof (intro conjI impI)
  assume a: "uploadByChecksum (computeChecksum P (f_text f)) (DB e) = Some u
      \<and> 0 < or_zero (inserted_records u)"
  then show "\<exists>r. processFile P f e batchSize = Returned (r, e)
            \<and> res_status r = AlreadyProcessed \<and> res_file_id r = upload_id u
            \<and> res_inserted r = Some (or_zero (inserted_records u))
            \<and> res_deduped r = Some (or_zero (deduped_records u))
            \<and> res_total r = Some (or_zero (total_records u))"
    by (simp add: processFile_def Let_def)
  show "processFile (P\<lparr> JSON_parse := jp, Date_parse := dp \<rparr>) f e batchSize
            = processFile P f e batchSize"
    using a by (simp add: processFile_def Let_def computeChecksum_def)
next
  assume a: "uploadByChecksum (computeChecksum P (f_text f)) (DB e) = Some u
      \<and> or_zero (inserted_records u) = 0"
  then show p: "processFile P f e batchSize
          = ingestFile P f (computeChecksum P (f_text f)) batchSize
              (e\<lparr> DB := deleteUpload (upload_id u) (DB e) \<rparr>)"
    by (simp add: processFile_def Let_def)
  show "u \<notin> set (uploads (deleteUpload (upload_id u) (DB e)))"
    by (simp add: deleteUpload_def)
  show n: "uploadByChecksum (computeChecksum P (f_text f))
                (deleteUpload (upload_id u) (DB e)) = None"
    if d: "distinct (map checksum (uploads (DB e)))"
    using find_filter_None[OF d] a by (simp add: uploadByChecksum_def deleteUpload_def)
  show "processFile P f e batchSize
                = processFile P f (e\<lparr> DB := deleteUpload (upload_id u) (DB e) \<rparr>) batchSize"
    if d: "distinct (map checksum (uploads (DB e)))"
    using p n[OF d] by (simp add: processFile_def Let_def)
  show del: "deleteUpload (upload_id u) (DB e)
            = (DB e)\<lparr> uploads := filter (\<lambda>x. upload_id x \<noteq> upload_id u) (uploads (DB e)),
                       waf_events := filter (\<lambda>x. row_file_id x \<noteq> upload_id u)
                                       (waf_events (DB e)) \<rparr>"
    by (simp add: deleteUpload_def)
  let ?e = "e\<lparr> DB := deleteUpload (upload_id u) (DB e) \<rparr>"
  have f1: "uploads (DB ?e) = filter (\<lambda>x. upload_id x \<noteq> upload_id u) (uploads (DB e))"
    and f2: "waf_events (DB ?e)
              = filter (\<lambda>x. row_file_id x \<noteq> upload_id u) (waf_events (DB e))"
    and f3: "uploads_seq (DB ?e) = uploads_seq (DB e)"
    and f4: "rollups (DB ?e) = rollups (DB e)"
    and f5: "rollup_tables (DB ?e) x = rollup_tables (DB e) x" for x
    by (simp_all add: deleteUpload_def rollups_def rollup_tables_def)
  assume b: "processFile P f e batchSize = Returned (r0, e0)
            \<and> (\<forall>x\<in>set (uploads (DB e)). upload_id x \<le> uploads_seq (DB e))"
  have ret: "ingestFile P f (computeChecksum P (f_text f)) batchSize ?e = Returned (r0, e0)"
    using b p by simp
  have bd: "\<forall>x\<in>set (uploads (DB ?e)). upload_id x \<le> uploads_seq (DB ?e)"
    using b by (simp add: deleteUpload_def)
  note R = ingestFile_returned[OF ret bd]
  show "res_status r0 = Success \<or> res_status r0 = NoValidEvents"
    using R by (rule conjunct1)
  show "res_file_id r0 = Suc (uploads_seq (DB e))"
    using R[THEN conjunct2, THEN conjunct1] unfolding f3 .
  show "\<exists>row new.
                  uploads (DB e0)
                    = filter (\<lambda>x. upload_id x \<noteq> upload_id u) (uploads (DB e)) @ [row]
                \<and> upload_id row = res_file_id r0
                \<and> checksum row = computeChecksum P (f_text f)
                \<and> filename row = f_name f
                \<and> (res_status r0 = Success \<longrightarrow> total_records row = res_total r0
                      \<and> inserted_records row = res_inserted r0
                      \<and> deduped_records row = res_deduped r0)
                \<and> waf_events (DB e0)
                    = filter (\<lambda>x. row_file_id x \<noteq> upload_id u) (waf_events (DB e)) @ new
                \<and> (\<forall>x\<in>set new. row_file_id x = res_file_id r0)
                \<and> (res_status r0 = NoValidEvents \<longrightarrow>
                      new = [] \<and> rollups (DB e0) = rollups (DB e))
                \<and> (res_status r0 = Success \<longrightarrow>
                      DB e0 = updateAnalyticsTables P (res_file_id r0)
                                (rollup_tables (DB e) (DB e0)))"
    using R[THEN conjunct2, THEN conjunct2] unfolding f1 f2 f4 f5 .
next
  assume a: "processFile P f e batchSize = Returned (r1, e1) \<and> res_status r1 = Success
      \<and> res_inserted r1 = Some n \<and> 0 < n"
  then obtain e0 where
    "ingestFile P f (computeChecksum P (f_text f)) batchSize e0 = Returned (r1, e1)"
    using processFile_success_ingest by blast
  then obtain row where "uploadByChecksum (computeChecksum P (f_text f)) (DB e1) = Some row"
     "upload_id row = res_file_id r1" "inserted_records row = res_inserted r1"
    using ingestFile_success a by blast
  then show "\<exists>r2. processFile P f e1 batchSize = Returned (r2, e1)
            \<and> res_status r2 = AlreadyProcessed \<and> res_inserted r2 = Some n
            \<and> res_file_id r2 = res_file_id r1"
    using a by (simp add: processFile_def Let_def or_zero_def)
qed

lemma sample_upload_a:
  "processFile sample_platform sample_file_a sample_env 1000
     = Returned
        (\<lparr> res_filename = ''a.ndjson'', res_checksum = ''61792d61'', res_status = Success,
            res_file_id = 1, res_inserted = Some 1, res_deduped = Some 0, res_total = Some 1,
            res_errors = Some [], res_parse_errors = None,
            res_time_range = Some (1700000000000, 1700000000000), res_note = None \<rparr>,
         after_upload sample_file_a sample_env)"
  by code_simp

lemma sample_upload_stale:
  "processFile sample_platform sample_file_a sample_env_stale 1000
     = Returned
        (\<lparr> res_filename = ''a.ndjson'', res_checksum = ''61792d61'', res_status = Success,
            res_file_id = 3, res_inserted = Some 1, res_deduped = Some 0, res_total = Some 1,
            res_errors = Some [], res_parse_errors = None,
            res_time_range = Some (1700000000000, 1700000000000), res_note = None \<rparr>,
         after_upload sample_file_a sample_env_stale)"
  by code_simp

theorem processFile_dedup_gate_witness:
  "(\<exists>r2. processFile sample_platform sample_file_a (after_upload sample_file_a sample_env) 1000
            = Returned (r2, after_upload sample_file_a sample_env)
          \<and> res_status r2 = AlreadyProcessed \<and> res_inserted r2 = Some 1 \<and> res_file_id r2 = 1)
   \<and> processFile sample_platform sample_file_a sample_env_stale 1000
       = processFile sample_platform sample_file_a
           (sample_env_stale\<lparr> DB := deleteUpload 2 (DB sample_env_stale) \<rparr>) 1000
   \<and> deleteUpload 2 (DB sample_env_stale)
       = (DB (after_upload sample_file_b sample_env))\<lparr> uploads_seq := 2, waf_events_seq := 2 \<rparr>
   \<and> (\<exists>row new.
         uploads (DB (after_upload sample_file_a sample_env_stale))
           = uploads (DB (after_upload sample_file_b sample_env)) @ [row]
       \<and> upload_id row = 3 \<and> filename row = ''a.ndjson'' \<and> inserted_records row = Some 1
       \<and> waf_events (DB (after_upload sample_file_a sample_env_stale))
           = waf_events (DB (after_upload sample_file_b sample_env)) @ new
       \<and> list_all (\<lambda>x. row_file_id x = 3) new
       \<and> DB (after_upload sample_file_a sample_env_stale)
           = updateAnalyticsTables sample_platform 3
               (rollup_tables (DB sample_env_stale)
                  (DB (after_upload sample_file_a sample_env_stale))))
   \<and> map (\<lambda>r. (row_ray_id r, row_file_id r))
        (waf_events (DB (after_upload sample_file_a sample_env_stale)))
       = [(''ray-b'', 1), (''ray-a'', 3)]"
proof -
  let ?r = "\<lparr> res_filename = ''a.ndjson'', res_checksum = ''61792d61'', res_status = Success,
            res_file_id = 3, res_inserted = Some 1, res_deduped = Some 0, res_total = Some 1,
            res_errors = Some [], res_parse_errors = None,
            res_time_range = Some (1700000000000, 1700000000000), res_note = None \<rparr>"
  let ?e = "after_upload sample_file_a sample_env_stale"
  have 1: "\<exists>r2. processFile sample_platform sample_file_a
                  (after_upload sample_file_a sample_env) 1000
            = Returned (r2, after_upload sample_file_a sample_env)
          \<and> res_status r2 = AlreadyProcessed \<and> res_inserted r2 = Some 1 \<and> res_file_id r2 = 1"
    using processFile_dedup_gate
            [where P = sample_platform and f = sample_file_a and e = sample_env
               and batchSize = 1000 and n = 1
               and ?e1.0 = "after_upload sample_file_a sample_env"
               and ?r1.0 = "\<lparr> res_filename = ''a.ndjson'', res_checksum = ''61792d61'',
                    res_status = Success, res_file_id = 1, res_inserted = Some 1,
                    res_deduped = Some 0, res_total = Some 1, res_errors = Some [],
                    res_parse_errors = None,
                    res_time_range = Some (1700000000000, 1700000000000),
                    res_note = None \<rparr>"]
          sample_upload_a
    by simp
  have s: "uploadByChecksum (computeChecksum sample_platform (f_text sample_file_a))
             (DB sample_env_stale) = Some sample_stale_row"
    by code_simp
  have z: "or_zero (inserted_records sample_stale_row) = 0"
    by (simp add: sample_stale_row_def or_zero_def)
  have d: "distinct (map checksum (uploads (DB sample_env_stale)))"
    by code_simp
  have bd: "\<forall>x\<in>set (uploads (DB sample_env_stale)).
              upload_id x \<le> uploads_seq (DB sample_env_stale)"
    by code_simp
  have i: "upload_id sample_stale_row = 2" by (simp add: sample_stale_row_def)
  have c: "computeChecksum sample_platform (f_text sample_file_a) = ''61792d61''"
    by code_simp
  have fl: "filter (\<lambda>x. upload_id x \<noteq> 2) (uploads (DB sample_env_stale))
              = uploads (DB (after_upload sample_file_b sample_env))"
    "filter (\<lambda>x. row_file_id x \<noteq> 2) (waf_events (DB sample_env_stale))
              = waf_events (DB (after_upload sample_file_b sample_env))"
    by code_simp+
  note T = processFile_dedup_gate
            [where P = sample_platform and f = sample_file_a and e = sample_env_stale
               and batchSize = 1000 and u = sample_stale_row and ?r0.0 = ?r and ?e0.0 = ?e]
  have 2: "processFile sample_platform sample_file_a sample_env_stale 1000
       = processFile sample_platform sample_file_a
           (sample_env_stale\<lparr> DB := deleteUpload 2 (DB sample_env_stale) \<rparr>) 1000"
    using T s z d unfolding i by blast
  have "deleteUpload 2 (DB sample_env_stale)
       = (DB sample_env_stale)\<lparr> uploads := filter (\<lambda>x. upload_id x \<noteq> 2)
                                              (uploads (DB sample_env_stale)),
            waf_events := filter (\<lambda>x. row_file_id x \<noteq> 2) (waf_events (DB sample_env_stale)) \<rparr>"
    using T s z unfolding i by blast
  also have "\<dots> = (DB (after_upload sample_file_b sample_env))\<lparr> uploads_seq := 2,
                      waf_events_seq := 2 \<rparr>"
    unfolding fl by (simp add: sample_env_stale_def Let_def)
  finally have 3: "deleteUpload 2 (DB sample_env_stale)
       = (DB (after_upload sample_file_b sample_env))\<lparr> uploads_seq := 2, waf_events_seq := 2 \<rparr>" .
  have "\<exists>row new.
                  uploads (DB ?e)
                    = filter (\<lambda>x. upload_id x \<noteq> 2) (uploads (DB sample_env_stale)) @ [row]
                \<and> upload_id row = res_file_id ?r
                \<and> checksum row = computeChecksum sample_platform (f_text sample_file_a)
                \<and> filename row = f_name sample_file_a
                \<and> (res_status ?r = Success \<longrightarrow> total_records row = res_total ?r
                      \<and> inserted_records row = res_inserted ?r
                      \<and> deduped_records row = res_deduped ?r)
                \<and> waf_events (DB ?e)
                    = filter (\<lambda>x. row_file_id x \<noteq> 2) (waf_events (DB sample_env_stale)) @ new
                \<and> (\<forall>x\<in>set new. row_file_id x = res_file_id ?r)
                \<and> (res_status ?r = NoValidEvents \<longrightarrow>
                      new = [] \<and> rollups (DB ?e) = rollups (DB sample_env_stale))
                \<and> (res_status ?r = Success \<longrightarrow>
                      DB ?e = updateAnalyticsTables sample_platform (res_file_id ?r)
                                (rollup_tables (DB sample_env_stale) (DB ?e)))"
    using T s z sample_upload_stale bd unfolding i by blast
  then have 4: "\<exists>row new.
         uploads (DB ?e) = uploads (DB (after_upload sample_file_b sample_env)) @ [row]
       \<and> upload_id row = 3 \<and> filename row = ''a.ndjson'' \<and> inserted_records row = Some 1
       \<and> waf_events (DB ?e) = waf_events (DB (after_upload sample_file_b sample_env)) @ new
       \<and> list_all (\<lambda>x. row_file_id x = 3) new
       \<and> DB ?e = updateAnalyticsTables sample_platform 3
                   (rollup_tables (DB sample_env_stale) (DB ?e))"
    unfolding fl by (auto simp add: sample_file_a_def list_all_iff)
  have 5: "map (\<lambda>r. (row_ray_id r, row_file_id r)) (waf_events (DB ?e))
       = [(''ray-b'', 1), (''ray-a'', 3)]"
    by code_simp
  show ?thesis using 1 2 3 4 5 by blast
qed

section \<open>Upload and reindex parse differently\<close>

lemma reindexParse_agrees:
  "(\<exists>e. JSON_parse P content = Inl e) \<or> (\<exists>data. JSON_parse P content = Inr (JArr data)) \<Longrightarrow>
   reindexParse P content = parseContent P content"
  by (auto simp add: reindexParse_def parseContent_def)

lemma reindexParse_non_array:
  "JSON_parse P content = Inr v \<Longrightarrow> \<forall>data. v \<noteq> JArr data \<Longrightarrow>
   reindexParse P content = ([], [])"
  by (cases v) (simp_all add: reindexParse_def)

text \<open>
  C9, at the failing input: a file that holds one JSON object on one line. The whole text
  parses as JSON and is not an array; \<^verbatim>\<open>parseContent\<close> goes on to the lines and gives
  the event, the parsing inside \<^verbatim>\<open>handleReindex\<close> gives nothing.
\<close>

theorem reindexParse_differs_on_single_object:
  "JSON_parse sample_platform sample_line_a = Inr sample_record_a
   \<and> parseContent sample_platform sample_line_a = ([sample_event_a], [])
   \<and> reindexParse sample_platform sample_line_a = ([], [])"
  by code_simp

section \<open>Analytics Rollup Updater: results\<close>

text \<open>
  With hashes that are new to the table, which is what random blobs are, the update of the
  paths adds one row for each group of the file and changes no stored row.
\<close>

lemma upsert_fresh: "\<forall>r\<in>set tbl. \<not> conflict r \<Longrightarrow> upsert conflict upd new tbl = tbl @ [new]"
  by (induction tbl) auto

lemma paths_upsert_fresh:
  "ap_path_hash x \<notin> ap_path_hash ` set tbl \<Longrightarrow> paths_upsert P x tbl = tbl @ [x]"
proof -
  assume a: "ap_path_hash x \<notin> ap_path_hash ` set tbl"
  have "\<forall>r\<in>set tbl. \<not> ap_path_hash r = ap_path_hash x"
    using a by (metis imageI)
  then show ?thesis unfolding paths_upsert_def by (rule upsert_fresh)
qed

lemma fold_paths_upsert_fresh:
  "distinct (map ap_path_hash sel) \<Longrightarrow>
   ap_path_hash ` set sel \<inter> ap_path_hash ` set tbl = {} \<Longrightarrow>
   fold (paths_upsert P) sel tbl = tbl @ sel"
proof (induction sel arbitrary: tbl)
  case Nil
  then show ?case by simp
next
  case (Cons x sel)
  have f: "paths_upsert P x tbl = tbl @ [x]"
    using Cons.prems(2) by (intro paths_upsert_fresh) auto
  have "fold (paths_upsert P) sel (tbl @ [x]) = (tbl @ [x]) @ sel"
    using Cons.prems by (intro Cons.IH) auto
  then show ?case using f by simp
qed


lemma paths_selected_updates:
  "paths_selected P fileId (d\<lparr> daily_actions := a \<rparr>) = paths_selected P fileId d"
  "paths_selected P fileId (d\<lparr> top_rules := b \<rparr>) = paths_selected P fileId d"
  "paths_selected P fileId (d\<lparr> top_ips := c \<rparr>) = paths_selected P fileId d"
  by (simp_all add: paths_selected_def file_rows_def)

lemma updateAnalyticsTables_attack_paths:
  "attack_paths (updateAnalyticsTables P fileId d)
     = fold (paths_upsert P) (paths_selected P fileId d) (attack_paths d)"
  by (simp add: updateAnalyticsTables_def Let_def paths_selected_updates)

lemma updateAnalyticsTables_paths_appended:
  assumes "distinct (map ap_path_hash (paths_selected P fileId d))"
    and "ap_path_hash ` set (paths_selected P fileId d) \<inter> ap_path_hash ` set (attack_paths d) = {}"
  shows "attack_paths (updateAnalyticsTables P fileId d)
           = attack_paths d @ paths_selected P fileId d"
  using assms by (simp add: updateAnalyticsTables_attack_paths fold_paths_upsert_fresh)

text \<open>
  C5, at the failing input: two files, each with one event for the same path, method and
  status, uploaded one after the other. The table of paths then holds two rows for that
  key, each with count 1, under two different hashes.
\<close>

theorem attack_paths_second_row_for_same_key:
  "map (\<lambda>r. (ap_path r, ap_method r, ap_status r, ap_count r))
       (attack_paths (DB (after_upload sample_file_a sample_env)))
     = [(''/login'', Some ''POST'', Some 403, 1)]
   \<and> map (\<lambda>r. (ap_path r, ap_method r, ap_status r, ap_count r))
       (attack_paths (DB (after_upload sample_file_b (after_upload sample_file_a sample_env))))
     = [(''/login'', Some ''POST'', Some 403, 1), (''/login'', Some ''POST'', Some 403, 1)]"
  by code_simp

text \<open>
  On a conflict the row of a source IP keeps its country and ASN sets: the count grows by
  the number of the file's events from that IP and last-seen becomes the maximum.
\<close>

lemma ips_selected_updates:
  "ips_selected P fileId (d\<lparr> daily_actions := a \<rparr>) = ips_selected P fileId d"
  "ips_selected P fileId (d\<lparr> top_rules := b \<rparr>) = ips_selected P fileId d"
  by (simp_all add: ips_selected_def file_rows_def)

lemma updateAnalyticsTables_top_ips:
  "top_ips (updateAnalyticsTables P fileId d)
     = fold (ips_upsert P) (ips_selected P fileId d) (top_ips d)"
  by (simp add: updateAnalyticsTables_def Let_def ips_selected_updates)

lemma find_ips_upsert_hit:
  "find (\<lambda>r. ti_src_ip r = ip) tbl = Some old \<Longrightarrow> ti_src_ip x = ip \<Longrightarrow>
   find (\<lambda>r. ti_src_ip r = ip) (ips_upsert P x tbl) = Some (ip_merge P x old)"
  by (induction tbl) (auto simp add: ips_upsert_def ip_merge_def split: if_splits)

lemma find_ips_upsert_miss:
  "ti_src_ip x \<noteq> ip \<Longrightarrow>
   find (\<lambda>r. ti_src_ip r = ip) (ips_upsert P x tbl) = find (\<lambda>r. ti_src_ip r = ip) tbl"
  by (induction tbl) (auto simp add: ips_upsert_def)

lemma find_fold_ips_miss:
  "ip \<notin> ti_src_ip ` set sel \<Longrightarrow>
   find (\<lambda>r. ti_src_ip r = ip) (fold (ips_upsert P) sel tbl) = find (\<lambda>r. ti_src_ip r = ip) tbl"
  by (induction sel arbitrary: tbl) (auto simp add: find_ips_upsert_miss)

lemma find_fold_ips_hit:
  "distinct (map ti_src_ip sel) \<Longrightarrow> x \<in> set sel \<Longrightarrow> ti_src_ip x = ip \<Longrightarrow>
   find (\<lambda>r. ti_src_ip r = ip) tbl = Some old \<Longrightarrow>
   find (\<lambda>r. ti_src_ip r = ip) (fold (ips_upsert P) sel tbl) = Some (ip_merge P x old)"
proof (induction sel arbitrary: tbl old)
  case Nil
  then show ?case by simp
next
  case (Cons y sel)
  show ?case
  proof (cases "y = x")
    case True
    have "ip \<notin> ti_src_ip ` set sel" using Cons.prems(1,3) True by auto
    then show ?thesis
      using True Cons.prems(3,4) by (simp add: find_fold_ips_miss find_ips_upsert_hit)
  next
    case False
    then have xin: "x \<in> set sel" using Cons.prems(2) by simp
    then have "ti_src_ip y \<noteq> ip" using Cons.prems(1,3) by auto
    then have "find (\<lambda>r. ti_src_ip r = ip) (ips_upsert P y tbl) = Some old"
      using Cons.prems(4) by (simp add: find_ips_upsert_miss)
    then show ?thesis using Cons.IH[OF _ xin Cons.prems(3)] Cons.prems(1) by simp
  qed
qed

lemma agg_max_Some: "xs \<noteq> [] \<Longrightarrow> agg_max (map Some xs) = Some (Max (set xs))"
proof (induction xs)
  case Nil
  then show ?case by simp
next
  case (Cons a xs)
  show ?case
  proof (cases "xs = []")
    case True
    then show ?thesis by simp
  next
    case False
    then show ?thesis using Cons.IH by (simp add: max.commute)
  qed
qed

lemma filter_Some_filter:
  "filter (\<lambda>r. f r = Some k) (filter (\<lambda>r. f r \<noteq> None) xs) = filter (\<lambda>r. f r = Some k) xs"
  by (induction xs) auto

lemma ips_selected_props:
  assumes g: "g = filter (\<lambda>r. row_src_ip r = Some ip) (file_rows fileId d)" and ne: "g \<noteq> []"
  shows "distinct (map ti_src_ip (ips_selected P fileId d))"
    and "\<exists>x\<in>set (ips_selected P fileId d). ti_src_ip x = ip \<and> ti_count x = length g
           \<and> ti_countries x = remdups (map row_src_country g)
           \<and> ti_asns x = remdups (map row_src_asn g)
           \<and> ti_last_seen x = Some (Max (row_event_ts ` set g))"
proof -
  let ?rows = "filter (\<lambda>r. row_src_ip r \<noteq> None) (file_rows fileId d)"
  let ?keys = "group_keys row_src_ip ?rows"
  have kd: "distinct ?keys" by (simp add: group_keys_def)
  have ks: "\<forall>k\<in>set ?keys. k \<noteq> None" by (auto simp add: group_keys_def)
  have inj: "inj_on the (set ?keys)"
  proof (rule inj_onI)
    fix a b assume A: "a \<in> set ?keys" and B: "b \<in> set ?keys" and E: "the a = the b"
    have "a \<noteq> None" using A ks by blast
    then obtain a' where a: "a = Some a'" by blast
    have "b \<noteq> None" using B ks by blast
    then obtain b' where b: "b = Some b'" by blast
    show "a = b" using E a b by simp
  qed
  have m: "map ti_src_ip (ips_selected P fileId d) = map the ?keys"
    by (simp add: ips_selected_def Let_def comp_def)
  show "distinct (map ti_src_ip (ips_selected P fileId d))"
    unfolding m using kd inj by (simp add: distinct_map)
  have gg: "group_of row_src_ip ?rows (Some ip) = g"
    unfolding g group_of_def by (rule filter_Some_filter)
  obtain r where "r \<in> set g" using ne by (cases g) auto
  then have kin: "Some ip \<in> set ?keys"
    unfolding g by (auto simp add: group_keys_def image_iff)
  define mk where "mk = (\<lambda>k. let gr = group_of row_src_ip ?rows k in
                \<lparr> ti_src_ip = the k, ti_count = length gr,
                  ti_countries = remdups (map row_src_country gr),
                  ti_asns = remdups (map row_src_asn gr),
                  ti_last_seen = agg_max (map (Some \<circ> row_event_ts) gr),
                  ti_last_updated = last_updated_now P \<rparr>)"
  have sel: "ips_selected P fileId d = map mk ?keys"
    by (simp add: ips_selected_def mk_def Let_def)
  have min: "mk (Some ip) \<in> set (ips_selected P fileId d)"
    unfolding sel using kin by (simp only: set_map imageI)
  have am: "agg_max (map (Some \<circ> row_event_ts) g) = Some (Max (row_event_ts ` set g))"
    using agg_max_Some[of "map row_event_ts g"] ne by simp
  have "ti_src_ip (mk (Some ip)) = ip \<and> ti_count (mk (Some ip)) = length g
           \<and> ti_countries (mk (Some ip)) = remdups (map row_src_country g)
           \<and> ti_asns (mk (Some ip)) = remdups (map row_src_asn g)
           \<and> ti_last_seen (mk (Some ip)) = Some (Max (row_event_ts ` set g))"
    unfolding mk_def Let_def gg am by simp
  then show "\<exists>x\<in>set (ips_selected P fileId d). ti_src_ip x = ip \<and> ti_count x = length g
           \<and> ti_countries x = remdups (map row_src_country g)
           \<and> ti_asns x = remdups (map row_src_asn g)
           \<and> ti_last_seen x = Some (Max (row_event_ts ` set g))"
    using min by blast
qed

lemma top_ips_conflict:
  assumes old: "find (\<lambda>r. ti_src_ip r = ip) (top_ips d) = Some old"
    and g: "g = filter (\<lambda>r. row_src_ip r = Some ip) (file_rows fileId d)" and ne: "g \<noteq> []"
  shows "\<exists>new. find (\<lambda>r. ti_src_ip r = ip) (top_ips (updateAnalyticsTables P fileId d)) = Some new
      \<and> ti_countries new = ti_countries old \<and> ti_asns new = ti_asns old
      \<and> ti_count new = ti_count old + length g
      \<and> ti_last_seen new = sql_max2 (ti_last_seen old) (Some (Max (row_event_ts ` set g)))"
proof -
  note S = ips_selected_props[OF g ne, of P]
  obtain x where x: "x \<in> set (ips_selected P fileId d)" "ti_src_ip x = ip"
    "ti_count x = length g" "ti_last_seen x = Some (Max (row_event_ts ` set g))"
    using S(2) by blast
  have "find (\<lambda>r. ti_src_ip r = ip) (top_ips (updateAnalyticsTables P fileId d))
          = Some (ip_merge P x old)"
    unfolding updateAnalyticsTables_top_ips
    using find_fold_ips_hit[OF S(1) x(1) x(2) old] .
  then show ?thesis using x by (simp add: ip_merge_def)
qed

text \<open>
  C4, at the failing input: the second file brings the same source IP with another country
  and another ASN. The stored row accumulates the count and takes the later last-seen, and
  its country and ASN sets stay those of the first file.
\<close>

theorem top_ips_sets_not_merged:
  "map (\<lambda>r. (ti_src_ip r, ti_count r, ti_countries r, ti_asns r, ti_last_seen r))
       (top_ips (DB (after_upload sample_file_a sample_env)))
     = [(''192.0.2.1'', 1, [Some ''US''], [Some 64500], Some 1700000000000)]
   \<and> map (\<lambda>r. (row_src_ip r, row_src_country r, row_src_asn r))
       (file_rows 2 (DB (after_upload sample_file_b (after_upload sample_file_a sample_env))))
     = [(Some ''192.0.2.1'', Some ''DE'', Some 64501)]
   \<and> map (\<lambda>r. (ti_src_ip r, ti_count r, ti_countries r, ti_asns r, ti_last_seen r))
       (top_ips (DB (after_upload sample_file_b (after_upload sample_file_a sample_env))))
     = [(''192.0.2.1'', 2, [Some ''US''], [Some 64500], Some 1700000050000)]"
  by code_simp

section \<open>Reindex Coordinator: results\<close>

lemma db_batch_rollups: "db_batch rs d = Inr (cs, d') \<Longrightarrow> rollups d' = rollups d"
proof -
  assume "db_batch rs d = Inr (cs, d')"
  then have fr: "d' = d\<lparr> waf_events := waf_events d', waf_events_seq := waf_events_seq d' \<rparr>"
    by (rule db_batch_frame)
  show ?thesis using arg_cong[OF fr, of rollups] by (simp add: rollups_def)
qed

text \<open>The batch loop of the reindex ends when the step is positive, and keeps the rollups.\<close>

lemma reindexBatches_rollups:
  "reindexBatches now bs evs f acc d = Returned (x, d')
     \<or> reindexBatches now bs evs f acc d = Threw err d' \<Longrightarrow> rollups d' = rollups d"
proof (induction now bs evs f acc d rule: reindexBatches.induct)
  case (1 now batchSize events fileId totalInserted totalDeduped d)
  show ?case
  proof (cases "events = []")
    case True
    then show ?thesis using "1.prems" by (simp add: reindexBatches.simps)
  next
    case False
    then have bs: "batchSize \<noteq> 0"
      using "1.prems" by (auto simp add: reindexBatches.simps split: if_splits)
    show ?thesis
    proof (cases "db_batch (map (bindEvent now fileId) (take batchSize events)) d")
      case (Inl msg)
      then show ?thesis using "1.prems" False bs by (simp add: reindexBatches.simps)
    next
      case (Inr p)
      obtain results d1 where p: "p = (results, d1)" by (cases p)
      have b: "db_batch (map (bindEvent now fileId) (take batchSize events)) d
                 = Inr (results, d1)"
        using Inr p by simp
      have rec: "reindexBatches now batchSize (drop batchSize events) fileId
                   (tally results (totalInserted, totalDeduped)) d1 = Returned (x, d')
               \<or> reindexBatches now batchSize (drop batchSize events) fileId
                   (tally results (totalInserted, totalDeduped)) d1 = Threw err d'"
        using "1.prems" False bs b by (simp add: reindexBatches.simps)
      have "rollups d' = rollups d1"
        using "1.IH"[OF False bs refl b refl rec] .
      then show ?thesis using db_batch_rollups[OF b] by simp
    qed
  qed
qed

lemma reindexBatches_modelled:
  "0 < bs \<Longrightarrow> reindexBatches now bs evs f acc d \<noteq> Unmodelled"
proof (induction now bs evs f acc d rule: reindexBatches.induct)
  case (1 now batchSize events fileId totalInserted totalDeduped d)
  show ?case
  proof (cases "events = []")
    case True
    then show ?thesis by (simp add: reindexBatches.simps)
  next
    case False
    have bs: "batchSize \<noteq> 0" using "1.prems" by simp
    show ?thesis
    proof (cases "db_batch (map (bindEvent now fileId) (take batchSize events)) d")
      case (Inl msg)
      then show ?thesis using False bs by (simp add: reindexBatches.simps)
    next
      case (Inr p)
      obtain results d1 where p: "p = (results, d1)" by (cases p)
      have b: "db_batch (map (bindEvent now fileId) (take batchSize events)) d
                 = Inr (results, d1)"
        using Inr p by simp
      show ?thesis
        using "1.IH"[OF False bs refl b refl "1.prems"] False bs b
        by (simp add: reindexBatches.simps)
    qed
  qed
qed

lemma updateUpload_rollups: "rollups (updateUpload i h d) = rollups d"
  by (simp add: updateUpload_def rollups_def)

lemma reindex_inserted_rollups:
  assumes ret: "reindex_inserted e info events errors x = Returned (resp, e')"
    and ok: "\<And>v d2. x = Returned (v, d2) \<Longrightarrow> rollups d2 = rollups (DB e)"
    and ko: "\<And>err d2. x = Threw err d2 \<Longrightarrow> rollups d2 = rollups (DB e)"
  shows "rollups (DB e') = rollups (DB e)"
proof (cases x)
  case (Returned p)
  obtain ti td d2 where p: "p = ((ti, td), d2)" by (metis prod.exhaust)
  have "rollups (DB e') = rollups d2"
    using ret unfolding Returned p by (auto simp add: updateUpload_rollups)
  also have "\<dots> = rollups (DB e)" by (rule ok) (simp add: Returned p)
  finally show ?thesis .
next
  case (Threw err d2)
  have "DB e' = d2" using ret unfolding Threw by auto
  then show ?thesis using ko[OF Threw] by simp
next
  case Unmodelled
  then show ?thesis using ret by simp
qed

lemma reindex_inserted_returns:
  assumes "x \<noteq> Unmodelled"
  shows "\<exists>resp e'. reindex_inserted e info events errors x = Returned (resp, e')"
proof (cases x)
  case (Returned p)
  obtain ti td d2 where p: "p = ((ti, td), d2)" by (metis prod.exhaust)
  show ?thesis unfolding Returned p by simp
next
  case (Threw err d2)
  show ?thesis unfolding Threw by simp
next
  case Unmodelled
  then show ?thesis using assms by simp
qed

text \<open>
  C3, as the code has it. Whenever \<^verbatim>\<open>handleReindex\<close> answers, be it with the success
  object or with an error, the four rollup tables and the count of blobs drawn are what
  they were before the request: the reindex runs no rollup update. It answers whenever the
  configured batch size is a positive integer.
\<close>

theorem handleReindex_rollups_unchanged:
  "(handleReindex P body e = Returned (resp, e') \<longrightarrow> rollups (DB e') = rollups (DB e))
   \<and> (0 < configuredBatchSize e \<longrightarrow>
        (\<exists>resp e'. handleReindex P body e = Returned (resp, e')))"
proof (intro conjI impI)
  assume ret: "handleReindex P body e = Returned (resp, e')"
  have ins: "rollups (DB e2) = rollups (DB e)"
    if "reindex_parsed P e info pe = Returned (resp, e2)" for info pe e2
  proof -
    obtain events errors where pe: "pe = (events, errors)" by (cases pe)
    let ?d1 = "(DB e)\<lparr> waf_events :=
               filter (\<lambda>r. row_file_id r \<noteq> upload_id info) (waf_events (DB e)) \<rparr>"
    let ?x = "reindexBatches (Date_now P) (configuredBatchSize e) events (upload_id info)
                (0, 0) ?d1"
    have d1: "rollups ?d1 = rollups (DB e)" by (simp add: rollups_def)
    have a: "rollups d2 = rollups (DB e)" if "?x = Returned (v, d2)" for v d2
      using reindexBatches_rollups[of "Date_now P" "configuredBatchSize e" events
          "upload_id info" "(0, 0)" ?d1 v d2] that d1 by simp
    have b: "rollups d2 = rollups (DB e)" if "?x = Threw err d2" for err d2
      using reindexBatches_rollups[of "Date_now P" "configuredBatchSize e" events
          "upload_id info" "(0, 0)" ?d1 _ d2 err] that d1 by simp
    have "reindex_inserted e info events errors ?x = Returned (resp, e2)"
      using \<open>reindex_parsed P e info pe = Returned (resp, e2)\<close> pe by simp
    then show ?thesis by (rule reindex_inserted_rollups) (use a b in blast)+
  qed
  have con: "rollups (DB e2) = rollups (DB e)"
    if "reindex_content P e info c = Returned (resp, e2)" for info c e2
    using that ins by (cases c) auto
  have fnd: "rollups (DB e2) = rollups (DB e)"
    if "reindex_found P e fi = Returned (resp, e2)" for fi e2
    using that con by (cases fi) (auto split: if_splits)
  show "rollups (DB e') = rollups (DB e)"
    using ret fnd by (auto simp add: handleReindex_code split: if_splits)
next
  assume bs: "0 < configuredBatchSize e"
  have ins: "\<exists>resp e'. reindex_parsed P e info pe = Returned (resp, e')" for info pe
  proof -
    obtain events errors where pe: "pe = (events, errors)" by (cases pe)
    show ?thesis
      unfolding pe reindex_parsed.simps
      by (rule reindex_inserted_returns) (rule reindexBatches_modelled[OF bs])
  qed
  have con: "\<exists>resp e'. reindex_content P e info c = Returned (resp, e')" for info c
    using ins by (cases c) auto
  have fnd: "\<exists>resp e'. reindex_found P e fi = Returned (resp, e')" for fi
    using con by (cases fi) auto
  show "\<exists>resp e'. handleReindex P body e = Returned (resp, e')"
    using fnd by (simp add: handleReindex_code)
qed

lemma sample_reindex_ab:
  "handleReindex sample_platform \<lparr> body_checksum = None, body_file_id = Some 1 \<rparr> sample_env_ab
     = Returned
         (\<lparr> resp_status = 200, resp_body = ReindexOk 1 ''ab.ndjson'' 2 2 0 [] \<rparr>,
          sample_env_ab\<lparr> DB := (DB sample_env_ab)\<lparr>
             waf_events := map (\<lambda>r. r\<lparr> row_id := row_id r + 2 \<rparr>) (waf_events (DB sample_env_ab)),
             waf_events_seq := 4 \<rparr> \<rparr>)"
  by code_simp

theorem handleReindex_rollups_unchanged_witness:
  "handleReindex sample_platform \<lparr> body_checksum = None, body_file_id = Some 1 \<rparr> sample_env_ab
     = Returned
         (\<lparr> resp_status = 200, resp_body = ReindexOk 1 ''ab.ndjson'' 2 2 0 [] \<rparr>,
          sample_env_ab\<lparr> DB := (DB sample_env_ab)\<lparr>
             waf_events := map (\<lambda>r. r\<lparr> row_id := row_id r + 2 \<rparr>) (waf_events (DB sample_env_ab)),
             waf_events_seq := 4 \<rparr> \<rparr>)
   \<and> rollups (DB (sample_env_ab\<lparr> DB := (DB sample_env_ab)\<lparr>
             waf_events := map (\<lambda>r. r\<lparr> row_id := row_id r + 2 \<rparr>) (waf_events (DB sample_env_ab)),
             waf_events_seq := 4 \<rparr> \<rparr>))
       = rollups (DB sample_env_ab)
   \<and> 0 < configuredBatchSize sample_env_ab
   \<and> (\<exists>resp e'. handleReindex sample_platform \<lparr> body_checksum = Some ''61792d62'',
          body_file_id = None \<rparr> sample_env_ab = Returned (resp, e'))"
proof -
  have b: "0 < configuredBatchSize sample_env_ab" by code_simp
  have 1: "rollups (DB (sample_env_ab\<lparr> DB := (DB sample_env_ab)\<lparr>
             waf_events := map (\<lambda>r. r\<lparr> row_id := row_id r + 2 \<rparr>) (waf_events (DB sample_env_ab)),
             waf_events_seq := 4 \<rparr> \<rparr>))
       = rollups (DB sample_env_ab)"
    using handleReindex_rollups_unchanged
            [where P = sample_platform and e = sample_env_ab
               and body = "\<lparr> body_checksum = None, body_file_id = Some 1 \<rparr>"]
          sample_reindex_ab
    by blast
  have 2: "\<exists>resp e'. handleReindex sample_platform \<lparr> body_checksum = Some ''61792d62'',
          body_file_id = None \<rparr> sample_env_ab = Returned (resp, e')"
    using handleReindex_rollups_unchanged
            [where P = sample_platform and e = sample_env_ab
               and body = "\<lparr> body_checksum = Some ''61792d62'', body_file_id = None \<rparr>"] b
    by blast
  show ?thesis using sample_reindex_ab 1 b 2 by blast
qed

text \<open>
  At the sample input: the two-line sample file was uploaded with retention on, and a
  reindex of it is requested by file id. The reindex succeeds and inserts both events
  again, under new row ids; the environment it leaves differs from the one before only in
  the event rows, so the four rollup tables are the ones the upload left. Running
  \<^verbatim>\<open>updateAnalyticsTables\<close> for the file, as the upload path does, would have
  changed them.
\<close>

theorem reindex_leaves_rollups_untouched:
  "handleReindex sample_platform \<lparr> body_checksum = None, body_file_id = Some 1 \<rparr> sample_env_ab
     = Returned
         (\<lparr> resp_status = 200, resp_body = ReindexOk 1 ''ab.ndjson'' 2 2 0 [] \<rparr>,
          sample_env_ab\<lparr> DB := (DB sample_env_ab)\<lparr>
             waf_events := map (\<lambda>r. r\<lparr> row_id := row_id r + 2 \<rparr>) (waf_events (DB sample_env_ab)),
             waf_events_seq := 4 \<rparr> \<rparr>)
   \<and> map ti_count (top_ips (DB sample_env_ab)) = [2]
   \<and> map ti_count (top_ips (updateAnalyticsTables sample_platform 1 (DB sample_env_ab))) = [4]"
  by code_simp

end
